theory Spec2Isabelle
  imports Main "HOL-Library.Sublist"
begin


section \<open>Strings\<close>

text \<open>
  A Go \<^verbatim>\<open>string\<close> and a Go \<^verbatim>\<open>[]byte\<close> are both sequences of bytes; both are modelled
  as \<^typ>\<open>string\<close>, whose characters are bytes. Text is UTF-8 encoded, so a code point
  beyond ASCII is several characters.
\<close>

type_synonym bytes = string

text \<open>\<^verbatim>\<open>strings.Contains(s, substr)\<close>: \<open>substr\<close> occurs in \<open>s\<close> as a contiguous run.\<close>

fun Contains :: "string \<Rightarrow> string \<Rightarrow> bool" where
  "Contains [] substr = (substr = [])"
| "Contains (c # cs) substr = (prefix substr (c # cs) \<or> Contains cs substr)"

text \<open>
  The number of positions of \<open>s\<close> at which \<open>substr\<close> occurs, overlapping occurrences
  included: \<open>s\<close> contains \<open>substr\<close> exactly once when this number is 1.
\<close>

fun occurrences :: "string \<Rightarrow> string \<Rightarrow> nat" where
  "occurrences [] substr = (if substr = [] then 1 else 0)"
| "occurrences (c # cs) substr =
     (if prefix substr (c # cs) then 1 else 0) + occurrences cs substr"

text \<open>
  The UTF-8 encodings of the code points for which \<^verbatim>\<open>unicode.IsSpace\<close> holds: the ASCII
  characters tab, line feed, vertical tab, form feed, carriage return and space, then
  U+0085, U+00A0, U+1680, U+2000 to U+200A, U+2028, U+2029, U+202F, U+205F and U+3000.
\<close>

definition spaceRunes :: "string list" where
  "spaceRunes =
    [[CHR 0x09], [CHR 0x0A], [CHR 0x0B], [CHR 0x0C], [CHR 0x0D], [CHR 0x20],
     [CHR 0xC2, CHR 0x85], [CHR 0xC2, CHR 0xA0],
     [CHR 0xE1, CHR 0x9A, CHR 0x80],
     [CHR 0xE2, CHR 0x80, CHR 0x80], [CHR 0xE2, CHR 0x80, CHR 0x81],
     [CHR 0xE2, CHR 0x80, CHR 0x82], [CHR 0xE2, CHR 0x80, CHR 0x83],
     [CHR 0xE2, CHR 0x80, CHR 0x84], [CHR 0xE2, CHR 0x80, CHR 0x85],
     [CHR 0xE2, CHR 0x80, CHR 0x86], [CHR 0xE2, CHR 0x80, CHR 0x87],
     [CHR 0xE2, CHR 0x80, CHR 0x88], [CHR 0xE2, CHR 0x80, CHR 0x89],
     [CHR 0xE2, CHR 0x80, CHR 0x8A],
     [CHR 0xE2, CHR 0x80, CHR 0xA8], [CHR 0xE2, CHR 0x80, CHR 0xA9],
     [CHR 0xE2, CHR 0x80, CHR 0xAF],
     [CHR 0xE2, CHR 0x81, CHR 0x9F],
     [CHR 0xE3, CHR 0x80, CHR 0x80]]"

text \<open>
  The number of bytes of the rune at the front of \<open>s\<close> when that rune is one of \<open>runes\<close>,
  and 0 otherwise (also for an empty rune, which is never stripped).
\<close>

fun leadingRune :: "string list \<Rightarrow> string \<Rightarrow> nat" where
  "leadingRune [] s = 0"
| "leadingRune (r # rs) s = (if r \<noteq> [] \<and> prefix r s then length r else leadingRune rs s)"

lemma leadingRune_le: "leadingRune rs s \<le> length s"
  by (induction rs) (auto simp: prefix_length_le)

text \<open>
  \<^verbatim>\<open>strings.TrimLeftFunc\<close> for a predicate given by the encodings of the runes it accepts:
  runes are removed from the front while they are accepted.
\<close>

function trimLeftRunes :: "string list \<Rightarrow> string \<Rightarrow> string" where
  "trimLeftRunes rs s =
     (if leadingRune rs s = 0 then s else trimLeftRunes rs (drop (leadingRune rs s) s))"
  by pat_completeness auto
termination
proof (relation "measure (\<lambda>(rs, s). length s)")
  show "wf (measure (\<lambda>(rs, s). length s))" by simp
next
  fix rs :: "string list" and s :: string
  assume "leadingRune rs s \<noteq> 0"
  moreover have "leadingRune rs s \<le> length s" by (rule leadingRune_le)
  ultimately show "((rs, drop (leadingRune rs s) s), (rs, s)) \<in> measure (\<lambda>(rs, s). length s)"
    by simp
qed

declare trimLeftRunes.simps [simp del]

text \<open>
  \<^verbatim>\<open>strings.TrimSpace(s)\<close>: the leading white space is removed, then the trailing white
  space. The last rune of a string is a white-space rune exactly when the string ends with
  one of the encodings, so trailing white space is removed on the reversed string.
\<close>

definition TrimSpace :: "string \<Rightarrow> string" where
  "TrimSpace s =
     rev (trimLeftRunes (map rev spaceRunes) (rev (trimLeftRunes spaceRunes s)))"

text \<open>
  \<^verbatim>\<open>strings.TrimRight(s, cutset)\<close> for a cutset of ASCII characters: the trailing bytes
  that belong to the cutset are removed.
\<close>

definition TrimRight :: "string \<Rightarrow> string \<Rightarrow> string" where
  "TrimRight s cutset = rev (dropWhile (\<lambda>c. c \<in> set cutset) (rev s))"

section \<open>Errors\<close>

text \<open>
  A Go \<^verbatim>\<open>error\<close> value. \<open>Errorf\<close> is \<^verbatim>\<open>fmt.Errorf\<close> with a format and its string
  arguments; \<open>Wrapf\<close> is \<^verbatim>\<open>fmt.Errorf\<close> whose format has one \<^verbatim>\<open>%w\<close> verb, the wrapped
  error last; \<open>Wrapf2\<close> is the format with a \<^verbatim>\<open>%w\<close> and a \<^verbatim>\<open>%v\<close> error argument.
  \<open>ErrorResponse\<close> is go-github's \<^verbatim>\<open>*github.ErrorResponse\<close>: the status code of its
  HTTP response (\<open>None\<close> when \<^verbatim>\<open>Response\<close> is nil), its message and the messages of
  its error items. \<open>OtherError\<close> is any other error of a collaborator.
\<close>

datatype error =
    ErrUnmanagedPullRequest
  | Errorf string "string list"
  | Wrapf string "string list" error
  | Wrapf2 string error error
  | ErrorResponse "nat option" string "string list"
  | OtherError string

section \<open>Requests and results\<close>

record URL =
  Scheme :: string
  Host :: string
  Path :: string
  RawQuery :: string

record ProfileSettings =
  URL :: "URL option"
  Seconds :: int
  Headers :: "string \<rightharpoonup> string"

record RepositorySettings =
  Owner :: string
  Name :: string
  PGOPath :: string
  BaseBranch :: string
  HeadBranch :: string

record PullRequestSettings =
  Title :: string
  Body :: string
  ManagedByMarker :: string

record CommitSettings =
  Message :: string

record RunRequest =
  Profile :: ProfileSettings
  Repository :: RepositorySettings
  PullRequest :: PullRequestSettings
  Commit :: CommitSettings

definition defaultProfileSeconds :: int where
  "defaultProfileSeconds = 30"

definition defaultHeadBranch :: string where
  "defaultHeadBranch = ''cpgo''"

definition defaultManagedByMarker :: string where
  "defaultManagedByMarker = ''<!-- managed-by:cpgo -->''"

definition defaultPRTitle :: string where
  "defaultPRTitle = ''perf(pgo): refresh pgo profile''"

definition defaultPRBody :: string where
  "defaultPRBody = ''Automated PGO profile refresh.''"

definition defaultCommitMessage :: string where
  "defaultCommitMessage = ''perf(pgo): refresh pgo profile''"

text \<open>
  \<^verbatim>\<open>RunRequest.normalized\<close>: the checks and the defaults in the order of the source. Each
  \<open>let\<close> is one conditional assignment to the copy of the request.
\<close>

definition normalized :: "RunRequest \<Rightarrow> error + RunRequest" where
  "normalized req =
    (case ProfileSettings.URL (Profile req) of
      None \<Rightarrow> Inl (Errorf ''profile url is required'' [])
    | Some u \<Rightarrow>
        if Scheme u = [] \<or> Host u = [] then
          Inl (Errorf ''profile url must include scheme and host'' [])
        else
          let n1 = (if Seconds (Profile req) \<le> 0
                    then req\<lparr>Profile := (Profile req)\<lparr>Seconds := defaultProfileSeconds\<rparr>\<rparr>
                    else req)
          in
          if TrimSpace (RepositorySettings.Owner (Repository n1)) = [] then
            Inl (Errorf ''repository owner is required'' [])
          else if TrimSpace (RepositorySettings.Name (Repository n1)) = [] then
            Inl (Errorf ''repository name is required'' [])
          else if TrimSpace (PGOPath (Repository n1)) = [] then
            Inl (Errorf ''repository pgo path is required'' [])
          else
            let n2 = (if TrimSpace (HeadBranch (Repository n1)) = []
                      then n1\<lparr>Repository := (Repository n1)\<lparr>HeadBranch := defaultHeadBranch\<rparr>\<rparr>
                      else n1);
                n3 = (if TrimSpace (ManagedByMarker (PullRequest n2)) = []
                      then n2\<lparr>PullRequest :=
                             (PullRequest n2)\<lparr>ManagedByMarker := defaultManagedByMarker\<rparr>\<rparr>
                      else n2);
                n4 = (if TrimSpace (Title (PullRequest n3)) = []
                      then n3\<lparr>PullRequest := (PullRequest n3)\<lparr>Title := defaultPRTitle\<rparr>\<rparr>
                      else n3);
                n5 = (if TrimSpace (Body (PullRequest n4)) = []
                      then n4\<lparr>PullRequest := (PullRequest n4)\<lparr>Body := defaultPRBody\<rparr>\<rparr>
                      else n4);
                n6 = (if TrimSpace (CommitSettings.Message (RunRequest.Commit n5)) = []
                      then n5\<lparr>RunRequest.Commit :=
                             (RunRequest.Commit n5)\<lparr>CommitSettings.Message := defaultCommitMessage\<rparr>\<rparr>
                      else n5)
            in Inr n6)"

text \<open>\<^verbatim>\<open>appendMarker\<close> of the orchestrator.\<close>

definition appendMarker :: "string \<Rightarrow> string \<Rightarrow> string" where
  "appendMarker body marker =
    (if Contains body marker then body
     else if TrimSpace body = [] then marker
     else TrimRight body [CHR 0x0A] @ [CHR 0x0A, CHR 0x0A] @ marker)"

section \<open>Collaborators of the orchestrator\<close>

record RepositoryRef =
  Owner :: string
  Name :: string

record FetchProfileRequest =
  URL :: "URL option"
  Seconds :: int
  Headers :: "string \<rightharpoonup> string"

record ReadFileRequest =
  Repository :: RepositoryRef
  Branch :: string
  Path :: string

record ReadFileResult =
  Content :: bytes
  HasFile :: bool

record UpsertFileRequest =
  Repository :: RepositoryRef
  BaseBranch :: string
  HeadBranch :: string
  Path :: string
  Content :: bytes
  CommitMessage :: string

record UpsertFileResult =
  CommitSHA :: string
  IsBranchCreated :: bool

record FindPullRequestRequest =
  Repository :: RepositoryRef
  BaseBranch :: string
  HeadBranch :: string

record PullRequest =
  Number :: int
  Title :: string
  Body :: string
  URL :: string

record CreatePullRequestRequest =
  Repository :: RepositoryRef
  BaseBranch :: string
  HeadBranch :: string
  Title :: string
  Body :: string

record RunResult =
  BaseBranch :: string
  HeadBranch :: string
  PullRequestNumber :: int
  CommitSHA :: string
  IsProfileChanged :: bool
  IsPullRequestCreated :: bool
  IsNoop :: bool

text \<open>
  The four interfaces. An implementation may keep state and talk to the outside world, so
  a method takes the state of everything outside the orchestrator (\<open>'s\<close>) and returns
  the new one with its result. A method that returns a value and an error returns a sum:
  the orchestrator looks at the value only when the error is nil. The context argument
  (deadline and cancellation) is part of that state.
\<close>

record 's ProfileFetcher =
  FetchCPUProfile :: "FetchProfileRequest \<Rightarrow> 's \<Rightarrow> (error + bytes) \<times> 's"

record 's ProfileValidator =
  ValidateCPUProfile :: "bytes \<Rightarrow> 's \<Rightarrow> (error + unit) \<times> 's"

record 's BranchWriter =
  DefaultBranch :: "RepositoryRef \<Rightarrow> 's \<Rightarrow> (error + string) \<times> 's"
  ReadFile :: "ReadFileRequest \<Rightarrow> 's \<Rightarrow> (error + ReadFileResult) \<times> 's"
  UpsertFileAndForceBranch :: "UpsertFileRequest \<Rightarrow> 's \<Rightarrow> (error + UpsertFileResult) \<times> 's"

record 's PullRequestService =
  FindOpenByHead :: "FindPullRequestRequest \<Rightarrow> 's \<Rightarrow> (error + PullRequest option) \<times> 's"
  Create :: "CreatePullRequestRequest \<Rightarrow> 's \<Rightarrow> (error + PullRequest) \<times> 's"

record 's Service =
  profileFetcher :: "'s ProfileFetcher"
  profileValidator :: "'s ProfileValidator"
  branchWriter :: "'s BranchWriter"
  pullRequests :: "'s PullRequestService"

text \<open>
  What a run did: one event for each method of a collaborator it invoked, in order, with
  the request it sent and the answer it got.
\<close>

datatype port_event =
    FetchCPUProfile_call FetchProfileRequest "error + bytes"
  | ValidateCPUProfile_call bytes "error + unit"
  | DefaultBranch_call RepositoryRef "error + string"
  | FindOpenByHead_call FindPullRequestRequest "error + PullRequest option"
  | ReadFile_call ReadFileRequest "error + ReadFileResult"
  | UpsertFileAndForceBranch_call UpsertFileRequest "error + UpsertFileResult"
  | Create_call CreatePullRequestRequest "error + PullRequest"

fun isUpsert :: "port_event \<Rightarrow> bool" where
  "isUpsert (UpsertFileAndForceBranch_call q r) = True"
| "isUpsert e = False"

fun isCreate :: "port_event \<Rightarrow> bool" where
  "isCreate (Create_call q r) = True"
| "isCreate e = False"

fun isReadFile :: "port_event \<Rightarrow> bool" where
  "isReadFile (ReadFile_call q r) = True"
| "isReadFile e = False"

section \<open>Sequencing\<close>

text \<open>
  A computation takes the outside state and returns its result, the new state and the
  events it produced. \<open>call\<close> invokes a collaborator and records the event; \<open>ret\<close>
  returns; \<open>andThen\<close> is the Go idiom
  \<^verbatim>\<open>x, err := m(); if err != nil { return zero, err }; ...\<close>
  and \<open>mapErr\<close> is the wrapping of the error in that return.
\<close>

type_synonym ('a, 's, 'e) comp = "'s \<Rightarrow> (error + 'a) \<times> 's \<times> 'e list"

definition call :: "('s \<Rightarrow> 'r \<times> 's) \<Rightarrow> ('r \<Rightarrow> 'e) \<Rightarrow> 's \<Rightarrow> 'r \<times> 's \<times> 'e list" where
  "call f ev s = (case f s of (r, s') \<Rightarrow> (r, s', [ev r]))"

definition ret :: "error + 'a \<Rightarrow> ('a, 's, 'e) comp" where
  "ret r s = (r, s, [])"

definition andThen :: "('a, 's, 'e) comp \<Rightarrow> ('a \<Rightarrow> ('b, 's, 'e) comp) \<Rightarrow> ('b, 's, 'e) comp" where
  "andThen m f s =
    (case m s of
      (Inl err, s1, t1) \<Rightarrow> (Inl err, s1, t1)
    | (Inr a, s1, t1) \<Rightarrow> (case f a s1 of (r, s2, t2) \<Rightarrow> (r, s2, t1 @ t2)))"

definition mapErr :: "(error \<Rightarrow> error) \<Rightarrow> ('a, 's, 'e) comp \<Rightarrow> ('a, 's, 'e) comp" where
  "mapErr w m s =
    (case m s of
      (Inl err, s1, t1) \<Rightarrow> (Inl (w err), s1, t1)
    | (Inr a, s1, t1) \<Rightarrow> (Inr a, s1, t1))"

section \<open>The orchestrator\<close>

definition resolveBaseBranch :: "'s Service \<Rightarrow> RepositoryRef \<Rightarrow> string \<Rightarrow> (string, 's, port_event) comp" where
  "resolveBaseBranch svc repository baseBranchCfg =
    (if TrimSpace baseBranchCfg \<noteq> [] then ret (Inr baseBranchCfg)
     else
       andThen
         (mapErr (Wrapf ''resolve default branch: %w'' [])
           (call (DefaultBranch (branchWriter svc) repository) (DefaultBranch_call repository)))
         (\<lambda>baseBranch. ret (Inr baseBranch)))"

definition prNumber :: "PullRequest option \<Rightarrow> int" where
  "prNumber existing = (case existing of None \<Rightarrow> 0 | Some pr \<Rightarrow> Number pr)"

text \<open>
  The struct literals of \<^verbatim>\<open>Run\<close>, each built from the normalized request \<open>n\<close> and the
  values computed so far. The Go zero value is written out: a field the source leaves unset
  is empty, 0 or false.
\<close>

definition repositoryRef :: "RunRequest \<Rightarrow> RepositoryRef" where
  "repositoryRef n =
    \<lparr>RepositoryRef.Owner = RepositorySettings.Owner (RunRequest.Repository n),
     RepositoryRef.Name = RepositorySettings.Name (RunRequest.Repository n)\<rparr>"

definition fetchProfileRequest :: "RunRequest \<Rightarrow> FetchProfileRequest" where
  "fetchProfileRequest n =
    \<lparr>FetchProfileRequest.URL = ProfileSettings.URL (Profile n),
     FetchProfileRequest.Seconds = ProfileSettings.Seconds (Profile n),
     FetchProfileRequest.Headers = ProfileSettings.Headers (Profile n)\<rparr>"

definition findPullRequestRequest :: "RunRequest \<Rightarrow> string \<Rightarrow> FindPullRequestRequest" where
  "findPullRequestRequest n baseBranch =
    \<lparr>FindPullRequestRequest.Repository = repositoryRef n,
     FindPullRequestRequest.BaseBranch = baseBranch,
     FindPullRequestRequest.HeadBranch = RepositorySettings.HeadBranch (RunRequest.Repository n)\<rparr>"

definition readFileRequest :: "RunRequest \<Rightarrow> string \<Rightarrow> ReadFileRequest" where
  "readFileRequest n baseBranch =
    \<lparr>ReadFileRequest.Repository = repositoryRef n,
     ReadFileRequest.Branch = baseBranch,
     ReadFileRequest.Path = PGOPath (RunRequest.Repository n)\<rparr>"

definition upsertFileRequest :: "RunRequest \<Rightarrow> string \<Rightarrow> bytes \<Rightarrow> UpsertFileRequest" where
  "upsertFileRequest n baseBranch profile =
    \<lparr>UpsertFileRequest.Repository = repositoryRef n,
     UpsertFileRequest.BaseBranch = baseBranch,
     UpsertFileRequest.HeadBranch = RepositorySettings.HeadBranch (RunRequest.Repository n),
     UpsertFileRequest.Path = PGOPath (RunRequest.Repository n),
     UpsertFileRequest.Content = profile,
     CommitMessage = CommitSettings.Message (RunRequest.Commit n)\<rparr>"

definition createPullRequestRequest :: "RunRequest \<Rightarrow> string \<Rightarrow> CreatePullRequestRequest" where
  "createPullRequestRequest n baseBranch =
    \<lparr>CreatePullRequestRequest.Repository = repositoryRef n,
     CreatePullRequestRequest.BaseBranch = baseBranch,
     CreatePullRequestRequest.HeadBranch = RepositorySettings.HeadBranch (RunRequest.Repository n),
     CreatePullRequestRequest.Title = PullRequestSettings.Title (RunRequest.PullRequest n),
     CreatePullRequestRequest.Body =
       appendMarker (PullRequestSettings.Body (RunRequest.PullRequest n))
                    (ManagedByMarker (RunRequest.PullRequest n))\<rparr>"

definition noopResult :: "RunRequest \<Rightarrow> string \<Rightarrow> PullRequest option \<Rightarrow> RunResult" where
  "noopResult n baseBranch openPR =
    \<lparr>RunResult.BaseBranch = baseBranch,
     RunResult.HeadBranch = RepositorySettings.HeadBranch (RunRequest.Repository n),
     PullRequestNumber = prNumber openPR,
     RunResult.CommitSHA = [],
     IsProfileChanged = False,
     IsPullRequestCreated = False,
     IsNoop = True\<rparr>"

definition changedResult :: "RunRequest \<Rightarrow> string \<Rightarrow> UpsertFileResult \<Rightarrow> RunResult" where
  "changedResult n baseBranch writeResult =
    \<lparr>RunResult.BaseBranch = baseBranch,
     RunResult.HeadBranch = RepositorySettings.HeadBranch (RunRequest.Repository n),
     PullRequestNumber = 0,
     RunResult.CommitSHA = UpsertFileResult.CommitSHA writeResult,
     IsProfileChanged = True,
     IsPullRequestCreated = False,
     IsNoop = False\<rparr>"

text \<open>
  The guard of \<^verbatim>\<open>Run\<close>:
  \<^verbatim>\<open>openPR != nil && !strings.Contains(openPR.Body, normalized.PullRequest.ManagedByMarker)\<close>.
\<close>

definition unmanaged :: "RunRequest \<Rightarrow> PullRequest option \<Rightarrow> bool" where
  "unmanaged n openPR =
    (case openPR of
      None \<Rightarrow> False
    | Some pr \<Rightarrow> \<not> Contains (PullRequest.Body pr) (ManagedByMarker (RunRequest.PullRequest n)))"

text \<open>\<^verbatim>\<open>Service.Run\<close>: one fetch, validate, compare, write and publish cycle.\<close>

definition Run :: "'s Service \<Rightarrow> RunRequest \<Rightarrow> (RunResult, 's, port_event) comp" where
  "Run svc req =
    (case normalized req of
      Inl err \<Rightarrow> ret (Inl err)
    | Inr n \<Rightarrow>
      andThen
        (mapErr (Wrapf ''fetch cpu profile: %w'' [])
          (call (FetchCPUProfile (profileFetcher svc) (fetchProfileRequest n))
                (FetchCPUProfile_call (fetchProfileRequest n))))
      (\<lambda>profile.
      andThen
        (mapErr (Wrapf ''validate cpu profile: %w'' [])
          (call (ValidateCPUProfile (profileValidator svc) profile)
                (ValidateCPUProfile_call profile)))
      (\<lambda>_.
      andThen
        (resolveBaseBranch svc (repositoryRef n)
          (RepositorySettings.BaseBranch (RunRequest.Repository n)))
      (\<lambda>baseBranch.
      andThen
        (mapErr (Wrapf ''find open pull request: %w'' [])
          (call (FindOpenByHead (pullRequests svc) (findPullRequestRequest n baseBranch))
                (FindOpenByHead_call (findPullRequestRequest n baseBranch))))
      (\<lambda>openPR.
      if unmanaged n openPR then ret (Inl ErrUnmanagedPullRequest)
      else
      andThen
        (mapErr (Wrapf ''read base branch pgo file: %w'' [])
          (call (ReadFile (branchWriter svc) (readFileRequest n baseBranch))
                (ReadFile_call (readFileRequest n baseBranch))))
      (\<lambda>readResult.
      if HasFile readResult \<and> ReadFileResult.Content readResult = profile then
        ret (Inr (noopResult n baseBranch openPR))
      else
      andThen
        (mapErr (Wrapf ''update pgo branch: %w'' [])
          (call (UpsertFileAndForceBranch (branchWriter svc) (upsertFileRequest n baseBranch profile))
                (UpsertFileAndForceBranch_call (upsertFileRequest n baseBranch profile))))
      (\<lambda>writeResult.
      case openPR of
        Some pr \<Rightarrow>
          ret (Inr ((changedResult n baseBranch writeResult)\<lparr>PullRequestNumber := Number pr\<rparr>))
      | None \<Rightarrow>
        andThen
          (mapErr (Wrapf ''create pull request: %w'' [])
            (call (Create (pullRequests svc) (createPullRequestRequest n baseBranch))
                  (Create_call (createPullRequestRequest n baseBranch))))
        (\<lambda>createdPR.
        ret (Inr ((changedResult n baseBranch writeResult)
                    \<lparr>PullRequestNumber := Number createdPR,
                     IsPullRequestCreated := True\<rparr>))))))))))"

text \<open>
  How the base branch of a run was resolved: \<open>db\<close> are the events of
  \<^verbatim>\<open>resolveBaseBranch\<close> and \<open>base\<close> is the branch it returned.
\<close>

definition resolved :: "RunRequest \<Rightarrow> port_event list \<Rightarrow> string \<Rightarrow> bool" where
  "resolved n db base =
    (if TrimSpace (RepositorySettings.BaseBranch (RunRequest.Repository n)) \<noteq> []
     then db = [] \<and> base = RepositorySettings.BaseBranch (RunRequest.Repository n)
     else db = [DefaultBranch_call (repositoryRef n) (Inr base)])"

section \<open>The GitHub client\<close>

subsection \<open>Library functions\<close>

text \<open>
  \<^verbatim>\<open>strings.ToLower\<close>. A string of ASCII bytes is lowered byte by byte. For any other
  string Go maps \<^verbatim>\<open>unicode.ToLower\<close> over its runes, which needs the Unicode case tables:
  that map is the parameter \<open>unicodeLower\<close>.
\<close>

definition asciiLower :: "char \<Rightarrow> char" where
  "asciiLower c =
    (if 65 \<le> (of_char c :: nat) \<and> (of_char c :: nat) \<le> 90
     then char_of ((of_char c :: nat) + 32) else c)"

definition ToLower :: "(string \<Rightarrow> string) \<Rightarrow> string \<Rightarrow> string" where
  "ToLower unicodeLower s =
    (if list_all (\<lambda>c. (of_char c :: nat) < 128) s then map asciiLower s else unicodeLower s)"

text \<open>\<^verbatim>\<open>base64.StdEncoding.EncodeToString\<close>: three bytes become four characters, padded with \<^verbatim>\<open>=\<close>.\<close>

definition encodeStd :: string where
  "encodeStd = ''ABCDEFGHIJKLMNOPQRSTUVWXYZabcdefghijklmnopqrstuvwxyz0123456789+/''"

definition sextet :: "nat \<Rightarrow> char" where
  "sextet n = encodeStd ! (n mod 64)"

fun EncodeToString :: "bytes \<Rightarrow> string" where
  "EncodeToString [] = []"
| "EncodeToString [a] =
     (let n = of_char a * 65536
      in [sextet (n div 262144), sextet (n div 4096), CHR ''='', CHR ''=''])"
| "EncodeToString [a, b] =
     (let n = of_char a * 65536 + of_char b * 256
      in [sextet (n div 262144), sextet (n div 4096), sextet (n div 64), CHR ''=''])"
| "EncodeToString (a # b # c # rest) =
     (let n = of_char a * 65536 + of_char b * 256 + of_char c
      in [sextet (n div 262144), sextet (n div 4096), sextet (n div 64), sextet n]
         @ EncodeToString rest)"

subsection \<open>The REST interface\<close>

text \<open>
  The values exchanged with go-github. A getter of go-github returns the zero value for a
  field that is absent, so every field is a plain value.
\<close>

record TreeEntry =
  Path :: string
  Mode :: string
  Type :: string
  SHA :: string

record Tree =
  SHA :: string
  Entries :: "TreeEntry list"
  Truncated :: bool

record Blob =
  Content :: string
  Encoding :: string

record Commit =
  Message :: string
  Tree :: string
  Parents :: "string list"

record UpdateRef =
  SHA :: string
  Force :: bool

record CreateRef =
  Ref :: string
  SHA :: string

record PullRequestListOptions =
  State :: string
  Base :: string
  Head :: string
  PerPage :: int

record NewPullRequest =
  Title :: string
  Head :: string
  Base :: string
  Body :: string

text \<open>
  The operations of \<^verbatim>\<open>github.Client\<close> that the client calls. Each takes the state of the
  hosting platform (\<open>'w\<close>), which other actors change between two calls, and returns the
  new state with the error or the part of the answer that the client reads: the default
  branch of a repository, the commit SHA of a ref, the tree SHA of a commit, a tree, the
  bytes of a blob, the SHA of a created object, a list of pull requests, a pull request.
  The first two arguments are the owner and the name of the repository.
\<close>

record 'w GitHub =
  Repositories_Get :: "string \<Rightarrow> string \<Rightarrow> 'w \<Rightarrow> (error + string) \<times> 'w"
  Git_GetRef :: "string \<Rightarrow> string \<Rightarrow> string \<Rightarrow> 'w \<Rightarrow> (error + string) \<times> 'w"
  Git_GetCommit :: "string \<Rightarrow> string \<Rightarrow> string \<Rightarrow> 'w \<Rightarrow> (error + string) \<times> 'w"
  Git_GetTree :: "string \<Rightarrow> string \<Rightarrow> string \<Rightarrow> bool \<Rightarrow> 'w \<Rightarrow> (error + Tree) \<times> 'w"
  Git_GetBlobRaw :: "string \<Rightarrow> string \<Rightarrow> string \<Rightarrow> 'w \<Rightarrow> (error + bytes) \<times> 'w"
  Git_CreateBlob :: "string \<Rightarrow> string \<Rightarrow> Blob \<Rightarrow> 'w \<Rightarrow> (error + string) \<times> 'w"
  Git_CreateTree ::
    "string \<Rightarrow> string \<Rightarrow> string \<Rightarrow> TreeEntry list \<Rightarrow> 'w \<Rightarrow> (error + string) \<times> 'w"
  Git_CreateCommit :: "string \<Rightarrow> string \<Rightarrow> Commit \<Rightarrow> 'w \<Rightarrow> (error + string) \<times> 'w"
  Git_UpdateRef :: "string \<Rightarrow> string \<Rightarrow> string \<Rightarrow> UpdateRef \<Rightarrow> 'w \<Rightarrow> (error + unit) \<times> 'w"
  Git_CreateRef :: "string \<Rightarrow> string \<Rightarrow> CreateRef \<Rightarrow> 'w \<Rightarrow> (error + unit) \<times> 'w"
  PullRequests_List ::
    "string \<Rightarrow> string \<Rightarrow> PullRequestListOptions \<Rightarrow> 'w \<Rightarrow> (error + PullRequest list) \<times> 'w"
  PullRequests_Create ::
    "string \<Rightarrow> string \<Rightarrow> NewPullRequest \<Rightarrow> 'w \<Rightarrow> (error + PullRequest) \<times> 'w"

text \<open>One event for each request the client sent, with the answer.\<close>

datatype api_event =
    Repositories_Get_call string string "error + string"
  | Git_GetRef_call string string string "error + string"
  | Git_GetCommit_call string string string "error + string"
  | Git_GetTree_call string string string bool "error + Tree"
  | Git_GetBlobRaw_call string string string "error + bytes"
  | Git_CreateBlob_call string string Blob "error + string"
  | Git_CreateTree_call string string string "TreeEntry list" "error + string"
  | Git_CreateCommit_call string string Commit "error + string"
  | Git_UpdateRef_call string string string UpdateRef "error + unit"
  | Git_CreateRef_call string string CreateRef "error + unit"
  | PullRequests_List_call string string PullRequestListOptions "error + PullRequest list"
  | PullRequests_Create_call string string NewPullRequest "error + PullRequest"

text \<open>The requests that move a branch pointer: a ref update and a ref creation.\<close>

fun isRefMutation :: "api_event \<Rightarrow> bool" where
  "isRefMutation (Git_UpdateRef_call owner name ref u r) = True"
| "isRefMutation (Git_CreateRef_call owner name c r) = True"
| "isRefMutation e = False"

fun isUpdateRef :: "api_event \<Rightarrow> bool" where
  "isUpdateRef (Git_UpdateRef_call owner name ref u r) = True"
| "isUpdateRef e = False"

fun isCreateRef :: "api_event \<Rightarrow> bool" where
  "isCreateRef (Git_CreateRef_call owner name c r) = True"
| "isCreateRef e = False"

subsection \<open>Classification of errors\<close>

text \<open>
  \<^verbatim>\<open>errors.As(err, &githubError)\<close>: the first \<^verbatim>\<open>*github.ErrorResponse\<close> in the chain of
  wrapped errors.
\<close>

fun asErrorResponse :: "error \<Rightarrow> (nat option \<times> string \<times> string list) option" where
  "asErrorResponse (ErrorResponse response message items) = Some (response, message, items)"
| "asErrorResponse (Wrapf format args err) = asErrorResponse err"
| "asErrorResponse (Wrapf2 format err other) = asErrorResponse err"
| "asErrorResponse err = None"

definition isNotFound :: "error \<Rightarrow> bool" where
  "isNotFound err =
    (case asErrorResponse err of
      None \<Rightarrow> False
    | Some (response, message, items) \<Rightarrow>
        (case response of None \<Rightarrow> False | Some statusCode \<Rightarrow> statusCode = 404))"

definition isReferenceMissing :: "(string \<Rightarrow> string) \<Rightarrow> error \<Rightarrow> bool" where
  "isReferenceMissing unicodeLower err =
    (case asErrorResponse err of
      None \<Rightarrow> False
    | Some (response, message, items) \<Rightarrow>
        (case response of
          None \<Rightarrow> False
        | Some statusCode \<Rightarrow>
            if statusCode \<noteq> 422 then False
            else if Contains (ToLower unicodeLower message) ''reference does not exist'' then True
            else list_ex (\<lambda>item. Contains (ToLower unicodeLower item) ''reference does not exist'')
                   items))"

subsection \<open>The methods of the client\<close>

definition fileModeRegular :: string where
  "fileModeRegular = ''100644''"

definition treeEntryBlob :: string where
  "treeEntryBlob = ''blob''"

text \<open>
  \<open>bind\<close> hands the whole answer of a computation, value or error, to what follows: the
  client looks at some errors instead of returning them.
\<close>

definition bind :: "('s \<Rightarrow> 'r \<times> 's \<times> 'e list) \<Rightarrow> ('r \<Rightarrow> 's \<Rightarrow> 'q \<times> 's \<times> 'e list)
    \<Rightarrow> 's \<Rightarrow> 'q \<times> 's \<times> 'e list" where
  "bind m f s =
    (case m s of (r, s1, t1) \<Rightarrow> (case f r s1 of (q, s2, t2) \<Rightarrow> (q, s2, t1 @ t2)))"

definition validateRepositoryRef :: "RepositoryRef \<Rightarrow> error + unit" where
  "validateRepositoryRef repository =
    (if TrimSpace (RepositoryRef.Owner repository) = [] then
       Inl (Errorf ''repository owner is required'' [])
     else if TrimSpace (RepositoryRef.Name repository) = [] then
       Inl (Errorf ''repository name is required'' [])
     else Inr ())"

definition Client_DefaultBranch :: "'w GitHub \<Rightarrow> RepositoryRef \<Rightarrow> (string, 'w, api_event) comp" where
  "Client_DefaultBranch githubClient repository =
    andThen (ret (validateRepositoryRef repository))
    (\<lambda>_.
    andThen
      (mapErr (Wrapf ''get repository: %w'' [])
        (call (Repositories_Get githubClient (RepositoryRef.Owner repository)
                 (RepositoryRef.Name repository))
              (Repositories_Get_call (RepositoryRef.Owner repository)
                 (RepositoryRef.Name repository))))
    (\<lambda>repoDefaultBranch.
    if TrimSpace repoDefaultBranch = [] then
      ret (Inl (Errorf ''repository default branch is empty'' []))
    else ret (Inr (TrimSpace repoDefaultBranch))))"

definition baseCommitTree ::
  "'w GitHub \<Rightarrow> RepositoryRef \<Rightarrow> string \<Rightarrow> (string \<times> string, 'w, api_event) comp" where
  "baseCommitTree githubClient repository baseBranch =
    andThen
      (mapErr (Wrapf ''get base branch ref: %w'' [])
        (call (Git_GetRef githubClient (RepositoryRef.Owner repository)
                 (RepositoryRef.Name repository) (''heads/'' @ baseBranch))
              (Git_GetRef_call (RepositoryRef.Owner repository)
                 (RepositoryRef.Name repository) (''heads/'' @ baseBranch))))
    (\<lambda>refSHA.
    if TrimSpace refSHA = [] then
      ret (Inl (Errorf ''base branch ref has empty commit sha'' []))
    else
    andThen
      (mapErr (Wrapf ''get base commit: %w'' [])
        (call (Git_GetCommit githubClient (RepositoryRef.Owner repository)
                 (RepositoryRef.Name repository) (TrimSpace refSHA))
              (Git_GetCommit_call (RepositoryRef.Owner repository)
                 (RepositoryRef.Name repository) (TrimSpace refSHA))))
    (\<lambda>commitTreeSHA.
    if TrimSpace commitTreeSHA = [] then
      ret (Inl (Errorf ''base commit has empty tree sha'' []))
    else ret (Inr (TrimSpace refSHA, TrimSpace commitTreeSHA))))"

text \<open>
  The loop of \<^verbatim>\<open>ReadFile\<close> over the entries of the tree. It stops at the first entry whose
  path is the requested one: with an error when that entry is not a blob, and otherwise with
  the trimmed SHA of the entry. Without such an entry the SHA stays empty.
\<close>

fun blobSHAOf :: "TreeEntry list \<Rightarrow> string \<Rightarrow> error + string" where
  "blobSHAOf [] path = Inr []"
| "blobSHAOf (entry # entries) path =
     (if TreeEntry.Path entry \<noteq> path then blobSHAOf entries path
      else if TreeEntry.Type entry \<noteq> treeEntryBlob then
        Inl (Errorf ''path %q is not a blob entry'' [path])
      else Inr (TrimSpace (TreeEntry.SHA entry)))"

definition Client_ReadFile :: "'w GitHub \<Rightarrow> ReadFileRequest \<Rightarrow> (ReadFileResult, 'w, api_event) comp" where
  "Client_ReadFile githubClient req =
    andThen (ret (validateRepositoryRef (ReadFileRequest.Repository req)))
    (\<lambda>_.
    if TrimSpace (Branch req) = [] then ret (Inl (Errorf ''branch is required'' []))
    else if TrimSpace (ReadFileRequest.Path req) = [] then
      ret (Inl (Errorf ''path is required'' []))
    else
    andThen (baseCommitTree githubClient (ReadFileRequest.Repository req) (Branch req))
    (\<lambda>(baseCommitSHA, baseTreeSHA).
    andThen
      (mapErr (Wrapf ''get base tree for commit %s: %w'' [baseCommitSHA])
        (call (Git_GetTree githubClient (RepositoryRef.Owner (ReadFileRequest.Repository req))
                 (RepositoryRef.Name (ReadFileRequest.Repository req)) baseTreeSHA True)
              (Git_GetTree_call (RepositoryRef.Owner (ReadFileRequest.Repository req))
                 (RepositoryRef.Name (ReadFileRequest.Repository req)) baseTreeSHA True)))
    (\<lambda>tree.
    andThen (ret (blobSHAOf (Entries tree) (ReadFileRequest.Path req)))
    (\<lambda>blobSHA.
    if blobSHA = [] then
      (if Truncated tree then
         ret (Inl (Errorf ''tree response was truncated while resolving path %q''
                     [ReadFileRequest.Path req]))
       else ret (Inr \<lparr>ReadFileResult.Content = [], HasFile = False\<rparr>))
    else
    bind
      (call (Git_GetBlobRaw githubClient (RepositoryRef.Owner (ReadFileRequest.Repository req))
               (RepositoryRef.Name (ReadFileRequest.Repository req)) blobSHA)
            (Git_GetBlobRaw_call (RepositoryRef.Owner (ReadFileRequest.Repository req))
               (RepositoryRef.Name (ReadFileRequest.Repository req)) blobSHA))
    (\<lambda>answer.
    case answer of
      Inl err \<Rightarrow>
        if isNotFound err then ret (Inr \<lparr>ReadFileResult.Content = [], HasFile = False\<rparr>)
        else ret (Inl (Wrapf ''get blob %s: %w'' [blobSHA] err))
    | Inr content \<Rightarrow> ret (Inr \<lparr>ReadFileResult.Content = content, HasFile = True\<rparr>))))))"

definition createBlob :: "'w GitHub \<Rightarrow> RepositoryRef \<Rightarrow> bytes \<Rightarrow> (string, 'w, api_event) comp" where
  "createBlob githubClient repository content =
    andThen
      (mapErr (Wrapf ''create blob: %w'' [])
        (call (Git_CreateBlob githubClient (RepositoryRef.Owner repository)
                 (RepositoryRef.Name repository)
                 \<lparr>Blob.Content = EncodeToString content, Encoding = ''base64''\<rparr>)
              (Git_CreateBlob_call (RepositoryRef.Owner repository)
                 (RepositoryRef.Name repository)
                 \<lparr>Blob.Content = EncodeToString content, Encoding = ''base64''\<rparr>)))
    (\<lambda>sha.
    if TrimSpace sha = [] then ret (Inl (Errorf ''created blob has empty sha'' []))
    else ret (Inr (TrimSpace sha)))"

definition createTree ::
  "'w GitHub \<Rightarrow> UpsertFileRequest \<Rightarrow> string \<Rightarrow> string \<Rightarrow> (string, 'w, api_event) comp" where
  "createTree githubClient req baseTreeSHA blobSHA =
    andThen
      (mapErr (Wrapf ''create tree: %w'' [])
        (call (Git_CreateTree githubClient (RepositoryRef.Owner (UpsertFileRequest.Repository req))
                 (RepositoryRef.Name (UpsertFileRequest.Repository req)) baseTreeSHA
                 [\<lparr>TreeEntry.Path = UpsertFileRequest.Path req, Mode = fileModeRegular,
                   Type = treeEntryBlob, TreeEntry.SHA = blobSHA\<rparr>])
              (Git_CreateTree_call (RepositoryRef.Owner (UpsertFileRequest.Repository req))
                 (RepositoryRef.Name (UpsertFileRequest.Repository req)) baseTreeSHA
                 [\<lparr>TreeEntry.Path = UpsertFileRequest.Path req, Mode = fileModeRegular,
                   Type = treeEntryBlob, TreeEntry.SHA = blobSHA\<rparr>])))
    (\<lambda>sha.
    if TrimSpace sha = [] then ret (Inl (Errorf ''created tree has empty sha'' []))
    else ret (Inr (TrimSpace sha)))"

definition createCommit ::
  "'w GitHub \<Rightarrow> UpsertFileRequest \<Rightarrow> string \<Rightarrow> string \<Rightarrow> (string, 'w, api_event) comp" where
  "createCommit githubClient req treeSHA parentCommitSHA =
    andThen
      (mapErr (Wrapf ''create commit: %w'' [])
        (call (Git_CreateCommit githubClient (RepositoryRef.Owner (UpsertFileRequest.Repository req))
                 (RepositoryRef.Name (UpsertFileRequest.Repository req))
                 \<lparr>Commit.Message = CommitMessage req, Tree = treeSHA,
                  Parents = [parentCommitSHA]\<rparr>)
              (Git_CreateCommit_call (RepositoryRef.Owner (UpsertFileRequest.Repository req))
                 (RepositoryRef.Name (UpsertFileRequest.Repository req))
                 \<lparr>Commit.Message = CommitMessage req, Tree = treeSHA,
                  Parents = [parentCommitSHA]\<rparr>)))
    (\<lambda>sha.
    if TrimSpace sha = [] then ret (Inl (Errorf ''created commit has empty sha'' []))
    else ret (Inr (TrimSpace sha)))"

text \<open>
  \<^verbatim>\<open>updateHeadRef\<close>: the forced update of the head ref; when the ref is missing its
  creation; when the creation fails the forced update once more.
\<close>

definition updateHeadRef ::
  "(string \<Rightarrow> string) \<Rightarrow> 'w GitHub \<Rightarrow> RepositoryRef \<Rightarrow> string \<Rightarrow> string
    \<Rightarrow> (bool, 'w, api_event) comp" where
  "updateHeadRef unicodeLower githubClient repository headBranch commitSHA =
    bind
      (call (Git_UpdateRef githubClient (RepositoryRef.Owner repository)
               (RepositoryRef.Name repository) (''heads/'' @ headBranch)
               \<lparr>UpdateRef.SHA = commitSHA, Force = True\<rparr>)
            (Git_UpdateRef_call (RepositoryRef.Owner repository)
               (RepositoryRef.Name repository) (''heads/'' @ headBranch)
               \<lparr>UpdateRef.SHA = commitSHA, Force = True\<rparr>))
    (\<lambda>updated.
    case updated of
      Inr _ \<Rightarrow> ret (Inr False)
    | Inl err \<Rightarrow>
      if \<not> isNotFound err \<and> \<not> isReferenceMissing unicodeLower err then
        ret (Inl (Wrapf ''force update branch ref: %w'' [] err))
      else
      bind
        (call (Git_CreateRef githubClient (RepositoryRef.Owner repository)
                 (RepositoryRef.Name repository)
                 \<lparr>Ref = ''refs/heads/'' @ headBranch, CreateRef.SHA = commitSHA\<rparr>)
              (Git_CreateRef_call (RepositoryRef.Owner repository)
                 (RepositoryRef.Name repository)
                 \<lparr>Ref = ''refs/heads/'' @ headBranch, CreateRef.SHA = commitSHA\<rparr>))
      (\<lambda>created.
      case created of
        Inr _ \<Rightarrow> ret (Inr True)
      | Inl createErr \<Rightarrow>
        bind
          (call (Git_UpdateRef githubClient (RepositoryRef.Owner repository)
                   (RepositoryRef.Name repository) (''heads/'' @ headBranch)
                   \<lparr>UpdateRef.SHA = commitSHA, Force = True\<rparr>)
                (Git_UpdateRef_call (RepositoryRef.Owner repository)
                   (RepositoryRef.Name repository) (''heads/'' @ headBranch)
                   \<lparr>UpdateRef.SHA = commitSHA, Force = True\<rparr>))
        (\<lambda>retried.
        case retried of
          Inr _ \<Rightarrow> ret (Inr False)
        | Inl updateErr \<Rightarrow>
            ret (Inl (Wrapf2 ''create branch ref: %w (retry update failed: %v)''
                        createErr updateErr)))))"

definition Client_UpsertFileAndForceBranch ::
  "(string \<Rightarrow> string) \<Rightarrow> 'w GitHub \<Rightarrow> UpsertFileRequest
    \<Rightarrow> (UpsertFileResult, 'w, api_event) comp" where
  "Client_UpsertFileAndForceBranch unicodeLower githubClient req =
    andThen (ret (validateRepositoryRef (UpsertFileRequest.Repository req)))
    (\<lambda>_.
    if TrimSpace (UpsertFileRequest.BaseBranch req) = [] then
      ret (Inl (Errorf ''base branch is required'' []))
    else if TrimSpace (UpsertFileRequest.HeadBranch req) = [] then
      ret (Inl (Errorf ''head branch is required'' []))
    else if TrimSpace (UpsertFileRequest.Path req) = [] then
      ret (Inl (Errorf ''path is required'' []))
    else if TrimSpace (CommitMessage req) = [] then
      ret (Inl (Errorf ''commit message is required'' []))
    else
    andThen
      (baseCommitTree githubClient (UpsertFileRequest.Repository req)
        (UpsertFileRequest.BaseBranch req))
    (\<lambda>(baseCommitSHA, baseTreeSHA).
    andThen
      (createBlob githubClient (UpsertFileRequest.Repository req) (UpsertFileRequest.Content req))
    (\<lambda>blobSHA.
    andThen (createTree githubClient req baseTreeSHA blobSHA)
    (\<lambda>treeSHA.
    andThen (createCommit githubClient req treeSHA baseCommitSHA)
    (\<lambda>commitSHA.
    andThen
      (updateHeadRef unicodeLower githubClient (UpsertFileRequest.Repository req)
        (UpsertFileRequest.HeadBranch req) commitSHA)
    (\<lambda>isBranchCreated.
    ret (Inr \<lparr>UpsertFileResult.CommitSHA = commitSHA,
              IsBranchCreated = isBranchCreated\<rparr>)))))))"

text \<open>
  \<^verbatim>\<open>FindOpenByHead\<close>: the first pull request of the answer, if any, with the four fields
  the orchestrator keeps.
\<close>

definition Client_FindOpenByHead ::
  "'w GitHub \<Rightarrow> FindPullRequestRequest \<Rightarrow> (PullRequest option, 'w, api_event) comp" where
  "Client_FindOpenByHead githubClient req =
    andThen (ret (validateRepositoryRef (FindPullRequestRequest.Repository req)))
    (\<lambda>_.
    if TrimSpace (FindPullRequestRequest.BaseBranch req) = [] then
      ret (Inl (Errorf ''base branch is required'' []))
    else if TrimSpace (FindPullRequestRequest.HeadBranch req) = [] then
      ret (Inl (Errorf ''head branch is required'' []))
    else
    andThen
      (mapErr (Wrapf ''list pull requests: %w'' [])
        (call (PullRequests_List githubClient
                 (RepositoryRef.Owner (FindPullRequestRequest.Repository req))
                 (RepositoryRef.Name (FindPullRequestRequest.Repository req))
                 \<lparr>State = ''open'', Base = FindPullRequestRequest.BaseBranch req,
                  Head = RepositoryRef.Owner (FindPullRequestRequest.Repository req) @ '':''
                           @ FindPullRequestRequest.HeadBranch req,
                  PerPage = 1\<rparr>)
              (PullRequests_List_call
                 (RepositoryRef.Owner (FindPullRequestRequest.Repository req))
                 (RepositoryRef.Name (FindPullRequestRequest.Repository req))
                 \<lparr>State = ''open'', Base = FindPullRequestRequest.BaseBranch req,
                  Head = RepositoryRef.Owner (FindPullRequestRequest.Repository req) @ '':''
                           @ FindPullRequestRequest.HeadBranch req,
                  PerPage = 1\<rparr>)))
    (\<lambda>pullRequests.
    case pullRequests of
      [] \<Rightarrow> ret (Inr None)
    | pullRequest # _ \<Rightarrow>
        ret (Inr (Some \<lparr>Number = Number pullRequest,
                        PullRequest.Title = PullRequest.Title pullRequest,
                        PullRequest.Body = PullRequest.Body pullRequest,
                        PullRequest.URL = PullRequest.URL pullRequest\<rparr>))))"

definition Client_Create ::
  "'w GitHub \<Rightarrow> CreatePullRequestRequest \<Rightarrow> (PullRequest, 'w, api_event) comp" where
  "Client_Create githubClient req =
    andThen (ret (validateRepositoryRef (CreatePullRequestRequest.Repository req)))
    (\<lambda>_.
    if TrimSpace (CreatePullRequestRequest.BaseBranch req) = [] then
      ret (Inl (Errorf ''base branch is required'' []))
    else if TrimSpace (CreatePullRequestRequest.HeadBranch req) = [] then
      ret (Inl (Errorf ''head branch is required'' []))
    else if TrimSpace (CreatePullRequestRequest.Title req) = [] then
      ret (Inl (Errorf ''pull request title is required'' []))
    else if TrimSpace (CreatePullRequestRequest.Body req) = [] then
      ret (Inl (Errorf ''pull request body is required'' []))
    else
    andThen
      (mapErr (Wrapf ''create pull request: %w'' [])
        (call (PullRequests_Create githubClient
                 (RepositoryRef.Owner (CreatePullRequestRequest.Repository req))
                 (RepositoryRef.Name (CreatePullRequestRequest.Repository req))
                 \<lparr>NewPullRequest.Title = CreatePullRequestRequest.Title req,
                  NewPullRequest.Head = CreatePullRequestRequest.HeadBranch req,
                  NewPullRequest.Base = CreatePullRequestRequest.BaseBranch req,
                  NewPullRequest.Body = CreatePullRequestRequest.Body req\<rparr>)
              (PullRequests_Create_call
                 (RepositoryRef.Owner (CreatePullRequestRequest.Repository req))
                 (RepositoryRef.Name (CreatePullRequestRequest.Repository req))
                 \<lparr>NewPullRequest.Title = CreatePullRequestRequest.Title req,
                  NewPullRequest.Head = CreatePullRequestRequest.HeadBranch req,
                  NewPullRequest.Base = CreatePullRequestRequest.BaseBranch req,
                  NewPullRequest.Body = CreatePullRequestRequest.Body req\<rparr>)))
    (\<lambda>pullRequest.
    ret (Inr \<lparr>Number = Number pullRequest,
              PullRequest.Title = PullRequest.Title pullRequest,
              PullRequest.Body = PullRequest.Body pullRequest,
              PullRequest.URL = PullRequest.URL pullRequest\<rparr>)))"

section \<open>Events and wiring of the client\<close>

text \<open>
  The two requests of \<^verbatim>\<open>updateHeadRef\<close> as events: the forced update of
  \<^verbatim>\<open>heads/<headBranch>\<close> and the creation of \<^verbatim>\<open>refs/heads/<headBranch>\<close>, both to
  \<open>commitSHA\<close>, with the answer of the platform.
\<close>

definition updateRefEvent :: "RepositoryRef \<Rightarrow> string \<Rightarrow> string \<Rightarrow> error + unit \<Rightarrow> api_event" where
  "updateRefEvent repository headBranch commitSHA answer =
    Git_UpdateRef_call (RepositoryRef.Owner repository) (RepositoryRef.Name repository)
      (''heads/'' @ headBranch) \<lparr>UpdateRef.SHA = commitSHA, Force = True\<rparr> answer"

definition createRefEvent :: "RepositoryRef \<Rightarrow> string \<Rightarrow> string \<Rightarrow> error + unit \<Rightarrow> api_event" where
  "createRefEvent repository headBranch commitSHA answer =
    Git_CreateRef_call (RepositoryRef.Owner repository) (RepositoryRef.Name repository)
      \<lparr>Ref = ''refs/heads/'' @ headBranch, CreateRef.SHA = commitSHA\<rparr> answer"

text \<open>The events of \<^verbatim>\<open>baseCommitTree\<close>: the lookup of a ref and of a commit.\<close>

fun isLookup :: "api_event \<Rightarrow> bool" where
  "isLookup (Git_GetRef_call owner name ref r) = True"
| "isLookup (Git_GetCommit_call owner name sha r) = True"
| "isLookup e = False"

text \<open>
  What \<^verbatim>\<open>ReadFile\<close> does once it has the tree: the rest of the events and the result.
\<close>

definition afterTree ::
  "ReadFileRequest \<Rightarrow> Tree \<Rightarrow> api_event list \<Rightarrow> error + ReadFileResult \<Rightarrow> bool" where
  "afterTree req tree post res =
    (case blobSHAOf (Entries tree) (ReadFileRequest.Path req) of
      Inl err \<Rightarrow> post = [] \<and> res = Inl err
    | Inr blobSHA \<Rightarrow>
        if blobSHA = [] then
          post = [] \<and>
          res = (if Truncated tree then
                   Inl (Errorf ''tree response was truncated while resolving path %q''
                          [ReadFileRequest.Path req])
                 else Inr \<lparr>ReadFileResult.Content = [], HasFile = False\<rparr>)
        else
          (\<exists>answer.
             post = [Git_GetBlobRaw_call (RepositoryRef.Owner (ReadFileRequest.Repository req))
                       (RepositoryRef.Name (ReadFileRequest.Repository req)) blobSHA answer] \<and>
             res = (case answer of
                      Inl err \<Rightarrow>
                        if isNotFound err then Inr \<lparr>ReadFileResult.Content = [], HasFile = False\<rparr>
                        else Inl (Wrapf ''get blob %s: %w'' [blobSHA] err)
                    | Inr content \<Rightarrow> Inr \<lparr>ReadFileResult.Content = content, HasFile = True\<rparr>)))"

text \<open>
  A bound on what a computation adds to a measure \<open>\<mu>\<close> of the state: whenever it returns,
  the measure has grown by at most \<open>k\<close>.
\<close>

definition costs :: "('s \<Rightarrow> nat) \<Rightarrow> nat \<Rightarrow> ('s \<Rightarrow> 'r \<times> 's \<times> 'e list) \<Rightarrow> bool" where
  "costs \<mu> k m = (\<forall>s r s' t. m s = (r, s', t) \<longrightarrow> \<mu> s' \<le> \<mu> s + k)"

text \<open>
  The service as \<^verbatim>\<open>cmd/cpgo\<close> builds it: the client is both the branch writer and the
  pull-request service. The state of a run is the state of the platform together with the
  log of the requests the client has sent; a method of the client appends its events to the
  log (\<open>logged\<close>), the profile fetcher and the validator leave the log alone
  (\<open>unlogged\<close>).
\<close>

definition logged ::
  "('w \<Rightarrow> 'r \<times> 'w \<times> api_event list) \<Rightarrow> 'w \<times> api_event list \<Rightarrow> 'r \<times> ('w \<times> api_event list)" where
  "logged m = (\<lambda>(w, log). case m w of (r, w', t) \<Rightarrow> (r, (w', log @ t)))"

definition unlogged ::
  "('w \<Rightarrow> 'r \<times> 'w) \<Rightarrow> 'w \<times> api_event list \<Rightarrow> 'r \<times> ('w \<times> api_event list)" where
  "unlogged f = (\<lambda>(w, log). case f w of (r, w') \<Rightarrow> (r, (w', log)))"

definition newService ::
  "(string \<Rightarrow> string) \<Rightarrow> 'w GitHub \<Rightarrow> 'w ProfileFetcher \<Rightarrow> 'w ProfileValidator
    \<Rightarrow> ('w \<times> api_event list) Service" where
  "newService unicodeLower githubClient fetcher validator =
    \<lparr>profileFetcher = \<lparr>FetchCPUProfile = (\<lambda>req. unlogged (FetchCPUProfile fetcher req))\<rparr>,
     profileValidator = \<lparr>ValidateCPUProfile = (\<lambda>raw. unlogged (ValidateCPUProfile validator raw))\<rparr>,
     branchWriter =
       \<lparr>DefaultBranch = (\<lambda>repository. logged (Client_DefaultBranch githubClient repository)),
        ReadFile = (\<lambda>req. logged (Client_ReadFile githubClient req)),
        UpsertFileAndForceBranch =
          (\<lambda>req. logged (Client_UpsertFileAndForceBranch unicodeLower githubClient req))\<rparr>,
     pullRequests =
       \<lparr>FindOpenByHead = (\<lambda>req. logged (Client_FindOpenByHead githubClient req)),
        Create = (\<lambda>req. logged (Client_Create githubClient req))\<rparr>\<rparr>"

section \<open>Fixtures\<close>

text \<open>
  The request and the stub collaborators of the tests of \<^verbatim>\<open>Service.Run\<close>: every stub
  ignores its request and returns a fixed answer.
\<close>

definition newRunRequest :: RunRequest where
  "newRunRequest =
    \<lparr>Profile = \<lparr>ProfileSettings.URL = Some \<lparr>Scheme = ''https'', Host = ''service.example.com'',
                                               URL.Path = ''/debug/pprof/profile'', RawQuery = []\<rparr>,
                  ProfileSettings.Seconds = 0,
                  ProfileSettings.Headers = Map.empty\<rparr>,
     RunRequest.Repository = \<lparr>RepositorySettings.Owner = ''acme'',
                     RepositorySettings.Name = ''payments'',
                     PGOPath = ''default.pgo'',
                     RepositorySettings.BaseBranch = [],
                     RepositorySettings.HeadBranch = []\<rparr>,
     RunRequest.PullRequest = \<lparr>PullRequestSettings.Title = [], PullRequestSettings.Body = [], ManagedByMarker = []\<rparr>,
     RunRequest.Commit = \<lparr>CommitSettings.Message = []\<rparr>\<rparr>"

definition stubService ::
  "bytes \<Rightarrow> PullRequest option \<Rightarrow> ReadFileResult \<Rightarrow> UpsertFileResult \<Rightarrow> PullRequest \<Rightarrow> unit Service" where
  "stubService profile findResult readFileResult upsertResult createResult =
    \<lparr>profileFetcher = \<lparr>FetchCPUProfile = (\<lambda>req s. (Inr profile, s))\<rparr>,
     profileValidator = \<lparr>ValidateCPUProfile = (\<lambda>raw s. (Inr (), s))\<rparr>,
     branchWriter = \<lparr>DefaultBranch = (\<lambda>repository s. (Inr ''main'', s)),
                     ReadFile = (\<lambda>req s. (Inr readFileResult, s)),
                     UpsertFileAndForceBranch = (\<lambda>req s. (Inr upsertResult, s))\<rparr>,
     pullRequests = \<lparr>FindOpenByHead = (\<lambda>req s. (Inr findResult, s)),
                     Create = (\<lambda>req s. (Inr createResult, s))\<rparr>\<rparr>"

definition normalizedRunRequest :: RunRequest where
  "normalizedRunRequest =
    \<lparr>Profile = \<lparr>ProfileSettings.URL = Some \<lparr>Scheme = ''https'', Host = ''service.example.com'',
                                               URL.Path = ''/debug/pprof/profile'', RawQuery = []\<rparr>,
                  ProfileSettings.Seconds = 30,
                  ProfileSettings.Headers = Map.empty\<rparr>,
     RunRequest.Repository = \<lparr>RepositorySettings.Owner = ''acme'',
                     RepositorySettings.Name = ''payments'',
                     PGOPath = ''default.pgo'',
                     RepositorySettings.BaseBranch = [],
                     RepositorySettings.HeadBranch = ''cpgo''\<rparr>,
     RunRequest.PullRequest = \<lparr>PullRequestSettings.Title = ''perf(pgo): refresh pgo profile'',
        PullRequestSettings.Body = ''Automated PGO profile refresh.'', ManagedByMarker = ''<!-- managed-by:cpgo -->''\<rparr>,
     RunRequest.Commit = \<lparr>CommitSettings.Message = ''perf(pgo): refresh pgo profile''\<rparr>\<rparr>"

definition manualPullRequest :: PullRequest where
  "manualPullRequest = \<lparr>Number = 12, PullRequest.Title = [], PullRequest.Body = ''manual pull request'', PullRequest.URL = []\<rparr>"

definition zeroPullRequest :: PullRequest where
  "zeroPullRequest = \<lparr>Number = 0, PullRequest.Title = [], PullRequest.Body = [], PullRequest.URL = []\<rparr>"

definition managedPullRequest :: PullRequest where
  "managedPullRequest =
    \<lparr>Number = 99, PullRequest.Title = [],
     PullRequest.Body = ''Automated PGO profile refresh.'' @ [CHR 0x0A, CHR 0x0A] @ ''<!-- managed-by:cpgo -->'',
     PullRequest.URL = []\<rparr>"

definition createdPullRequest :: PullRequest where
  "createdPullRequest = \<lparr>Number = 22, PullRequest.Title = [], PullRequest.Body = [], PullRequest.URL = []\<rparr>"

definition unmanagedService :: "unit Service" where
  "unmanagedService =
    stubService ''cpu'' (Some manualPullRequest) \<lparr>ReadFileResult.Content = [], HasFile = False\<rparr>
      \<lparr>UpsertFileResult.CommitSHA = [], IsBranchCreated = False\<rparr> zeroPullRequest"

definition noopService :: "unit Service" where
  "noopService =
    stubService ''same-profile'' None \<lparr>ReadFileResult.Content = ''same-profile'', HasFile = True\<rparr>
      \<lparr>UpsertFileResult.CommitSHA = [], IsBranchCreated = False\<rparr> zeroPullRequest"

definition createService :: "unit Service" where
  "createService =
    stubService ''fresh-profile'' None \<lparr>ReadFileResult.Content = ''stale-profile'', HasFile = True\<rparr>
      \<lparr>UpsertFileResult.CommitSHA = ''abc123'', IsBranchCreated = False\<rparr> createdPullRequest"

definition managedService :: "unit Service" where
  "managedService =
    stubService ''new-profile'' (Some managedPullRequest)
      \<lparr>ReadFileResult.Content = ''old-profile'', HasFile = True\<rparr>
      \<lparr>UpsertFileResult.CommitSHA = ''def456'', IsBranchCreated = False\<rparr> zeroPullRequest"

definition unmanagedSameService :: "unit Service" where
  "unmanagedSameService =
    stubService ''cpu'' (Some manualPullRequest) \<lparr>ReadFileResult.Content = ''cpu'', HasFile = True\<rparr>
      \<lparr>UpsertFileResult.CommitSHA = [], IsBranchCreated = False\<rparr> zeroPullRequest"

definition unmanagedEvents :: "port_event list" where
  "unmanagedEvents =
    [FetchCPUProfile_call (fetchProfileRequest normalizedRunRequest) (Inr ''cpu''),
     ValidateCPUProfile_call ''cpu'' (Inr ()),
     DefaultBranch_call (repositoryRef normalizedRunRequest) (Inr ''main''),
     FindOpenByHead_call (findPullRequestRequest normalizedRunRequest ''main'')
       (Inr (Some manualPullRequest))]"

definition noopEvents :: "port_event list" where
  "noopEvents =
    [FetchCPUProfile_call (fetchProfileRequest normalizedRunRequest) (Inr ''same-profile''),
     ValidateCPUProfile_call ''same-profile'' (Inr ()),
     DefaultBranch_call (repositoryRef normalizedRunRequest) (Inr ''main''),
     FindOpenByHead_call (findPullRequestRequest normalizedRunRequest ''main'') (Inr None),
     ReadFile_call (readFileRequest normalizedRunRequest ''main'')
       (Inr \<lparr>ReadFileResult.Content = ''same-profile'', HasFile = True\<rparr>)]"

definition createEvents :: "port_event list" where
  "createEvents =
    [FetchCPUProfile_call (fetchProfileRequest normalizedRunRequest) (Inr ''fresh-profile''),
     ValidateCPUProfile_call ''fresh-profile'' (Inr ()),
     DefaultBranch_call (repositoryRef normalizedRunRequest) (Inr ''main''),
     FindOpenByHead_call (findPullRequestRequest normalizedRunRequest ''main'') (Inr None),
     ReadFile_call (readFileRequest normalizedRunRequest ''main'')
       (Inr \<lparr>ReadFileResult.Content = ''stale-profile'', HasFile = True\<rparr>),
     UpsertFileAndForceBranch_call (upsertFileRequest normalizedRunRequest ''main'' ''fresh-profile'')
       (Inr \<lparr>UpsertFileResult.CommitSHA = ''abc123'', IsBranchCreated = False\<rparr>),
     Create_call (createPullRequestRequest normalizedRunRequest ''main'') (Inr createdPullRequest)]"

definition managedEvents :: "port_event list" where
  "managedEvents =
    [FetchCPUProfile_call (fetchProfileRequest normalizedRunRequest) (Inr ''new-profile''),
     ValidateCPUProfile_call ''new-profile'' (Inr ()),
     DefaultBranch_call (repositoryRef normalizedRunRequest) (Inr ''main''),
     FindOpenByHead_call (findPullRequestRequest normalizedRunRequest ''main'')
       (Inr (Some managedPullRequest)),
     ReadFile_call (readFileRequest normalizedRunRequest ''main'')
       (Inr \<lparr>ReadFileResult.Content = ''old-profile'', HasFile = True\<rparr>),
     UpsertFileAndForceBranch_call (upsertFileRequest normalizedRunRequest ''main'' ''new-profile'')
       (Inr \<lparr>UpsertFileResult.CommitSHA = ''def456'', IsBranchCreated = False\<rparr>)]"

definition noURLRequest :: RunRequest where
  "noURLRequest = newRunRequest\<lparr>Profile := (Profile newRunRequest)\<lparr>ProfileSettings.URL := None\<rparr>\<rparr>"

text \<open>
  A service whose artifact on the base branch already equals the fetched profile while a
  managed pull request is open.
\<close>

definition noopManagedService :: "unit Service" where
  "noopManagedService =
    stubService ''same-profile'' (Some managedPullRequest)
      \<lparr>ReadFileResult.Content = ''same-profile'', HasFile = True\<rparr>
      \<lparr>UpsertFileResult.CommitSHA = [], IsBranchCreated = False\<rparr> zeroPullRequest"

definition noopManagedEvents :: "port_event list" where
  "noopManagedEvents =
    [FetchCPUProfile_call (fetchProfileRequest normalizedRunRequest) (Inr ''same-profile''),
     ValidateCPUProfile_call ''same-profile'' (Inr ()),
     DefaultBranch_call (repositoryRef normalizedRunRequest) (Inr ''main''),
     FindOpenByHead_call (findPullRequestRequest normalizedRunRequest ''main'')
       (Inr (Some managedPullRequest)),
     ReadFile_call (readFileRequest normalizedRunRequest ''main'')
       (Inr \<lparr>ReadFileResult.Content = ''same-profile'', HasFile = True\<rparr>)]"

subsection \<open>Fixtures of the client\<close>

definition missingRef :: error where
  "missingRef = ErrorResponse (Some 422) ''Reference does not exist'' []"

definition existingRef :: error where
  "existingRef = ErrorResponse (Some 422) ''Reference already exists'' []"

definition notFound :: error where
  "notFound = ErrorResponse (Some 404) ''Not Found'' []"

text \<open>
  A hosting platform in the manner of the tests of the client. Its state says whether the
  head ref exists. A forced update succeeds exactly when it does. The creation of the ref
  succeeds when the ref is missing and nobody interferes (\<open>Quiet\<close>). With \<open>Raced\<close> another
  actor creates the ref just before the client tries to, so that the creation fails and the
  ref exists afterwards. With \<open>Locked\<close> the platform refuses the creation and the ref stays
  as it was.
\<close>

datatype rival = Quiet | Raced | Locked

definition fakeGitHub :: "rival \<Rightarrow> Tree \<Rightarrow> error + bytes \<Rightarrow> bool GitHub" where
  "fakeGitHub rival tree blob =
    \<lparr>Repositories_Get = (\<lambda>owner name w. (Inr ''main'', w)),
     Git_GetRef = (\<lambda>owner name ref w. (Inr ''base-commit'', w)),
     Git_GetCommit = (\<lambda>owner name sha w. (Inr ''base-tree'', w)),
     Git_GetTree = (\<lambda>owner name sha recursive w. (Inr tree, w)),
     Git_GetBlobRaw = (\<lambda>owner name sha w. (blob, w)),
     Git_CreateBlob = (\<lambda>owner name blob w. (Inr ''blob-sha'', w)),
     Git_CreateTree = (\<lambda>owner name base entries w. (Inr ''tree-sha'', w)),
     Git_CreateCommit = (\<lambda>owner name commit w. (Inr ''commit-sha'', w)),
     Git_UpdateRef = (\<lambda>owner name ref update w. (if w then Inr () else Inl missingRef, w)),
     Git_CreateRef = (\<lambda>owner name create w.
       case rival of
         Quiet \<Rightarrow> (if w then Inl existingRef else Inr (), True)
       | Raced \<Rightarrow> (Inl existingRef, True)
       | Locked \<Rightarrow> (Inl existingRef, w)),
     PullRequests_List = (\<lambda>owner name opts w. (Inr [], w)),
     PullRequests_Create = (\<lambda>owner name new w. (Inr createdPullRequest, w))\<rparr>"

definition readmeTree :: "bool \<Rightarrow> Tree" where
  "readmeTree truncated =
    \<lparr>Tree.SHA = ''base-tree'',
     Entries = [\<lparr>TreeEntry.Path = ''README.md'', Mode = ''100644'', Type = ''blob'',
                TreeEntry.SHA = ''readme-sha''\<rparr>],
     Truncated = truncated\<rparr>"

definition pgoTree :: "string \<Rightarrow> Tree" where
  "pgoTree type =
    \<lparr>Tree.SHA = ''base-tree'',
     Entries = [\<lparr>TreeEntry.Path = ''default.pgo'', Mode = ''100644'', Type = type,
                TreeEntry.SHA = ''pgo-sha''\<rparr>],
     Truncated = False\<rparr>"

definition acmePayments :: RepositoryRef where
  "acmePayments = \<lparr>RepositoryRef.Owner = ''acme'', RepositoryRef.Name = ''payments''\<rparr>"

definition readRequest :: ReadFileRequest where
  "readRequest =
    \<lparr>ReadFileRequest.Repository = acmePayments, Branch = ''main'',
     ReadFileRequest.Path = ''default.pgo''\<rparr>"

definition upsertRequest :: UpsertFileRequest where
  "upsertRequest =
    \<lparr>UpsertFileRequest.Repository = acmePayments,
     UpsertFileRequest.BaseBranch = ''main'',
     UpsertFileRequest.HeadBranch = ''cpgo'',
     UpsertFileRequest.Path = ''default.pgo'',
     UpsertFileRequest.Content = ''new-profile'',
     CommitMessage = ''perf(pgo): refresh pgo profile''\<rparr>"

definition commitEvents :: "api_event list" where
  "commitEvents =
    [Git_GetRef_call ''acme'' ''payments'' ''heads/main'' (Inr ''base-commit''),
     Git_GetCommit_call ''acme'' ''payments'' ''base-commit'' (Inr ''base-tree''),
     Git_CreateBlob_call ''acme'' ''payments''
       \<lparr>Blob.Content = ''bmV3LXByb2ZpbGU='', Encoding = ''base64''\<rparr> (Inr ''blob-sha''),
     Git_CreateTree_call ''acme'' ''payments'' ''base-tree''
       [\<lparr>TreeEntry.Path = ''default.pgo'', Mode = ''100644'', Type = ''blob'',
         TreeEntry.SHA = ''blob-sha''\<rparr>] (Inr ''tree-sha''),
     Git_CreateCommit_call ''acme'' ''payments''
       \<lparr>Commit.Message = ''perf(pgo): refresh pgo profile'', Tree = ''tree-sha'',
        Parents = [''base-commit'']\<rparr> (Inr ''commit-sha'')]"

definition headUpdate :: "error + unit \<Rightarrow> api_event" where
  "headUpdate answer =
    Git_UpdateRef_call ''acme'' ''payments'' ''heads/cpgo''
      \<lparr>UpdateRef.SHA = ''commit-sha'', Force = True\<rparr> answer"

definition headCreate :: "error + unit \<Rightarrow> api_event" where
  "headCreate answer =
    Git_CreateRef_call ''acme'' ''payments''
      \<lparr>Ref = ''refs/heads/cpgo'', CreateRef.SHA = ''commit-sha''\<rparr> answer"

definition treeEvents :: "Tree \<Rightarrow> api_event list" where
  "treeEvents tree =
    [Git_GetRef_call ''acme'' ''payments'' ''heads/main'' (Inr ''base-commit''),
     Git_GetCommit_call ''acme'' ''payments'' ''base-commit'' (Inr ''base-tree''),
     Git_GetTree_call ''acme'' ''payments'' ''base-tree'' True (Inr tree)]"

definition profileFetcherStub :: "bytes \<Rightarrow> 'w ProfileFetcher" where
  "profileFetcherStub profile = \<lparr>FetchCPUProfile = (\<lambda>req w. (Inr profile, w))\<rparr>"

definition profileValidatorStub :: "'w ProfileValidator" where
  "profileValidatorStub = \<lparr>ValidateCPUProfile = (\<lambda>raw w. (Inr (), w))\<rparr>"

definition defaultBody :: string where
  "defaultBody =
    ''Automated PGO profile refresh.'' @ [CHR 0x0A, CHR 0x0A] @ ''<!-- managed-by:cpgo -->''"

definition racedService :: "(bool \<times> api_event list) Service" where
  "racedService =
    newService id (fakeGitHub Raced (readmeTree False) (Inl notFound))
      (profileFetcherStub ''new-profile'') profileValidatorStub"

definition racedLog :: "api_event list" where
  "racedLog =
    [Repositories_Get_call ''acme'' ''payments'' (Inr ''main''),
     PullRequests_List_call ''acme'' ''payments''
       \<lparr>State = ''open'', Base = ''main'', Head = ''acme:cpgo'', PerPage = 1\<rparr> (Inr [])] @
    treeEvents (readmeTree False) @
    commitEvents @
    [headUpdate (Inl missingRef), headCreate (Inl existingRef), headUpdate (Inr ())] @
    [PullRequests_Create_call ''acme'' ''payments''
       \<lparr>NewPullRequest.Title = ''perf(pgo): refresh pgo profile'', NewPullRequest.Head = ''cpgo'',
        NewPullRequest.Base = ''main'', NewPullRequest.Body = defaultBody\<rparr>
       (Inr createdPullRequest)]"

definition racedResult :: RunResult where
  "racedResult =
    (changedResult normalizedRunRequest ''main''
       \<lparr>UpsertFileResult.CommitSHA = ''commit-sha'', IsBranchCreated = False\<rparr>)
    \<lparr>PullRequestNumber := 22, IsPullRequestCreated := True\<rparr>"

definition racedEvents :: "port_event list" where
  "racedEvents =
    [FetchCPUProfile_call (fetchProfileRequest normalizedRunRequest) (Inr ''new-profile''),
     ValidateCPUProfile_call ''new-profile'' (Inr ()),
     DefaultBranch_call acmePayments (Inr ''main''),
     FindOpenByHead_call (findPullRequestRequest normalizedRunRequest ''main'') (Inr None),
     ReadFile_call readRequest (Inr \<lparr>ReadFileResult.Content = [], HasFile = False\<rparr>),
     UpsertFileAndForceBranch_call upsertRequest
       (Inr \<lparr>UpsertFileResult.CommitSHA = ''commit-sha'', IsBranchCreated = False\<rparr>),
     Create_call (createPullRequestRequest normalizedRunRequest ''main'')
       (Inr createdPullRequest)]"


section \<open>Occurrences of a substring\<close>

lemma Contains_Nil [simp]: "Contains s []"
  by (cases s) simp_all

lemma Contains_self [simp]: "Contains m m"
  by (cases m) simp_all

lemma Contains_append1: "Contains x m \<Longrightarrow> Contains (x @ y) m"
proof (induction x)
  case Nil
  then show ?case by simp
next
  case (Cons a x)
  show ?case
  proof (cases "prefix m (a # x)")
    case True
    then have "prefix m ((a # x) @ y)" by (rule prefix_prefix)
    then show ?thesis by simp
  next
    case False
    with Cons show ?thesis by simp
  qed
qed

lemma Contains_append2: "Contains y m \<Longrightarrow> Contains (x @ y) m"
  by (induction x) auto

lemma Contains_occurrences: "Contains s m \<longleftrightarrow> 0 < occurrences s m"
  by (induction s) auto

lemma occurrences_short: "length s < length m \<Longrightarrow> occurrences s m = 0"
proof (induction s)
  case Nil
  then show ?case by auto
next
  case (Cons c cs)
  then have "\<not> prefix m (c # cs)" using prefix_length_le by fastforce
  with Cons show ?case by simp
qed

lemma occurrences_self: "m \<noteq> [] \<Longrightarrow> occurrences m m = 1"
  by (cases m) (simp_all add: occurrences_short)

lemma prefix_before_char:
  assumes "c \<notin> set m" and "prefix m (y @ c # rest)"
  shows "prefix m y"
proof -
  from assms(2) consider "prefix m y" | z where "m = y @ z" "prefix z (c # rest)"
    by (auto simp: prefix_append)
  then show ?thesis
  proof cases
    case 1
    then show ?thesis .
  next
    case 2
    with assms(1) have "z = []" by (cases z) auto
    with 2 show ?thesis by simp
  qed
qed

lemma occurrences_separated:
  assumes "\<not> Contains x m" and "m \<noteq> []" and "CHR 0x0A \<notin> set m"
  shows "occurrences (x @ [CHR 0x0A, CHR 0x0A] @ m) m = 1"
  using assms(1)
proof (induction x)
  case Nil
  from assms(2,3) have "\<not> prefix m (CHR 0x0A # t)" for t
    by (cases m) auto
  then show ?case using assms(2) by (simp add: occurrences_self)
next
  case (Cons a x)
  have "\<not> prefix m ((a # x) @ CHR 0x0A # CHR 0x0A # m)"
    using prefix_before_char[OF assms(3)] Cons.prems by auto
  with Cons show ?case by simp
qed

lemma TrimRight_prefix: "\<exists>rest. s = TrimRight s cutset @ rest"
proof -
  have "rev s = takeWhile (\<lambda>c. c \<in> set cutset) (rev s) @ dropWhile (\<lambda>c. c \<in> set cutset) (rev s)"
    by simp
  then have "s = rev (dropWhile (\<lambda>c. c \<in> set cutset) (rev s)) @ rev (takeWhile (\<lambda>c. c \<in> set cutset) (rev s))"
    by (metis rev_append rev_rev_ident)
  then show ?thesis unfolding TrimRight_def by blast
qed

lemma not_Contains_TrimRight: "\<not> Contains s m \<Longrightarrow> \<not> Contains (TrimRight s cutset) m"
  using TrimRight_prefix[of s cutset] Contains_append1 by metis

section \<open>Normalization, case by case\<close>

lemma Run_invalid: "normalized req = Inl e \<Longrightarrow> Run svc req s = (Inl e, s, [])"
  by (simp add: Run_def ret_def)

lemma if_update:
  "\<And>c (r::RunRequest) a. (if c then r\<lparr>Profile := a\<rparr> else r) = r\<lparr>Profile := (if c then a else Profile r)\<rparr>"
  "\<And>c (r::RunRequest) b. (if c then r\<lparr>RunRequest.Repository := b\<rparr> else r) =
      r\<lparr>RunRequest.Repository := (if c then b else RunRequest.Repository r)\<rparr>"
  "\<And>c (r::RunRequest) d. (if c then r\<lparr>RunRequest.PullRequest := d\<rparr> else r) =
      r\<lparr>RunRequest.PullRequest := (if c then d else RunRequest.PullRequest r)\<rparr>"
  "\<And>c (r::RunRequest) e. (if c then r\<lparr>RunRequest.Commit := e\<rparr> else r) = r\<lparr>RunRequest.Commit := (if c then e else RunRequest.Commit r)\<rparr>"
  "\<And>c (p::ProfileSettings) x. (if c then p\<lparr>ProfileSettings.Seconds := x\<rparr> else p) =
      p\<lparr>ProfileSettings.Seconds := (if c then x else ProfileSettings.Seconds p)\<rparr>"
  "\<And>c (q::RepositorySettings) h. (if c then q\<lparr>RepositorySettings.HeadBranch := h\<rparr> else q) =
      q\<lparr>RepositorySettings.HeadBranch := (if c then h else RepositorySettings.HeadBranch q)\<rparr>"
  "\<And>c (t::PullRequestSettings) m. (if c then t\<lparr>ManagedByMarker := m\<rparr> else t) =
      t\<lparr>ManagedByMarker := (if c then m else ManagedByMarker t)\<rparr>"
  "\<And>c (t::PullRequestSettings) m. (if c then t\<lparr>PullRequestSettings.Title := m\<rparr> else t) =
      t\<lparr>PullRequestSettings.Title := (if c then m else PullRequestSettings.Title t)\<rparr>"
  "\<And>c (t::PullRequestSettings) m. (if c then t\<lparr>PullRequestSettings.Body := m\<rparr> else t) =
      t\<lparr>PullRequestSettings.Body := (if c then m else PullRequestSettings.Body t)\<rparr>"
  "\<And>c (k::CommitSettings) m. (if c then k\<lparr>CommitSettings.Message := m\<rparr> else k) =
      k\<lparr>CommitSettings.Message := (if c then m else CommitSettings.Message k)\<rparr>"
  by simp_all


lemma normalized_ok':
  assumes "ProfileSettings.URL (Profile req) = Some u" "Scheme u \<noteq> []" "Host u \<noteq> []"
    "TrimSpace (RepositorySettings.Owner (RunRequest.Repository req)) \<noteq> []"
    "TrimSpace (RepositorySettings.Name (RunRequest.Repository req)) \<noteq> []"
    "TrimSpace (PGOPath (RunRequest.Repository req)) \<noteq> []"
  shows "normalized req = Inr
    (req\<lparr>Profile := (Profile req)
                \<lparr>ProfileSettings.Seconds :=
                   (if ProfileSettings.Seconds (Profile req) \<le> 0 then defaultProfileSeconds
                    else ProfileSettings.Seconds (Profile req))\<rparr>,
             RunRequest.Repository := (RunRequest.Repository req)
                \<lparr>RepositorySettings.HeadBranch :=
                   (if TrimSpace (RepositorySettings.HeadBranch (RunRequest.Repository req)) = []
                    then defaultHeadBranch
                    else RepositorySettings.HeadBranch (RunRequest.Repository req))\<rparr>,
             RunRequest.PullRequest := (RunRequest.PullRequest req)
                \<lparr>ManagedByMarker :=
                   (if TrimSpace (ManagedByMarker (RunRequest.PullRequest req)) = []
                    then defaultManagedByMarker
                    else ManagedByMarker (RunRequest.PullRequest req)),
                 PullRequestSettings.Title :=
                   (if TrimSpace (PullRequestSettings.Title (RunRequest.PullRequest req)) = []
                    then defaultPRTitle
                    else PullRequestSettings.Title (RunRequest.PullRequest req)),
                 PullRequestSettings.Body :=
                   (if TrimSpace (PullRequestSettings.Body (RunRequest.PullRequest req)) = []
                    then defaultPRBody
                    else PullRequestSettings.Body (RunRequest.PullRequest req))\<rparr>,
             RunRequest.Commit := (RunRequest.Commit req)
                \<lparr>CommitSettings.Message :=
                   (if TrimSpace (CommitSettings.Message (RunRequest.Commit req)) = []
                    then defaultCommitMessage
                    else CommitSettings.Message (RunRequest.Commit req))\<rparr>\<rparr>)"
  unfolding normalized_def Let_def if_update
  using assms
  by (simp cong: if_cong split del: if_split)


lemma normalized_no_url:
  "ProfileSettings.URL (Profile req) = None \<Longrightarrow>
   normalized req = Inl (Errorf ''profile url is required'' [])"
  by (simp add: normalized_def)

lemma normalized_bad_url:
  "ProfileSettings.URL (Profile req) = Some u \<Longrightarrow> Scheme u = [] \<or> Host u = [] \<Longrightarrow>
   normalized req = Inl (Errorf ''profile url must include scheme and host'' [])"
  by (simp add: normalized_def)

lemma normalized_no_owner:
  "ProfileSettings.URL (Profile req) = Some u \<Longrightarrow> Scheme u \<noteq> [] \<Longrightarrow> Host u \<noteq> [] \<Longrightarrow>
   TrimSpace (RepositorySettings.Owner (RunRequest.Repository req)) = [] \<Longrightarrow>
   normalized req = Inl (Errorf ''repository owner is required'' [])"
  unfolding normalized_def Let_def if_update
  by (simp cong: if_cong split del: if_split)

lemma normalized_no_name:
  "ProfileSettings.URL (Profile req) = Some u \<Longrightarrow> Scheme u \<noteq> [] \<Longrightarrow> Host u \<noteq> [] \<Longrightarrow>
   TrimSpace (RepositorySettings.Owner (RunRequest.Repository req)) \<noteq> [] \<Longrightarrow>
   TrimSpace (RepositorySettings.Name (RunRequest.Repository req)) = [] \<Longrightarrow>
   normalized req = Inl (Errorf ''repository name is required'' [])"
  unfolding normalized_def Let_def if_update
  by (simp cong: if_cong split del: if_split)

lemma normalized_no_path:
  "ProfileSettings.URL (Profile req) = Some u \<Longrightarrow> Scheme u \<noteq> [] \<Longrightarrow> Host u \<noteq> [] \<Longrightarrow>
   TrimSpace (RepositorySettings.Owner (RunRequest.Repository req)) \<noteq> [] \<Longrightarrow>
   TrimSpace (RepositorySettings.Name (RunRequest.Repository req)) \<noteq> [] \<Longrightarrow>
   TrimSpace (PGOPath (RunRequest.Repository req)) = [] \<Longrightarrow>
   normalized req = Inl (Errorf ''repository pgo path is required'' [])"
  unfolding normalized_def Let_def if_update
  by (simp cong: if_cong split del: if_split)

lemmas normalized_ok =
  normalized_ok' [unfolded defaultProfileSeconds_def defaultHeadBranch_def
    defaultManagedByMarker_def defaultPRTitle_def defaultPRBody_def defaultCommitMessage_def]

section \<open>The outcomes of a run\<close>

text \<open>Elimination rules for the sequencing: how a computation that returned got there.\<close>

lemma andThenE:
  assumes "andThen m f s = (res, s', tr)"
  obtains (fail) e where "m s = (Inl e, s', tr)" "res = Inl e"
        | (ok) a s1 t1 t2 where "m s = (Inr a, s1, t1)" "f a s1 = (res, s', t2)" "tr = t1 @ t2"
proof (cases "m s")
  case (fields r s1 t1)
  show ?thesis
  proof (cases r)
    case (Inl e)
    with fields assms have "m s = (Inl e, s', tr)" "res = Inl e" by (simp_all add: andThen_def)
    then show ?thesis by (rule fail)
  next
    case (Inr a)
    obtain r2 s2 t2 where f: "f a s1 = (r2, s2, t2)" by (cases "f a s1")
    with Inr fields assms have "m s = (Inr a, s1, t1)" "f a s1 = (res, s', t2)" "tr = t1 @ t2"
      by (simp_all add: andThen_def)
    then show ?thesis by (rule ok)
  qed
qed

lemma mapErr_callE:
  assumes "mapErr w (call f ev) s = (r, s1, t)"
  obtains (fail) e where "f s = (Inl e, s1)" "t = [ev (Inl e)]" "r = Inl (w e)"
        | (ok) a where "f s = (Inr a, s1)" "t = [ev (Inr a)]" "r = Inr a"
proof (cases "f s")
  case (Pair r0 s0)
  show ?thesis
  proof (cases r0)
    case (Inl e)
    with Pair assms have "f s = (Inl e, s1)" "t = [ev (Inl e)]" "r = Inl (w e)"
      by (auto simp add: mapErr_def call_def)
    then show ?thesis by (rule fail)
  next
    case (Inr a)
    with Pair assms have "f s = (Inr a, s1)" "t = [ev (Inr a)]" "r = Inr a"
      by (auto simp add: mapErr_def call_def)
    then show ?thesis by (rule ok)
  qed
qed

lemma mapErr_call_InlD:
  assumes "mapErr w (call f ev) s = (Inl e, s1, t)"
  shows "\<exists>e0. e = w e0 \<and> t = [ev (Inl e0)]"
  using assms by (cases rule: mapErr_callE) auto

lemma mapErr_call_InrD:
  assumes "mapErr w (call f ev) s = (Inr a, s1, t)"
  shows "t = [ev (Inr a)]"
  using assms by (cases rule: mapErr_callE) auto

lemma resolveBaseBranch_InlD:
  assumes "resolveBaseBranch svc (repositoryRef n) (RepositorySettings.BaseBranch (RunRequest.Repository n)) s = (Inl e, s1, t)"
  shows "\<exists>e0. e = Wrapf ''resolve default branch: %w'' [] e0 \<and> t = [DefaultBranch_call (repositoryRef n) (Inl e0)]"
proof (cases "TrimSpace (RepositorySettings.BaseBranch (RunRequest.Repository n)) \<noteq> []")
  case True
  with assms show ?thesis by (simp add: resolveBaseBranch_def ret_def)
next
  case False
  with assms have "andThen
         (mapErr (Wrapf ''resolve default branch: %w'' [])
           (call (DefaultBranch (branchWriter svc) (repositoryRef n)) (DefaultBranch_call (repositoryRef n))))
         (\<lambda>baseBranch. ret (Inr baseBranch)) s = (Inl e, s1, t)"
    by (simp add: resolveBaseBranch_def)
  then show ?thesis
  proof (cases rule: andThenE)
    case (fail e')
    then show ?thesis using mapErr_call_InlD by fastforce
  next
    case (ok a s1 t1 t2)
    then show ?thesis by (simp add: ret_def)
  qed
qed

lemma resolveBaseBranch_InrD:
  assumes "resolveBaseBranch svc (repositoryRef n) (RepositorySettings.BaseBranch (RunRequest.Repository n)) s = (Inr b, s1, t)"
  shows "resolved n t b"
proof (cases "TrimSpace (RepositorySettings.BaseBranch (RunRequest.Repository n)) \<noteq> []")
  case True
  with assms show ?thesis by (auto simp add: resolveBaseBranch_def ret_def resolved_def)
next
  case False
  with assms have "andThen
         (mapErr (Wrapf ''resolve default branch: %w'' [])
           (call (DefaultBranch (branchWriter svc) (repositoryRef n)) (DefaultBranch_call (repositoryRef n))))
         (\<lambda>baseBranch. ret (Inr baseBranch)) s = (Inr b, s1, t)"
    by (simp add: resolveBaseBranch_def)
  then show ?thesis
  proof (cases rule: andThenE)
    case (fail e')
    then show ?thesis by simp
  next
    case (ok a s1 t1 t2)
    then show ?thesis using mapErr_call_InrD[OF ok(1)] False by (auto simp add: ret_def resolved_def)
  qed
qed


text \<open>
  Every run that returns took one of twelve paths. Each path fixes the result and the
  events of the run, with the answer of every collaborator that was asked.
\<close>

lemma Run_cases [consumes 1, case_names invalid fetch_failed invalid_profile resolve_failed
    find_failed unmanaged_pr read_failed noop write_failed reused create_failed created]:
  assumes run: "Run svc req s = (res, s', tr)"
  obtains
    e where "normalized req = Inl e" "res = Inl e" "tr = []"
  | n e where "normalized req = Inr n"
      "res = Inl (Wrapf ''fetch cpu profile: %w'' [] e)"
      "tr = [FetchCPUProfile_call (fetchProfileRequest n) (Inl e)]"
  | n profile e where "normalized req = Inr n"
      "res = Inl (Wrapf ''validate cpu profile: %w'' [] e)"
      "tr = [FetchCPUProfile_call (fetchProfileRequest n) (Inr profile),
             ValidateCPUProfile_call profile (Inl e)]"
  | n profile e where "normalized req = Inr n"
      "res = Inl (Wrapf ''resolve default branch: %w'' [] e)"
      "tr = [FetchCPUProfile_call (fetchProfileRequest n) (Inr profile),
             ValidateCPUProfile_call profile (Inr ()),
             DefaultBranch_call (repositoryRef n) (Inl e)]"
  | n profile db base e where "normalized req = Inr n" "resolved n db base"
      "res = Inl (Wrapf ''find open pull request: %w'' [] e)"
      "tr = FetchCPUProfile_call (fetchProfileRequest n) (Inr profile) #
            ValidateCPUProfile_call profile (Inr ()) # db @
            [FindOpenByHead_call (findPullRequestRequest n base) (Inl e)]"
  | n profile db base openPR where "normalized req = Inr n" "resolved n db base"
      "unmanaged n openPR"
      "res = Inl ErrUnmanagedPullRequest"
      "tr = FetchCPUProfile_call (fetchProfileRequest n) (Inr profile) #
            ValidateCPUProfile_call profile (Inr ()) # db @
            [FindOpenByHead_call (findPullRequestRequest n base) (Inr openPR)]"
  | n profile db base openPR e where "normalized req = Inr n" "resolved n db base"
      "\<not> unmanaged n openPR"
      "res = Inl (Wrapf ''read base branch pgo file: %w'' [] e)"
      "tr = FetchCPUProfile_call (fetchProfileRequest n) (Inr profile) #
            ValidateCPUProfile_call profile (Inr ()) # db @
            [FindOpenByHead_call (findPullRequestRequest n base) (Inr openPR),
             ReadFile_call (readFileRequest n base) (Inl e)]"
  | n profile db base openPR readResult where "normalized req = Inr n" "resolved n db base"
      "\<not> unmanaged n openPR"
      "HasFile readResult" "ReadFileResult.Content readResult = profile"
      "res = Inr (noopResult n base openPR)"
      "tr = FetchCPUProfile_call (fetchProfileRequest n) (Inr profile) #
            ValidateCPUProfile_call profile (Inr ()) # db @
            [FindOpenByHead_call (findPullRequestRequest n base) (Inr openPR),
             ReadFile_call (readFileRequest n base) (Inr readResult)]"
  | n profile db base openPR readResult e where "normalized req = Inr n" "resolved n db base"
      "\<not> unmanaged n openPR"
      "\<not> (HasFile readResult \<and> ReadFileResult.Content readResult = profile)"
      "res = Inl (Wrapf ''update pgo branch: %w'' [] e)"
      "tr = FetchCPUProfile_call (fetchProfileRequest n) (Inr profile) #
            ValidateCPUProfile_call profile (Inr ()) # db @
            [FindOpenByHead_call (findPullRequestRequest n base) (Inr openPR),
             ReadFile_call (readFileRequest n base) (Inr readResult),
             UpsertFileAndForceBranch_call (upsertFileRequest n base profile) (Inl e)]"
  | n profile db base pr readResult writeResult where "normalized req = Inr n"
      "resolved n db base"
      "\<not> unmanaged n (Some pr)"
      "\<not> (HasFile readResult \<and> ReadFileResult.Content readResult = profile)"
      "res = Inr ((changedResult n base writeResult)\<lparr>PullRequestNumber := Number pr\<rparr>)"
      "tr = FetchCPUProfile_call (fetchProfileRequest n) (Inr profile) #
            ValidateCPUProfile_call profile (Inr ()) # db @
            [FindOpenByHead_call (findPullRequestRequest n base) (Inr (Some pr)),
             ReadFile_call (readFileRequest n base) (Inr readResult),
             UpsertFileAndForceBranch_call (upsertFileRequest n base profile) (Inr writeResult)]"
  | n profile db base readResult writeResult e where "normalized req = Inr n"
      "resolved n db base"
      "\<not> (HasFile readResult \<and> ReadFileResult.Content readResult = profile)"
      "res = Inl (Wrapf ''create pull request: %w'' [] e)"
      "tr = FetchCPUProfile_call (fetchProfileRequest n) (Inr profile) #
            ValidateCPUProfile_call profile (Inr ()) # db @
            [FindOpenByHead_call (findPullRequestRequest n base) (Inr None),
             ReadFile_call (readFileRequest n base) (Inr readResult),
             UpsertFileAndForceBranch_call (upsertFileRequest n base profile) (Inr writeResult),
             Create_call (createPullRequestRequest n base) (Inl e)]"
  | n profile db base readResult writeResult createdPR where "normalized req = Inr n"
      "resolved n db base"
      "\<not> (HasFile readResult \<and> ReadFileResult.Content readResult = profile)"
      "res = Inr ((changedResult n base writeResult)
                   \<lparr>PullRequestNumber := Number createdPR, IsPullRequestCreated := True\<rparr>)"
      "tr = FetchCPUProfile_call (fetchProfileRequest n) (Inr profile) #
            ValidateCPUProfile_call profile (Inr ()) # db @
            [FindOpenByHead_call (findPullRequestRequest n base) (Inr None),
             ReadFile_call (readFileRequest n base) (Inr readResult),
             UpsertFileAndForceBranch_call (upsertFileRequest n base profile) (Inr writeResult),
             Create_call (createPullRequestRequest n base) (Inr createdPR)]"
proof (cases "normalized req")
  case (Inl e)
  with run have "res = Inl e" "tr = []" by (simp_all add: Run_def ret_def)
  with Inl show ?thesis by (rule that(1))
next
  case (Inr n)
  note run [unfolded Run_def Inr sum.case]
  then show ?thesis
  proof (cases rule: andThenE)
    case (fail e)
    from mapErr_call_InlD[OF fail(1)] fail(2) Inr show ?thesis by (auto intro: that(2))
  next
    case fetched: (ok profile s1 t1 t2)
    note T1 = mapErr_call_InrD[OF fetched(1)]
    from fetched(2) show ?thesis
    proof (cases rule: andThenE)
      case (fail e)
      from mapErr_call_InlD[OF fail(1)] fail(2) Inr T1 fetched(3) show ?thesis
        by (auto intro: that(3))
    next
      case validated: (ok u s2 t3 t4)
      note T2 = mapErr_call_InrD[OF validated(1)]
      from validated(2) show ?thesis
      proof (cases rule: andThenE)
        case (fail e)
        from resolveBaseBranch_InlD[OF fail(1)] fail(2) Inr T1 T2 fetched(3) validated(3)
        show ?thesis by (auto intro: that(4))
      next
        case based: (ok base s3 db t6)
        note R = resolveBaseBranch_InrD[OF based(1)]
        have tr: "tr = FetchCPUProfile_call (fetchProfileRequest n) (Inr profile) #
            ValidateCPUProfile_call profile (Inr ()) # db @ t6"
          using T1 T2 fetched(3) validated(3) based(3) by simp
        from based(2) show ?thesis
        proof (cases rule: andThenE)
          case (fail e)
          from mapErr_call_InlD[OF fail(1)] fail(2) Inr R tr show ?thesis
            by (auto intro: that(5))
        next
          case found: (ok openPR s4 t7 t8)
          note T4 = mapErr_call_InrD[OF found(1)]
          show ?thesis
          proof (cases "unmanaged n openPR")
            case True
            with found(2) have "res = Inl ErrUnmanagedPullRequest" "t8 = []"
              by (simp_all add: ret_def)
            with Inr R tr T4 found(3) True show ?thesis by (auto intro: that(6))
          next
            case managed: False
            with found(2) have "andThen
                (mapErr (Wrapf ''read base branch pgo file: %w'' [])
                  (call (ReadFile (branchWriter svc) (readFileRequest n base))
                        (ReadFile_call (readFileRequest n base))))
                (\<lambda>readResult.
                  if HasFile readResult \<and> ReadFileResult.Content readResult = profile then
                    ret (Inr (noopResult n base openPR))
                  else
                  andThen
                    (mapErr (Wrapf ''update pgo branch: %w'' [])
                      (call (UpsertFileAndForceBranch (branchWriter svc) (upsertFileRequest n base profile))
                            (UpsertFileAndForceBranch_call (upsertFileRequest n base profile))))
                  (\<lambda>writeResult.
                  case openPR of
                    Some pr \<Rightarrow>
                      ret (Inr ((changedResult n base writeResult)\<lparr>PullRequestNumber := Number pr\<rparr>))
                  | None \<Rightarrow>
                    andThen
                      (mapErr (Wrapf ''create pull request: %w'' [])
                        (call (Create (pullRequests svc) (createPullRequestRequest n base))
                              (Create_call (createPullRequestRequest n base))))
                    (\<lambda>createdPR.
                    ret (Inr ((changedResult n base writeResult)
                                \<lparr>PullRequestNumber := Number createdPR,
                                 IsPullRequestCreated := True\<rparr>))))) s4 = (res, s', t8)"
              by simp
            then show ?thesis
            proof (cases rule: andThenE)
              case (fail e)
              from mapErr_call_InlD[OF fail(1)] fail(2) Inr R tr T4 found(3) managed
              show ?thesis by (auto intro: that(7))
            next
              case read: (ok readResult s5 t9 t10)
              note T5 = mapErr_call_InrD[OF read(1)]
              show ?thesis
              proof (cases "HasFile readResult \<and> ReadFileResult.Content readResult = profile")
                case True
                with read(2) have "res = Inr (noopResult n base openPR)" "t10 = []"
                  by (simp_all add: ret_def)
                with Inr R tr T4 T5 found(3) read(3) managed True show ?thesis
                  by (auto intro: that(8))
              next
                case differs: False
                with read(2) have "andThen
                    (mapErr (Wrapf ''update pgo branch: %w'' [])
                      (call (UpsertFileAndForceBranch (branchWriter svc) (upsertFileRequest n base profile))
                            (UpsertFileAndForceBranch_call (upsertFileRequest n base profile))))
                  (\<lambda>writeResult.
                  case openPR of
                    Some pr \<Rightarrow>
                      ret (Inr ((changedResult n base writeResult)\<lparr>PullRequestNumber := Number pr\<rparr>))
                  | None \<Rightarrow>
                    andThen
                      (mapErr (Wrapf ''create pull request: %w'' [])
                        (call (Create (pullRequests svc) (createPullRequestRequest n base))
                              (Create_call (createPullRequestRequest n base))))
                    (\<lambda>createdPR.
                    ret (Inr ((changedResult n base writeResult)
                                \<lparr>PullRequestNumber := Number createdPR,
                                 IsPullRequestCreated := True\<rparr>)))) s5 = (res, s', t10)"
                  by simp
                then show ?thesis
                proof (cases rule: andThenE)
                  case (fail e)
                  from mapErr_call_InlD[OF fail(1)] fail(2) Inr R tr T4 T5 found(3) read(3)
                    managed differs
                  show ?thesis by (auto intro: that(9))
                next
                  case written: (ok writeResult s6 t11 t12)
                  note T6 = mapErr_call_InrD[OF written(1)]
                  have tr': "tr = FetchCPUProfile_call (fetchProfileRequest n) (Inr profile) #
                      ValidateCPUProfile_call profile (Inr ()) # db @
                      [FindOpenByHead_call (findPullRequestRequest n base) (Inr openPR),
                       ReadFile_call (readFileRequest n base) (Inr readResult),
                       UpsertFileAndForceBranch_call (upsertFileRequest n base profile)
                         (Inr writeResult)] @ t12"
                    using tr T4 T5 T6 found(3) read(3) written(3) by simp
                  show ?thesis
                  proof (cases openPR)
                    case (Some pr)
                    with written(2) have
                      "res = Inr ((changedResult n base writeResult)\<lparr>PullRequestNumber := Number pr\<rparr>)"
                      "t12 = []"
                      by (simp_all add: ret_def)
                    with Inr R tr' Some managed differs show ?thesis
                      by (auto intro: that(10))
                  next
                    case None
                    with written(2) have "andThen
                      (mapErr (Wrapf ''create pull request: %w'' [])
                        (call (Create (pullRequests svc) (createPullRequestRequest n base))
                              (Create_call (createPullRequestRequest n base))))
                      (\<lambda>createdPR.
                      ret (Inr ((changedResult n base writeResult)
                                \<lparr>PullRequestNumber := Number createdPR,
                                 IsPullRequestCreated := True\<rparr>))) s6 = (res, s', t12)"
                      by simp
                    then show ?thesis
                    proof (cases rule: andThenE)
                      case (fail e)
                      from mapErr_call_InlD[OF fail(1)] fail(2) Inr R tr' None differs
                      show ?thesis by (auto intro: that(11))
                    next
                      case made: (ok createdPR s7 t13 t14)
                      note T7 = mapErr_call_InrD[OF made(1)]
                      from made(2) have "res = Inr ((changedResult n base writeResult)
                                \<lparr>PullRequestNumber := Number createdPR,
                                 IsPullRequestCreated := True\<rparr>)" "t14 = []"
                        by (simp_all add: ret_def)
                      with Inr R tr' None differs T7 made(3) show ?thesis
                        by (auto intro: that(12))
                    qed
                  qed
                qed
              qed
            qed
          qed
        qed
      qed
    qed
  qed
qed

lemma resolvedD:
  "resolved n db base \<Longrightarrow> db = [] \<or> db = [DefaultBranch_call (repositoryRef n) (Inr base)]"
  by (auto simp: resolved_def split: if_splits)

lemma Create_call_body:
  assumes "Run svc req s = (res, s', tr)"
      and "normalized req = Inr n"
      and "Create_call q r \<in> set tr"
    shows "CreatePullRequestRequest.Body q =
             appendMarker (PullRequestSettings.Body (RunRequest.PullRequest n))
                          (ManagedByMarker (RunRequest.PullRequest n))"
  using assms(1)
  by (cases rule: Run_cases)
     (use assms(2,3) in \<open>auto simp: createPullRequestRequest_def dest!: resolvedD\<close>)

section \<open>The outcomes of the client\<close>

lemma andThen_ret_Inr [simp]: "andThen (ret (Inr a)) f s = f a s"
  by (cases "f a s") (simp add: andThen_def ret_def)

lemma andThen_ret_Inl [simp]: "andThen (ret (Inl e)) f s = (Inl e, s, [])"
  by (simp add: andThen_def ret_def)

lemma updateHeadRef_outcomes:
  assumes "updateHeadRef unicodeLower githubClient repository headBranch commitSHA s = (res, s', tr)"
  shows
    "(res = Inr False \<and> tr = [updateRefEvent repository headBranch commitSHA (Inr ())]) \<or>
     (\<exists>err. \<not> isNotFound err \<and> \<not> isReferenceMissing unicodeLower err \<and>
        res = Inl (Wrapf ''force update branch ref: %w'' [] err) \<and>
        tr = [updateRefEvent repository headBranch commitSHA (Inl err)]) \<or>
     (\<exists>err. (isNotFound err \<or> isReferenceMissing unicodeLower err) \<and> res = Inr True \<and>
        tr = [updateRefEvent repository headBranch commitSHA (Inl err),
              createRefEvent repository headBranch commitSHA (Inr ())]) \<or>
     (\<exists>err createErr. (isNotFound err \<or> isReferenceMissing unicodeLower err) \<and> res = Inr False \<and>
        tr = [updateRefEvent repository headBranch commitSHA (Inl err),
              createRefEvent repository headBranch commitSHA (Inl createErr),
              updateRefEvent repository headBranch commitSHA (Inr ())]) \<or>
     (\<exists>err createErr updateErr. (isNotFound err \<or> isReferenceMissing unicodeLower err) \<and>
        res = Inl (Wrapf2 ''create branch ref: %w (retry update failed: %v)'' createErr updateErr) \<and>
        tr = [updateRefEvent repository headBranch commitSHA (Inl err),
              createRefEvent repository headBranch commitSHA (Inl createErr),
              updateRefEvent repository headBranch commitSHA (Inl updateErr)])"
  using assms
  unfolding updateHeadRef_def bind_def call_def ret_def updateRefEvent_def createRefEvent_def
  by (auto split: prod.splits sum.splits if_splits)

lemma isLookup_not_mutation: "isLookup e \<Longrightarrow> \<not> isRefMutation e"
  by (cases e) simp_all

lemma lookup_events:
  assumes "list_all isLookup t"
  shows "filter isRefMutation t = []"
    and "Git_GetTree_call owner name sha recursive r \<notin> set t"
    and "Git_GetBlobRaw_call owner name sha b \<notin> set t"
  using assms by (induction t) (auto dest: isLookup_not_mutation)

lemma baseCommitTree_events:
  assumes "baseCommitTree githubClient repository baseBranch s = (r, s', t)"
  shows "list_all isLookup t"
  using assms unfolding baseCommitTree_def andThen_def mapErr_def call_def ret_def
  by (auto split: prod.splits sum.splits if_splits)

lemma createBlob_events:
  assumes "createBlob githubClient repository content s = (r, s', t)"
  shows "filter isRefMutation t = []"
  using assms unfolding createBlob_def andThen_def mapErr_def call_def ret_def
  by (auto split: prod.splits sum.splits if_splits)

lemma createTree_events:
  assumes "createTree githubClient req baseTreeSHA blobSHA s = (r, s', t)"
  shows "filter isRefMutation t = []"
  using assms unfolding createTree_def andThen_def mapErr_def call_def ret_def
  by (auto split: prod.splits sum.splits if_splits)

lemma createCommit_events:
  assumes "createCommit githubClient req treeSHA parentCommitSHA s = (r, s', t)"
  shows "filter isRefMutation t = []"
  using assms unfolding createCommit_def andThen_def mapErr_def call_def ret_def
  by (auto split: prod.splits sum.splits if_splits)

lemma createCommit_Inr:
  assumes "createCommit githubClient req treeSHA parentCommitSHA s = (Inr commitSHA, s', t)"
  shows "\<exists>sha. commitSHA = TrimSpace sha \<and>
           t = [Git_CreateCommit_call (RepositoryRef.Owner (UpsertFileRequest.Repository req))
                  (RepositoryRef.Name (UpsertFileRequest.Repository req))
                  \<lparr>Commit.Message = CommitMessage req, Tree = treeSHA,
                   Parents = [parentCommitSHA]\<rparr> (Inr sha)]"
  using assms unfolding createCommit_def andThen_def mapErr_def call_def ret_def
  by (auto split: prod.splits sum.splits if_splits)

text \<open>
  A call of \<^verbatim>\<open>UpsertFileAndForceBranch\<close> either fails before it touches the head ref, or
  it creates a commit and hands its SHA to \<^verbatim>\<open>updateHeadRef\<close>, whose answer decides the
  result.
\<close>

lemma UpsertFileAndForceBranch_outcomes:
  assumes "Client_UpsertFileAndForceBranch unicodeLower githubClient req s = (res, s', tr)"
  shows
    "(filter isRefMutation tr = [] \<and> (\<exists>e. res = Inl e)) \<or>
     (\<exists>pre t commit sha s1 r.
        tr = pre @ t \<and> filter isRefMutation pre = [] \<and>
        Git_CreateCommit_call (RepositoryRef.Owner (UpsertFileRequest.Repository req))
          (RepositoryRef.Name (UpsertFileRequest.Repository req)) commit (Inr sha) \<in> set pre \<and>
        updateHeadRef unicodeLower githubClient (UpsertFileRequest.Repository req)
          (UpsertFileRequest.HeadBranch req) (TrimSpace sha) s1 = (r, s', t) \<and>
        res = (case r of
                 Inl e \<Rightarrow> Inl e
               | Inr isBranchCreated \<Rightarrow>
                   Inr \<lparr>UpsertFileResult.CommitSHA = TrimSpace sha,
                        IsBranchCreated = isBranchCreated\<rparr>))"
proof (cases "validateRepositoryRef (UpsertFileRequest.Repository req) = Inr () \<and>
    TrimSpace (UpsertFileRequest.BaseBranch req) \<noteq> [] \<and>
    TrimSpace (UpsertFileRequest.HeadBranch req) \<noteq> [] \<and>
    TrimSpace (UpsertFileRequest.Path req) \<noteq> [] \<and>
    TrimSpace (CommitMessage req) \<noteq> []")
  case False
  then have "filter isRefMutation tr = [] \<and> (\<exists>e. res = Inl e)"
    using assms unfolding Client_UpsertFileAndForceBranch_def
    by (cases "validateRepositoryRef (UpsertFileRequest.Repository req)")
       (auto simp: ret_def split: if_splits)
  then show ?thesis by blast
next
  case True
  note run = assms[unfolded Client_UpsertFileAndForceBranch_def, simplified True, simplified]
  from run show ?thesis
  proof (cases rule: andThenE)
    case (fail e)
    with baseCommitTree_events[OF fail(1)] show ?thesis by (simp add: lookup_events)
  next
    case base: (ok a s1 t1 t2)
    obtain baseCommitSHA baseTreeSHA where a: "a = (baseCommitSHA, baseTreeSHA)" by (cases a)
    note q1 = lookup_events(1)[OF baseCommitTree_events[OF base(1)]]
    from base(2)[unfolded a prod.case] show ?thesis
    proof (cases rule: andThenE)
      case (fail e)
      with createBlob_events[OF fail(1)] q1 base(3) show ?thesis by simp
    next
      case blob: (ok blobSHA s2 t3 t4)
      note q2 = createBlob_events[OF blob(1)]
      from blob(2) show ?thesis
      proof (cases rule: andThenE)
        case (fail e)
        with createTree_events[OF fail(1)] q1 q2 base(3) blob(3) show ?thesis by simp
      next
        case tree: (ok treeSHA s3 t5 t6)
        note q3 = createTree_events[OF tree(1)]
        from tree(2) show ?thesis
        proof (cases rule: andThenE)
          case (fail e)
          with createCommit_events[OF fail(1)] q1 q2 q3 base(3) blob(3) tree(3)
          show ?thesis by simp
        next
          case commit: (ok commitSHA s4 t7 t8)
          note q4 = createCommit_events[OF commit(1)]
          from createCommit_Inr[OF commit(1)] obtain sha where
            sha: "commitSHA = TrimSpace sha"
              "t7 = [Git_CreateCommit_call (RepositoryRef.Owner (UpsertFileRequest.Repository req))
                  (RepositoryRef.Name (UpsertFileRequest.Repository req))
                  \<lparr>Commit.Message = CommitMessage req, Tree = treeSHA,
                   Parents = [baseCommitSHA]\<rparr> (Inr sha)]"
            by blast
          have tr: "tr = (t1 @ t3 @ t5 @ t7) @ t8"
            using base(3) blob(3) tree(3) commit(3) by simp
          have pre: "filter isRefMutation (t1 @ t3 @ t5 @ t7) = []"
            using q1 q2 q3 q4 by simp
          have mem: "Git_CreateCommit_call (RepositoryRef.Owner (UpsertFileRequest.Repository req))
                  (RepositoryRef.Name (UpsertFileRequest.Repository req))
                  \<lparr>Commit.Message = CommitMessage req, Tree = treeSHA,
                   Parents = [baseCommitSHA]\<rparr> (Inr sha) \<in> set (t1 @ t3 @ t5 @ t7)"
            using sha(2) by simp
          from commit(2) show ?thesis
          proof (cases rule: andThenE)
            case (fail e)
            with tr pre mem sha(1) show ?thesis by (intro disjI2 exI conjI) auto
          next
            case head: (ok isBranchCreated s5 t9 t10)
            then have "res = Inr \<lparr>UpsertFileResult.CommitSHA = commitSHA,
                IsBranchCreated = isBranchCreated\<rparr>" "t10 = []" "s' = s5"
              by (simp_all add: ret_def)
            with head tr pre mem sha(1) show ?thesis by (intro disjI2 exI conjI) auto
          qed
        qed
      qed
    qed
  qed
qed

lemma blobSHAOf_no_match:
  "find (\<lambda>entry. TreeEntry.Path entry = path) entries = None \<Longrightarrow> blobSHAOf entries path = Inr []"
  by (induction entries) (auto split: if_splits)

lemma blobSHAOf_match:
  "find (\<lambda>entry. TreeEntry.Path entry = path) entries = Some entry \<Longrightarrow>
   blobSHAOf entries path =
     (if TreeEntry.Type entry \<noteq> ''blob'' then Inl (Errorf ''path %q is not a blob entry'' [path])
      else Inr (TrimSpace (TreeEntry.SHA entry)))"
  by (induction entries) (auto simp: treeEntryBlob_def split: if_splits)

lemma ReadFile_outcomes:
  assumes "Client_ReadFile githubClient req s = (res, s', tr)"
  shows
    "(list_all isLookup tr \<and> (\<exists>e. res = Inl e)) \<or>
     (\<exists>pre sha e. list_all isLookup pre \<and> (\<exists>e'. res = Inl e') \<and>
        tr = pre @ [Git_GetTree_call (RepositoryRef.Owner (ReadFileRequest.Repository req))
                      (RepositoryRef.Name (ReadFileRequest.Repository req)) sha True (Inl e)]) \<or>
     (\<exists>pre sha tree post. list_all isLookup pre \<and> afterTree req tree post res \<and>
        tr = pre @ Git_GetTree_call (RepositoryRef.Owner (ReadFileRequest.Repository req))
                     (RepositoryRef.Name (ReadFileRequest.Repository req)) sha True (Inr tree)
                   # post)"
proof (cases "validateRepositoryRef (ReadFileRequest.Repository req) = Inr () \<and>
    TrimSpace (Branch req) \<noteq> [] \<and> TrimSpace (ReadFileRequest.Path req) \<noteq> []")
  case False
  then have "list_all isLookup tr \<and> (\<exists>e. res = Inl e)"
    using assms unfolding Client_ReadFile_def
    by (cases "validateRepositoryRef (ReadFileRequest.Repository req)")
       (auto simp: ret_def split: if_splits)
  then show ?thesis by blast
next
  case True
  note run = assms[unfolded Client_ReadFile_def, simplified True, simplified]
  from run show ?thesis
  proof (cases rule: andThenE)
    case (fail e)
    with baseCommitTree_events[OF fail(1)] show ?thesis by simp
  next
    case base: (ok a s1 t1 t2)
    obtain baseCommitSHA baseTreeSHA where a: "a = (baseCommitSHA, baseTreeSHA)" by (cases a)
    note q1 = baseCommitTree_events[OF base(1)]
    from base(2)[unfolded a prod.case] show ?thesis
    proof (cases rule: andThenE)
      case (fail e)
      from mapErr_call_InlD[OF fail(1)] obtain e0 where
        "t2 = [Git_GetTree_call (RepositoryRef.Owner (ReadFileRequest.Repository req))
                      (RepositoryRef.Name (ReadFileRequest.Repository req)) baseTreeSHA True (Inl e0)]"
        by blast
      with fail(2) q1 base(3) show ?thesis by - (rule disjI2, rule disjI1, auto)
    next
      case listed: (ok tree s2 t3 t4)
      note t3 = mapErr_call_InrD[OF listed(1)]
      have "afterTree req tree t4 res"
        using listed(2) unfolding afterTree_def
        by (cases "blobSHAOf (Entries tree) (ReadFileRequest.Path req)")
           (auto simp: ret_def bind_def call_def split: if_splits prod.splits sum.splits)
      with q1 t3 base(3) listed(3) show ?thesis by - (rule disjI2, rule disjI2, auto)
    qed
  qed
qed

lemma costs_ret: "costs \<mu> k (ret r)"
  by (simp add: costs_def ret_def)

lemma costs_call:
  assumes "\<And>s r s'. f s = (r, s') \<Longrightarrow> \<mu> s' \<le> \<mu> s + k"
  shows "costs \<mu> k (call f ev)"
  using assms by (auto simp: costs_def call_def split: prod.splits)

lemma costs_mapErr: "costs \<mu> k m \<Longrightarrow> costs \<mu> k (mapErr w m)"
  by (auto simp: costs_def mapErr_def split: prod.splits sum.splits)

lemma costs_andThen:
  assumes "costs \<mu> k1 m" and "\<And>a. costs \<mu> k2 (f a)"
  shows "costs \<mu> (k1 + k2) (andThen m f)"
  unfolding costs_def
proof (intro allI impI)
  fix s r s' t
  assume "andThen m f s = (r, s', t)"
  then show "\<mu> s' \<le> \<mu> s + (k1 + k2)"
  proof (cases rule: andThenE)
    case (fail e)
    with assms(1) show ?thesis by (fastforce simp: costs_def)
  next
    case (ok a s1 t1 t2)
    from assms(1) ok(1) have "\<mu> s1 \<le> \<mu> s + k1" by (auto simp: costs_def)
    moreover from assms(2)[of a] ok(2) have "\<mu> s' \<le> \<mu> s1 + k2" by (auto simp: costs_def)
    ultimately show ?thesis by simp
  qed
qed

lemmas costs_first = costs_andThen[where ?k1.0 = 0, simplified]

lemmas costs_last = costs_andThen[where ?k2.0 = 0, simplified]

lemma costs_port:
  assumes "\<And>s r s'. f s = (r, s') \<Longrightarrow> \<mu> s' \<le> \<mu> s + k"
  shows "costs \<mu> k (mapErr w (call f ev))"
  by (rule costs_mapErr, rule costs_call, rule assms)

lemma Run_costs:
  fixes \<mu> :: "'s \<Rightarrow> nat" and svc :: "'s Service"
  assumes fetch: "\<And>rq s r s'. FetchCPUProfile (profileFetcher svc) rq s = (r, s') \<Longrightarrow> \<mu> s' \<le> \<mu> s"
      and validate: "\<And>rq s r s'. ValidateCPUProfile (profileValidator svc) rq s = (r, s') \<Longrightarrow> \<mu> s' \<le> \<mu> s"
      and branch: "\<And>rq s r s'. DefaultBranch (branchWriter svc) rq s = (r, s') \<Longrightarrow> \<mu> s' \<le> \<mu> s"
      and find: "\<And>rq s r s'. FindOpenByHead (pullRequests svc) rq s = (r, s') \<Longrightarrow> \<mu> s' \<le> \<mu> s"
      and read: "\<And>rq s r s'. ReadFile (branchWriter svc) rq s = (r, s') \<Longrightarrow> \<mu> s' \<le> \<mu> s"
      and upsert: "\<And>rq s r s'. UpsertFileAndForceBranch (branchWriter svc) rq s = (r, s') \<Longrightarrow>
                     \<mu> s' \<le> \<mu> s + k"
      and create: "\<And>rq s r s'. Create (pullRequests svc) rq s = (r, s') \<Longrightarrow> \<mu> s' \<le> \<mu> s"
      and run: "Run svc req s = (res, s', tr)"
    shows "\<mu> s' \<le> \<mu> s + k"
proof -
  have publish: "costs \<mu> 0 (case openPR of
        Some pr \<Rightarrow> ret (Inr ((changedResult n baseBranch writeResult)\<lparr>PullRequestNumber := Number pr\<rparr>))
      | None \<Rightarrow>
        andThen
          (mapErr (Wrapf ''create pull request: %w'' [])
            (call (Create (pullRequests svc) (createPullRequestRequest n baseBranch))
                  (Create_call (createPullRequestRequest n baseBranch))))
        (\<lambda>createdPR.
        ret (Inr ((changedResult n baseBranch writeResult)
                    \<lparr>PullRequestNumber := Number createdPR,
                     IsPullRequestCreated := True\<rparr>))))"
    for openPR n baseBranch writeResult
    apply (cases openPR)
     apply simp
     apply (rule costs_first)
      apply (rule costs_port)
      apply (simp add: create)
     apply (rule costs_ret)
    apply (simp add: costs_ret)
    done
  have resolve: "costs \<mu> 0 (resolveBaseBranch svc repository cfg)" for repository cfg
    unfolding resolveBaseBranch_def
    apply (cases "TrimSpace cfg \<noteq> []")
     apply (simp add: costs_ret)
    apply simp
    apply (rule costs_first)
     apply (rule costs_port)
     apply (simp add: branch)
    apply (rule costs_ret)
    done
  have "costs \<mu> k (Run svc req)"
    unfolding Run_def
    apply (cases "normalized req")
     apply (simp add: costs_ret)
    apply simp
    apply (rule costs_first)
     apply (rule costs_port)
     apply (simp add: fetch)
    apply (rule costs_first)
     apply (rule costs_port)
     apply (simp add: validate)
    apply (rule costs_first)
     apply (rule resolve)
    apply (rule costs_first)
     apply (rule costs_port)
     apply (simp add: find)
    apply (simp add: costs_ret)
    apply (intro impI)
    apply (rule costs_first)
     apply (rule costs_port)
     apply (simp add: read)
    apply (simp add: costs_ret)
    apply (intro impI)
    apply (rule costs_last)
     apply (rule costs_port)
     apply (rule upsert, assumption)
    apply (rule publish)
    done
  with run show ?thesis by (auto simp: costs_def)
qed

lemma isUpdateRef_mutation: "isUpdateRef e \<Longrightarrow> isRefMutation e"
  by (cases e) simp_all

lemma isCreateRef_mutation: "isCreateRef e \<Longrightarrow> isRefMutation e"
  by (cases e) simp_all

lemma no_mutation_no_update:
  assumes "filter isRefMutation t = []"
  shows "filter isUpdateRef t = []" and "filter isCreateRef t = []"
  using assms
  by (auto simp: filter_empty_conv dest: isUpdateRef_mutation isCreateRef_mutation)

lemma DefaultBranch_events:
  assumes "Client_DefaultBranch githubClient repository s = (r, s', t)"
  shows "filter isRefMutation t = []"
  using assms unfolding Client_DefaultBranch_def
  by (cases "validateRepositoryRef repository")
     (auto simp: andThen_def mapErr_def call_def ret_def split: prod.splits sum.splits if_splits)

lemma FindOpenByHead_events:
  assumes "Client_FindOpenByHead githubClient req s = (r, s', t)"
  shows "filter isRefMutation t = []"
  using assms unfolding Client_FindOpenByHead_def
  by (cases "validateRepositoryRef (FindPullRequestRequest.Repository req)")
     (auto simp: andThen_def mapErr_def call_def ret_def
           split: prod.splits sum.splits if_splits list.splits)

lemma Create_events:
  assumes "Client_Create githubClient req s = (r, s', t)"
  shows "filter isRefMutation t = []"
  using assms unfolding Client_Create_def
  by (cases "validateRepositoryRef (CreatePullRequestRequest.Repository req)")
     (auto simp: andThen_def mapErr_def call_def ret_def split: prod.splits sum.splits if_splits)

lemma ReadFile_events:
  assumes "Client_ReadFile githubClient req s = (r, s', t)"
  shows "filter isRefMutation t = []"
proof -
  have post: "filter isRefMutation post = []" if "afterTree req tree post r" for tree post
    using that unfolding afterTree_def
    by (cases "blobSHAOf (Entries tree) (ReadFileRequest.Path req)") (auto split: if_splits)
  from ReadFile_outcomes[OF assms] show ?thesis
    by (elim disjE exE conjE) (auto simp: lookup_events(1) post)
qed

lemma UpsertFileAndForceBranch_events:
  assumes "Client_UpsertFileAndForceBranch unicodeLower githubClient req s = (res, s', tr)"
  shows "length (filter isRefMutation tr) \<le> 3"
    and "length (filter isUpdateRef tr) \<le> 2"
    and "length (filter isCreateRef tr) \<le> 1"
proof -
  from UpsertFileAndForceBranch_outcomes[OF assms]
  consider (early) "filter isRefMutation tr = []"
    | (reached) pre t commitSHA s1 r where "tr = pre @ t" "filter isRefMutation pre = []"
        "updateHeadRef unicodeLower githubClient (UpsertFileRequest.Repository req)
          (UpsertFileRequest.HeadBranch req) commitSHA s1 = (r, s', t)"
    by blast
  then have "length (filter isRefMutation tr) \<le> 3 \<and> length (filter isUpdateRef tr) \<le> 2 \<and>
      length (filter isCreateRef tr) \<le> 1"
  proof cases
    case early
    then show ?thesis by (simp add: no_mutation_no_update)
  next
    case reached
    from updateHeadRef_outcomes[OF reached(3)] reached(1) no_mutation_no_update[OF reached(2)]
      reached(2)
    show ?thesis
      by (elim disjE exE conjE) (auto simp: updateRefEvent_def createRefEvent_def)
  qed
  then show "length (filter isRefMutation tr) \<le> 3" "length (filter isUpdateRef tr) \<le> 2"
    "length (filter isCreateRef tr) \<le> 1"
    by blast+
qed

lemma logged_bound:
  assumes "logged m s = (r, s')"
      and "\<And>w r w' t. m w = (r, w', t) \<Longrightarrow> length (filter P t) \<le> k"
    shows "length (filter P (snd s')) \<le> length (filter P (snd s)) + k"
  using assms by (cases s; cases "m (fst s)") (fastforce simp: logged_def)

lemma unlogged_bound:
  assumes "unlogged f s = (r, s')"
  shows "length (filter P (snd s')) \<le> length (filter P (snd s))"
  using assms by (cases s; cases "f (fst s)") (auto simp: unlogged_def)

lemma newService_bound:
  assumes "Run (newService unicodeLower githubClient fetcher validator) req s = (res, s', tr)"
      and "\<And>e. P e \<Longrightarrow> isRefMutation e"
      and "\<And>rq w r w' t. Client_UpsertFileAndForceBranch unicodeLower githubClient rq w = (r, w', t)
              \<Longrightarrow> length (filter P t) \<le> k"
    shows "length (filter P (snd s')) \<le> length (filter P (snd s)) + k"
proof -
  have quiet: "length (filter P t) \<le> 0" if "filter isRefMutation t = []" for t
    using that assms(2) by (auto simp: filter_empty_conv)
  show ?thesis
  proof (rule Run_costs[where \<mu> = "\<lambda>s. length (filter P (snd s))", OF _ _ _ _ _ _ _ assms(1)])
    fix rq s r s'
    assume "FetchCPUProfile (profileFetcher (newService unicodeLower githubClient fetcher validator)) rq s = (r, s')"
    then show "length (filter P (snd s')) \<le> length (filter P (snd s))"
      by (simp add: newService_def unlogged_bound)
  next
    fix rq s r s'
    assume "ValidateCPUProfile (profileValidator (newService unicodeLower githubClient fetcher validator)) rq s = (r, s')"
    then show "length (filter P (snd s')) \<le> length (filter P (snd s))"
      by (simp add: newService_def unlogged_bound)
  next
    fix rq s r s'
    assume "DefaultBranch (branchWriter (newService unicodeLower githubClient fetcher validator)) rq s = (r, s')"
    then have "logged (Client_DefaultBranch githubClient rq) s = (r, s')"
      by (simp add: newService_def)
    from logged_bound[OF this, of P 0] quiet DefaultBranch_events
    show "length (filter P (snd s')) \<le> length (filter P (snd s))" by fastforce
  next
    fix rq s r s'
    assume "FindOpenByHead (pullRequests (newService unicodeLower githubClient fetcher validator)) rq s = (r, s')"
    then have "logged (Client_FindOpenByHead githubClient rq) s = (r, s')"
      by (simp add: newService_def)
    from logged_bound[OF this, of P 0] quiet FindOpenByHead_events
    show "length (filter P (snd s')) \<le> length (filter P (snd s))" by fastforce
  next
    fix rq s r s'
    assume "ReadFile (branchWriter (newService unicodeLower githubClient fetcher validator)) rq s = (r, s')"
    then have "logged (Client_ReadFile githubClient rq) s = (r, s')"
      by (simp add: newService_def)
    from logged_bound[OF this, of P 0] quiet ReadFile_events
    show "length (filter P (snd s')) \<le> length (filter P (snd s))" by fastforce
  next
    fix rq s r s'
    assume "UpsertFileAndForceBranch (branchWriter (newService unicodeLower githubClient fetcher validator)) rq s = (r, s')"
    then have "logged (Client_UpsertFileAndForceBranch unicodeLower githubClient rq) s = (r, s')"
      by (simp add: newService_def)
    from logged_bound[OF this, of P k] assms(3)
    show "length (filter P (snd s')) \<le> length (filter P (snd s)) + k" by blast
  next
    fix rq s r s'
    assume "Create (pullRequests (newService unicodeLower githubClient fetcher validator)) rq s = (r, s')"
    then have "logged (Client_Create githubClient rq) s = (r, s')"
      by (simp add: newService_def)
    from logged_bound[OF this, of P 0] quiet Create_events
    show "length (filter P (snd s')) \<le> length (filter P (snd s))" by fastforce
  qed
qed

section \<open>The fixtures, evaluated\<close>

lemma TrimSpace_Nil: "TrimSpace [] = []"
  by code_simp

lemma TrimSpace_fixtures:
  "TrimSpace ''acme'' = ''acme''" "TrimSpace ''payments'' = ''payments''"
  "TrimSpace ''default.pgo'' = ''default.pgo''"
  by code_simp+

lemma normalized_newRunRequest: "normalized newRunRequest = Inr normalizedRunRequest"
  by (simp add: normalized_def newRunRequest_def normalizedRunRequest_def TrimSpace_Nil TrimSpace_fixtures
      defaultProfileSeconds_def defaultHeadBranch_def defaultManagedByMarker_def defaultPRTitle_def
      defaultPRBody_def defaultCommitMessage_def)

lemmas comp_defs = call_def ret_def andThen_def mapErr_def

lemma not_contains_manual: "\<not> Contains ''manual pull request'' ''<!-- managed-by:cpgo -->''"
  by code_simp

lemma unmanaged_manual: "unmanaged normalizedRunRequest (Some manualPullRequest)"
  by (simp add: unmanaged_def normalizedRunRequest_def manualPullRequest_def not_contains_manual)

lemma contains_managed:
  "Contains (''Automated PGO profile refresh.'' @ [CHR 0x0A, CHR 0x0A] @ ''<!-- managed-by:cpgo -->'')
     ''<!-- managed-by:cpgo -->''"
  by code_simp

lemma managed_managed: "\<not> unmanaged normalizedRunRequest (Some managedPullRequest)"
  using contains_managed
  by (simp add: unmanaged_def normalizedRunRequest_def managedPullRequest_def)

lemma Number_managedPullRequest: "Number managedPullRequest = 99"
  by (simp add: managedPullRequest_def)

lemma managed_None: "\<not> unmanaged n None"
  by (simp add: unmanaged_def)

lemma base_blank:
  "TrimSpace (RepositorySettings.BaseBranch (RunRequest.Repository normalizedRunRequest)) = []"
  by (simp add: normalizedRunRequest_def TrimSpace_Nil)

lemma run_unmanaged:
  "Run unmanagedService newRunRequest () = (Inl ErrUnmanagedPullRequest, (), unmanagedEvents)"
  unfolding Run_def normalized_newRunRequest sum.case unmanagedEvents_def
  by (simp add: comp_defs resolveBaseBranch_def stubService_def unmanagedService_def unmanaged_manual base_blank)

lemma run_unmanaged_same:
  "Run unmanagedSameService newRunRequest () = (Inl ErrUnmanagedPullRequest, (), unmanagedEvents)"
  unfolding Run_def normalized_newRunRequest sum.case unmanagedEvents_def
  by (simp add: comp_defs resolveBaseBranch_def stubService_def unmanagedSameService_def unmanaged_manual base_blank)

lemma run_noop:
  "Run noopService newRunRequest () =
    (Inr (noopResult normalizedRunRequest ''main'' None), (), noopEvents)"
  unfolding Run_def normalized_newRunRequest sum.case noopEvents_def
  by (simp add: comp_defs resolveBaseBranch_def stubService_def noopService_def managed_None base_blank)

lemma run_create:
  "Run createService newRunRequest () =
    (Inr ((changedResult normalizedRunRequest ''main''
              \<lparr>UpsertFileResult.CommitSHA = ''abc123'', IsBranchCreated = False\<rparr>)
            \<lparr>PullRequestNumber := 22, IsPullRequestCreated := True\<rparr>), (), createEvents)"
  unfolding Run_def normalized_newRunRequest sum.case createEvents_def
  by (simp add: comp_defs resolveBaseBranch_def stubService_def createService_def managed_None base_blank
        createdPullRequest_def)

lemma run_managed:
  "Run managedService newRunRequest () =
    (Inr ((changedResult normalizedRunRequest ''main''
              \<lparr>UpsertFileResult.CommitSHA = ''def456'', IsBranchCreated = False\<rparr>)
            \<lparr>PullRequestNumber := 99\<rparr>), (), managedEvents)"
  unfolding Run_def normalized_newRunRequest sum.case managedEvents_def
  by (simp add: comp_defs resolveBaseBranch_def stubService_def managedService_def managed_managed base_blank
        Number_managedPullRequest)

lemma not_contains_manual_marker:
  "\<not> Contains (PullRequest.Body manualPullRequest)
        (ManagedByMarker (RunRequest.PullRequest normalizedRunRequest))"
  using unmanaged_manual by (simp add: unmanaged_def)

lemma contains_managed_marker:
  "Contains (PullRequest.Body managedPullRequest)
     (ManagedByMarker (RunRequest.PullRequest normalizedRunRequest))"
  using managed_managed by (simp add: unmanaged_def)

lemma unmanagedEvents_find:
  "FindOpenByHead_call (findPullRequestRequest normalizedRunRequest ''main'')
     (Inr (Some manualPullRequest)) \<in> set unmanagedEvents"
  by (simp add: unmanagedEvents_def)

lemma unmanagedEvents_fetch:
  "FetchCPUProfile_call (fetchProfileRequest normalizedRunRequest) (Inr ''cpu'') \<in> set unmanagedEvents"
  by (simp add: unmanagedEvents_def)

lemma noopEvents_fetch:
  "FetchCPUProfile_call (fetchProfileRequest normalizedRunRequest) (Inr ''same-profile'')
     \<in> set noopEvents"
  by (simp add: noopEvents_def)

lemma noopEvents_read:
  "ReadFile_call (readFileRequest normalizedRunRequest ''main'')
     (Inr \<lparr>ReadFileResult.Content = ''same-profile'', HasFile = True\<rparr>) \<in> set noopEvents"
  by (simp add: noopEvents_def)

lemma managedEvents_fetch:
  "FetchCPUProfile_call (fetchProfileRequest normalizedRunRequest) (Inr ''new-profile'')
     \<in> set managedEvents"
  by (simp add: managedEvents_def)

lemma managedEvents_find:
  "FindOpenByHead_call (findPullRequestRequest normalizedRunRequest ''main'')
     (Inr (Some managedPullRequest)) \<in> set managedEvents"
  by (simp add: managedEvents_def)

lemma managedEvents_read:
  "ReadFile_call (readFileRequest normalizedRunRequest ''main'')
     (Inr \<lparr>ReadFileResult.Content = ''old-profile'', HasFile = True\<rparr>) \<in> set managedEvents"
  by (simp add: managedEvents_def)

lemma normalized_noURLRequest:
  "normalized noURLRequest = Inl (Errorf ''profile url is required'' [])"
  by (rule normalized_no_url) (simp add: noURLRequest_def)

lemma default_body_facts:
  "\<not> Contains ''Automated PGO profile refresh.'' ''<!-- managed-by:cpgo -->''"
  "TrimSpace ''Automated PGO profile refresh.'' \<noteq> []"
  "TrimRight ''Automated PGO profile refresh.'' [CHR 0x0A] = ''Automated PGO profile refresh.''"
  "CHR 0x0A \<notin> set ''<!-- managed-by:cpgo -->''"
  by code_simp+

lemma created_body:
  "CreatePullRequestRequest.Body (createPullRequestRequest normalizedRunRequest ''main'') =
     appendMarker ''Automated PGO profile refresh.'' ''<!-- managed-by:cpgo -->''"
  by (simp add: createPullRequestRequest_def normalizedRunRequest_def)

lemma createEvents_create:
  "Create_call (createPullRequestRequest normalizedRunRequest ''main'') (Inr createdPullRequest)
     \<in> set createEvents"
  by (simp add: createEvents_def)

lemma HeadBranch_normalized:
  "RepositorySettings.HeadBranch (RunRequest.Repository normalizedRunRequest) = ''cpgo''"
  by (simp add: normalizedRunRequest_def)

lemma run_noop_none:
  "Run noopService newRunRequest () =
    (Inr \<lparr>RunResult.BaseBranch = ''main'', RunResult.HeadBranch = ''cpgo'',
          PullRequestNumber = 0, RunResult.CommitSHA = [], IsProfileChanged = False,
          IsPullRequestCreated = False, IsNoop = True\<rparr>, (), noopEvents)"
  by (simp add: run_noop noopResult_def prNumber_def HeadBranch_normalized)

lemma run_noop_managed:
  "Run noopManagedService newRunRequest () =
    (Inr \<lparr>RunResult.BaseBranch = ''main'', RunResult.HeadBranch = ''cpgo'',
          PullRequestNumber = 99, RunResult.CommitSHA = [], IsProfileChanged = False,
          IsPullRequestCreated = False, IsNoop = True\<rparr>, (), noopManagedEvents)"
  unfolding Run_def normalized_newRunRequest sum.case noopManagedEvents_def
  by (simp add: comp_defs resolveBaseBranch_def stubService_def noopManagedService_def
      managed_managed base_blank noopResult_def prNumber_def Number_managedPullRequest
      HeadBranch_normalized)

lemma noopManagedEvents_fetch:
  "FetchCPUProfile_call (fetchProfileRequest normalizedRunRequest) (Inr ''same-profile'')
     \<in> set noopManagedEvents"
  by (simp add: noopManagedEvents_def)

lemma noopManagedEvents_read:
  "ReadFile_call (readFileRequest normalizedRunRequest ''main'')
     (Inr \<lparr>ReadFileResult.Content = ''same-profile'', HasFile = True\<rparr>)
     \<in> set noopManagedEvents"
  by (simp add: noopManagedEvents_def)

lemma noopManagedEvents_find:
  "FindOpenByHead_call (findPullRequestRequest normalizedRunRequest ''main'')
     (Inr (Some managedPullRequest)) \<in> set noopManagedEvents"
  by (simp add: noopManagedEvents_def)

lemma noopEvents_find:
  "FindOpenByHead_call (findPullRequestRequest normalizedRunRequest ''main'') (Inr None)
     \<in> set noopEvents"
  by (simp add: noopEvents_def)

lemma same_profile_read:
  "HasFile \<lparr>ReadFileResult.Content = ''same-profile'', HasFile = True\<rparr>"
  "ReadFileResult.Content \<lparr>ReadFileResult.Content = ''same-profile'', HasFile = True\<rparr>
     = ''same-profile''"
  by simp_all

subsection \<open>The client on its fixtures\<close>

lemma TrimSpace_client_fixtures:
  "TrimSpace ''acme'' = ''acme''" "TrimSpace ''payments'' = ''payments''"
  "TrimSpace ''main'' = ''main''" "TrimSpace ''cpgo'' = ''cpgo''"
  "TrimSpace ''default.pgo'' = ''default.pgo''"
  "TrimSpace ''perf(pgo): refresh pgo profile'' = ''perf(pgo): refresh pgo profile''"
  "TrimSpace ''base-commit'' = ''base-commit''" "TrimSpace ''base-tree'' = ''base-tree''"
  "TrimSpace ''blob-sha'' = ''blob-sha''" "TrimSpace ''tree-sha'' = ''tree-sha''"
  "TrimSpace ''commit-sha'' = ''commit-sha''" "TrimSpace ''pgo-sha'' = ''pgo-sha''"
  by code_simp+

lemma EncodeToString_new_profile: "EncodeToString ''new-profile'' = ''bmV3LXByb2ZpbGU=''"
  by (simp add: sextet_def encodeStd_def Let_def)

lemma validate_acmePayments: "validateRepositoryRef acmePayments = Inr ()"
  by (simp add: validateRepositoryRef_def acmePayments_def TrimSpace_client_fixtures)

lemma missingRef_class:
  "isReferenceMissing id missingRef" "\<not> isNotFound missingRef"
  unfolding missingRef_def by code_simp+

lemma existingRef_class:
  "\<not> isReferenceMissing id existingRef" "\<not> isNotFound existingRef"
  unfolding existingRef_def by code_simp+

lemma notFound_class: "isNotFound notFound"
  unfolding notFound_def by code_simp

lemma acmePayments_fields:
  "RepositoryRef.Owner acmePayments = ''acme''" "RepositoryRef.Name acmePayments = ''payments''"
  by (simp_all add: acmePayments_def)

lemmas run_defs = andThen_def mapErr_def call_def ret_def bind_def

lemma baseCommitTree_fake:
  "baseCommitTree (fakeGitHub rival tree blob) acmePayments ''main'' w =
     (Inr (''base-commit'', ''base-tree''), w,
      [Git_GetRef_call ''acme'' ''payments'' ''heads/main'' (Inr ''base-commit''),
       Git_GetCommit_call ''acme'' ''payments'' ''base-commit'' (Inr ''base-tree'')])"
  by (simp add: baseCommitTree_def run_defs fakeGitHub_def acmePayments_fields
      TrimSpace_client_fixtures)

lemma createBlob_fake:
  "createBlob (fakeGitHub rival tree blob) acmePayments ''new-profile'' w =
     (Inr ''blob-sha'', w,
      [Git_CreateBlob_call ''acme'' ''payments''
         \<lparr>Blob.Content = ''bmV3LXByb2ZpbGU='', Encoding = ''base64''\<rparr> (Inr ''blob-sha'')])"
  unfolding createBlob_def EncodeToString_new_profile
  by (simp add: run_defs fakeGitHub_def acmePayments_fields TrimSpace_client_fixtures)

lemma upsertRequest_fields:
  "UpsertFileRequest.Repository upsertRequest = acmePayments"
  "UpsertFileRequest.BaseBranch upsertRequest = ''main''"
  "UpsertFileRequest.HeadBranch upsertRequest = ''cpgo''"
  "UpsertFileRequest.Path upsertRequest = ''default.pgo''"
  "UpsertFileRequest.Content upsertRequest = ''new-profile''"
  "CommitMessage upsertRequest = ''perf(pgo): refresh pgo profile''"
  by (simp_all add: upsertRequest_def)

lemma createTree_fake:
  "createTree (fakeGitHub rival tree blob) upsertRequest ''base-tree'' ''blob-sha'' w =
     (Inr ''tree-sha'', w,
      [Git_CreateTree_call ''acme'' ''payments'' ''base-tree''
         [\<lparr>TreeEntry.Path = ''default.pgo'', Mode = ''100644'', Type = ''blob'',
           TreeEntry.SHA = ''blob-sha''\<rparr>] (Inr ''tree-sha'')])"
  by (simp add: createTree_def run_defs fakeGitHub_def acmePayments_fields upsertRequest_fields
      TrimSpace_client_fixtures fileModeRegular_def treeEntryBlob_def)

lemma createCommit_fake:
  "createCommit (fakeGitHub rival tree blob) upsertRequest ''tree-sha'' ''base-commit'' w =
     (Inr ''commit-sha'', w,
      [Git_CreateCommit_call ''acme'' ''payments''
         \<lparr>Commit.Message = ''perf(pgo): refresh pgo profile'', Tree = ''tree-sha'',
          Parents = [''base-commit'']\<rparr> (Inr ''commit-sha'')])"
  by (simp add: createCommit_def run_defs fakeGitHub_def acmePayments_fields upsertRequest_fields
      TrimSpace_client_fixtures)

lemma updateHeadRef_fake_created:
  "updateHeadRef id (fakeGitHub Quiet tree blob) acmePayments ''cpgo'' ''commit-sha'' False =
     (Inr True, True,
      [Git_UpdateRef_call ''acme'' ''payments'' ''heads/cpgo''
         \<lparr>UpdateRef.SHA = ''commit-sha'', Force = True\<rparr> (Inl missingRef),
       Git_CreateRef_call ''acme'' ''payments''
         \<lparr>Ref = ''refs/heads/cpgo'', CreateRef.SHA = ''commit-sha''\<rparr> (Inr ())])"
  by (simp add: updateHeadRef_def run_defs fakeGitHub_def acmePayments_fields missingRef_class)

lemma updateHeadRef_fake_raced:
  "updateHeadRef id (fakeGitHub Raced tree blob) acmePayments ''cpgo'' ''commit-sha'' False =
     (Inr False, True,
      [Git_UpdateRef_call ''acme'' ''payments'' ''heads/cpgo''
         \<lparr>UpdateRef.SHA = ''commit-sha'', Force = True\<rparr> (Inl missingRef),
       Git_CreateRef_call ''acme'' ''payments''
         \<lparr>Ref = ''refs/heads/cpgo'', CreateRef.SHA = ''commit-sha''\<rparr> (Inl existingRef),
       Git_UpdateRef_call ''acme'' ''payments'' ''heads/cpgo''
         \<lparr>UpdateRef.SHA = ''commit-sha'', Force = True\<rparr> (Inr ())])"
  by (simp add: updateHeadRef_def run_defs fakeGitHub_def acmePayments_fields missingRef_class)

lemma updateHeadRef_fake_locked:
  "updateHeadRef id (fakeGitHub Locked tree blob) acmePayments ''cpgo'' ''commit-sha'' False =
     (Inl (Wrapf2 ''create branch ref: %w (retry update failed: %v)'' existingRef missingRef),
      False,
      [Git_UpdateRef_call ''acme'' ''payments'' ''heads/cpgo''
         \<lparr>UpdateRef.SHA = ''commit-sha'', Force = True\<rparr> (Inl missingRef),
       Git_CreateRef_call ''acme'' ''payments''
         \<lparr>Ref = ''refs/heads/cpgo'', CreateRef.SHA = ''commit-sha''\<rparr> (Inl existingRef),
       Git_UpdateRef_call ''acme'' ''payments'' ''heads/cpgo''
         \<lparr>UpdateRef.SHA = ''commit-sha'', Force = True\<rparr> (Inl missingRef)])"
  by (simp add: updateHeadRef_def run_defs fakeGitHub_def acmePayments_fields missingRef_class)

lemma updateHeadRef_fake_updated:
  "updateHeadRef id (fakeGitHub rival tree blob) acmePayments ''cpgo'' ''commit-sha'' True =
     (Inr False, True,
      [Git_UpdateRef_call ''acme'' ''payments'' ''heads/cpgo''
         \<lparr>UpdateRef.SHA = ''commit-sha'', Force = True\<rparr> (Inr ())])"
  by (simp add: updateHeadRef_def run_defs fakeGitHub_def acmePayments_fields)

lemma upsert_fake:
  assumes "updateHeadRef id (fakeGitHub rival tree blob) acmePayments ''cpgo'' ''commit-sha'' w
             = (Inr created, w', t)"
  shows "Client_UpsertFileAndForceBranch id (fakeGitHub rival tree blob) upsertRequest w =
     (Inr \<lparr>UpsertFileResult.CommitSHA = ''commit-sha'', IsBranchCreated = created\<rparr>, w',
      commitEvents @ t)"
  unfolding Client_UpsertFileAndForceBranch_def upsertRequest_fields validate_acmePayments
  by (simp add: TrimSpace_client_fixtures andThen_def ret_def baseCommitTree_fake createBlob_fake
      createTree_fake createCommit_fake assms commitEvents_def)

lemma upsert_fake_failed:
  assumes "updateHeadRef id (fakeGitHub rival tree blob) acmePayments ''cpgo'' ''commit-sha'' w
             = (Inl err, w', t)"
  shows "Client_UpsertFileAndForceBranch id (fakeGitHub rival tree blob) upsertRequest w =
     (Inl err, w', commitEvents @ t)"
  unfolding Client_UpsertFileAndForceBranch_def upsertRequest_fields validate_acmePayments
  by (simp add: TrimSpace_client_fixtures andThen_def ret_def baseCommitTree_fake createBlob_fake
      createTree_fake createCommit_fake assms commitEvents_def)

lemmas upsert_locked =
  upsert_fake_failed[OF updateHeadRef_fake_locked, folded headUpdate_def headCreate_def]

lemmas upsert_created =
  upsert_fake[OF updateHeadRef_fake_created, folded headUpdate_def headCreate_def]

lemmas upsert_raced =
  upsert_fake[OF updateHeadRef_fake_raced, folded headUpdate_def headCreate_def]

lemmas upsert_updated =
  upsert_fake[OF updateHeadRef_fake_updated, folded headUpdate_def headCreate_def]

lemma commitEvents_quiet: "filter isRefMutation commitEvents = []"
  by (simp add: commitEvents_def)

lemma created_mutations:
  "filter isRefMutation (commitEvents @ [headUpdate (Inl missingRef), headCreate (Inr ())]) =
     Git_UpdateRef_call ''acme'' ''payments'' ''heads/cpgo''
       \<lparr>UpdateRef.SHA = ''commit-sha'', Force = True\<rparr> (Inl missingRef) #
     [headCreate (Inr ())]"
  by (simp add: commitEvents_quiet headUpdate_def headCreate_def)

lemma locked_mutations:
  "filter isRefMutation
     (commitEvents @
      [headUpdate (Inl missingRef), headCreate (Inl existingRef), headUpdate (Inl missingRef)]) =
     [Git_UpdateRef_call ''acme'' ''payments'' ''heads/cpgo''
        \<lparr>UpdateRef.SHA = ''commit-sha'', Force = True\<rparr> (Inl missingRef),
      Git_CreateRef_call ''acme'' ''payments''
        \<lparr>Ref = ''refs/heads/cpgo'', CreateRef.SHA = ''commit-sha''\<rparr> (Inl existingRef),
      Git_UpdateRef_call ''acme'' ''payments'' ''heads/cpgo''
        \<lparr>UpdateRef.SHA = ''commit-sha'', Force = True\<rparr> (Inl missingRef)]"
  by (simp add: commitEvents_quiet headUpdate_def headCreate_def)

lemma updated_mutations:
  "filter isRefMutation (commitEvents @ [headUpdate (Inr ())]) =
     Git_UpdateRef_call ''acme'' ''payments'' ''heads/cpgo''
       \<lparr>UpdateRef.SHA = ''commit-sha'', Force = True\<rparr> (Inr ()) # []"
  by (simp add: commitEvents_quiet headUpdate_def)

lemma readRequest_fields:
  "ReadFileRequest.Repository readRequest = acmePayments"
  "Branch readRequest = ''main''"
  "ReadFileRequest.Path readRequest = ''default.pgo''"
  by (simp_all add: readRequest_def)

lemma blobSHAOf_readme: "blobSHAOf (Entries (readmeTree truncated)) ''default.pgo'' = Inr []"
  by (simp add: readmeTree_def)

lemma blobSHAOf_pgo:
  "blobSHAOf (Entries (pgoTree ''tree'')) ''default.pgo'' =
     Inl (Errorf ''path %q is not a blob entry'' [''default.pgo''])"
  "blobSHAOf (Entries (pgoTree ''blob'')) ''default.pgo'' = Inr ''pgo-sha''"
  by (simp_all add: pgoTree_def treeEntryBlob_def TrimSpace_client_fixtures)

lemma find_readme:
  "find (\<lambda>entry. TreeEntry.Path entry = ReadFileRequest.Path readRequest)
     (Entries (readmeTree truncated)) = None"
  by (simp add: readmeTree_def readRequest_def)

lemma find_pgo:
  "find (\<lambda>entry. TreeEntry.Path entry = ReadFileRequest.Path readRequest)
     (Entries (pgoTree type)) =
   Some \<lparr>TreeEntry.Path = ''default.pgo'', Mode = ''100644'', Type = type,
         TreeEntry.SHA = ''pgo-sha''\<rparr>"
  by (simp add: pgoTree_def readRequest_def)

lemma fakeGitHub_fields:
  "Git_GetTree (fakeGitHub rival tree blob) = (\<lambda>owner name sha recursive. Pair (Inr tree))"
  "Git_GetBlobRaw (fakeGitHub rival tree blob) = (\<lambda>owner name sha. Pair blob)"
  "Repositories_Get (fakeGitHub rival tree blob) = (\<lambda>owner name. Pair (Inr ''main''))"
  "PullRequests_List (fakeGitHub rival tree blob) = (\<lambda>owner name opts. Pair (Inr []))"
  "PullRequests_Create (fakeGitHub rival tree blob) =
     (\<lambda>owner name new. Pair (Inr createdPullRequest))"
  by (simp_all add: fakeGitHub_def)

lemma readFile_fake:
  "Client_ReadFile (fakeGitHub rival tree blob) readRequest w =
    (case blobSHAOf (Entries tree) ''default.pgo'' of
       Inl err \<Rightarrow> (Inl err, w, treeEvents tree)
     | Inr blobSHA \<Rightarrow>
         if blobSHA = [] then
           (if Truncated tree then
              Inl (Errorf ''tree response was truncated while resolving path %q'' [''default.pgo''])
            else Inr \<lparr>ReadFileResult.Content = [], HasFile = False\<rparr>, w, treeEvents tree)
         else
           (case blob of
              Inl err \<Rightarrow>
                if isNotFound err then Inr \<lparr>ReadFileResult.Content = [], HasFile = False\<rparr>
                else Inl (Wrapf ''get blob %s: %w'' [blobSHA] err)
            | Inr content \<Rightarrow> Inr \<lparr>ReadFileResult.Content = content, HasFile = True\<rparr>,
            w, treeEvents tree @ [Git_GetBlobRaw_call ''acme'' ''payments'' blobSHA blob]))"
  unfolding Client_ReadFile_def readRequest_fields validate_acmePayments
  by (cases "blobSHAOf (Entries tree) ''default.pgo''"; cases blob)
     (simp_all add: TrimSpace_client_fixtures andThen_def mapErr_def call_def ret_def bind_def
        baseCommitTree_fake acmePayments_fields fakeGitHub_fields treeEvents_def)

lemma readFile_missing:
  "Client_ReadFile (fakeGitHub rival (readmeTree False) blob) readRequest w =
     (Inr \<lparr>ReadFileResult.Content = [], HasFile = False\<rparr>, w, treeEvents (readmeTree False))"
  by (simp add: readFile_fake blobSHAOf_readme) (simp add: readmeTree_def)

lemma readFile_truncated:
  "Client_ReadFile (fakeGitHub rival (readmeTree True) blob) readRequest w =
     (Inl (Errorf ''tree response was truncated while resolving path %q'' [''default.pgo'']), w,
      treeEvents (readmeTree True))"
  by (simp add: readFile_fake blobSHAOf_readme) (simp add: readmeTree_def)

lemma readFile_not_blob:
  "Client_ReadFile (fakeGitHub rival (pgoTree ''tree'') blob) readRequest w =
     (Inl (Errorf ''path %q is not a blob entry'' [''default.pgo'']), w,
      treeEvents (pgoTree ''tree''))"
  by (simp add: readFile_fake blobSHAOf_pgo)

lemma readFile_blob_gone:
  "Client_ReadFile (fakeGitHub rival (pgoTree ''blob'') (Inl notFound)) readRequest w =
     (Inr \<lparr>ReadFileResult.Content = [], HasFile = False\<rparr>, w,
      treeEvents (pgoTree ''blob'') @
        [Git_GetBlobRaw_call ''acme'' ''payments'' ''pgo-sha'' (Inl notFound)])"
  by (simp add: readFile_fake blobSHAOf_pgo notFound_class)

lemma treeEvents_tree:
  "Git_GetTree_call ''acme'' ''payments'' ''base-tree'' True (Inr tree) \<in> set (treeEvents tree)"
  by (simp add: treeEvents_def)

lemma commitEvents_commit:
  "Git_CreateCommit_call ''acme'' ''payments''
       \<lparr>Commit.Message = ''perf(pgo): refresh pgo profile'', Tree = ''tree-sha'',
        Parents = [''base-commit'']\<rparr> (Inr ''commit-sha'') \<in> set (commitEvents @ t)"
  by (simp add: commitEvents_def)

lemma requests_normalized:
  "repositoryRef normalizedRunRequest = acmePayments"
  "readFileRequest normalizedRunRequest ''main'' = readRequest"
  "upsertFileRequest normalizedRunRequest ''main'' ''new-profile'' = upsertRequest"
  by (simp_all add: repositoryRef_def readFileRequest_def upsertFileRequest_def
      normalizedRunRequest_def acmePayments_def readRequest_def upsertRequest_def)

lemma appendMarker_default:
  "appendMarker ''Automated PGO profile refresh.'' ''<!-- managed-by:cpgo -->'' = defaultBody"
  by (simp add: appendMarker_def default_body_facts defaultBody_def)

lemma TrimSpace_defaultBody: "TrimSpace defaultBody \<noteq> []"
  unfolding defaultBody_def by code_simp

lemma defaultBranch_fake:
  "Client_DefaultBranch (fakeGitHub rival tree blob) acmePayments w =
     (Inr ''main'', w, [Repositories_Get_call ''acme'' ''payments'' (Inr ''main'')])"
  unfolding Client_DefaultBranch_def validate_acmePayments
  by (simp add: run_defs fakeGitHub_fields acmePayments_fields TrimSpace_client_fixtures)

lemma findRequest_fields:
  "FindPullRequestRequest.Repository (findPullRequestRequest normalizedRunRequest ''main'') =
     acmePayments"
  "FindPullRequestRequest.BaseBranch (findPullRequestRequest normalizedRunRequest ''main'') =
     ''main''"
  "FindPullRequestRequest.HeadBranch (findPullRequestRequest normalizedRunRequest ''main'') =
     ''cpgo''"
  by (simp_all add: findPullRequestRequest_def requests_normalized)
     (simp add: normalizedRunRequest_def)

lemma findOpenByHead_fake:
  "Client_FindOpenByHead (fakeGitHub rival tree blob)
     (findPullRequestRequest normalizedRunRequest ''main'') w =
     (Inr None, w,
      [PullRequests_List_call ''acme'' ''payments''
         \<lparr>State = ''open'', Base = ''main'', Head = ''acme:cpgo'', PerPage = 1\<rparr> (Inr [])])"
  unfolding Client_FindOpenByHead_def findRequest_fields validate_acmePayments
  by (simp add: run_defs fakeGitHub_fields acmePayments_fields TrimSpace_client_fixtures)

lemma createRequest_fields:
  "CreatePullRequestRequest.Repository (createPullRequestRequest normalizedRunRequest ''main'') =
     acmePayments"
  "CreatePullRequestRequest.BaseBranch (createPullRequestRequest normalizedRunRequest ''main'') =
     ''main''"
  "CreatePullRequestRequest.HeadBranch (createPullRequestRequest normalizedRunRequest ''main'') =
     ''cpgo''"
  "CreatePullRequestRequest.Title (createPullRequestRequest normalizedRunRequest ''main'') =
     ''perf(pgo): refresh pgo profile''"
  "CreatePullRequestRequest.Body (createPullRequestRequest normalizedRunRequest ''main'') =
     defaultBody"
      apply (simp add: createPullRequestRequest_def requests_normalized)
     apply (simp add: createPullRequestRequest_def)
    apply (simp add: createPullRequestRequest_def normalizedRunRequest_def)
   apply (simp add: createPullRequestRequest_def normalizedRunRequest_def)
  apply (simp add: created_body appendMarker_default)
  done

lemma create_fake:
  "Client_Create (fakeGitHub rival tree blob)
     (createPullRequestRequest normalizedRunRequest ''main'') w =
     (Inr createdPullRequest, w,
      [PullRequests_Create_call ''acme'' ''payments''
         \<lparr>NewPullRequest.Title = ''perf(pgo): refresh pgo profile'', NewPullRequest.Head = ''cpgo'',
          NewPullRequest.Base = ''main'', NewPullRequest.Body = defaultBody\<rparr>
         (Inr createdPullRequest)])"
  unfolding Client_Create_def createRequest_fields validate_acmePayments
  by (simp add: run_defs fakeGitHub_fields acmePayments_fields TrimSpace_client_fixtures
      TrimSpace_defaultBody createdPullRequest_def)

lemma not_same_profile:
  "\<not> (HasFile \<lparr>ReadFileResult.Content = [], HasFile = False\<rparr> \<and>
      ReadFileResult.Content \<lparr>ReadFileResult.Content = [], HasFile = False\<rparr> = ''new-profile'')"
  by simp

lemma run_raced:
  "Run racedService newRunRequest (False, []) =
     (Inr ((changedResult normalizedRunRequest ''main''
              \<lparr>UpsertFileResult.CommitSHA = ''commit-sha'', IsBranchCreated = False\<rparr>)
            \<lparr>PullRequestNumber := 22, IsPullRequestCreated := True\<rparr>),
      (True, racedLog),
      [FetchCPUProfile_call (fetchProfileRequest normalizedRunRequest) (Inr ''new-profile''),
       ValidateCPUProfile_call ''new-profile'' (Inr ()),
       DefaultBranch_call acmePayments (Inr ''main''),
       FindOpenByHead_call (findPullRequestRequest normalizedRunRequest ''main'') (Inr None),
       ReadFile_call readRequest (Inr \<lparr>ReadFileResult.Content = [], HasFile = False\<rparr>),
       UpsertFileAndForceBranch_call upsertRequest
         (Inr \<lparr>UpsertFileResult.CommitSHA = ''commit-sha'', IsBranchCreated = False\<rparr>),
       Create_call (createPullRequestRequest normalizedRunRequest ''main'')
         (Inr createdPullRequest)])"
  unfolding Run_def normalized_newRunRequest sum.case racedLog_def
  by (simp add: comp_defs resolveBaseBranch_def racedService_def newService_def logged_def
      unlogged_def profileFetcherStub_def profileValidatorStub_def managed_None base_blank
      requests_normalized defaultBranch_fake findOpenByHead_fake readFile_missing upsert_raced
      create_fake createdPullRequest_def)

lemmas run_raced' = run_raced[folded racedResult_def racedEvents_def]

lemma racedLog_mutations:
  "filter isRefMutation racedLog =
     [headUpdate (Inl missingRef), headCreate (Inl existingRef), headUpdate (Inr ())]"
  by (simp add: racedLog_def treeEvents_def commitEvents_quiet)
     (simp add: headUpdate_def headCreate_def)

lemma racedLog_updates:
  "filter isUpdateRef racedLog = [headUpdate (Inl missingRef), headUpdate (Inr ())]"
  by (simp add: racedLog_def treeEvents_def commitEvents_def)
     (simp add: headUpdate_def headCreate_def)

lemma racedLog_creates: "filter isCreateRef racedLog = [headCreate (Inl existingRef)]"
  by (simp add: racedLog_def treeEvents_def commitEvents_def)
     (simp add: headUpdate_def headCreate_def)


section \<open>Properties of the orchestrator\<close>

text \<open>
  Claim C1. When the pull-request lookup of a run returned an open pull request whose body
  does not contain the managed-by marker of the normalized request, the run returns
  \<open>ErrUnmanagedPullRequest\<close>, and it invoked neither \<^verbatim>\<open>UpsertFileAndForceBranch\<close> nor
  \<^verbatim>\<open>Create\<close>.
\<close>

theorem Run_unmanaged_pull_request:
  assumes "Run svc req s = (res, s', tr)"
      and "normalized req = Inr n"
      and "FindOpenByHead_call q (Inr (Some pr)) \<in> set tr"
      and "\<not> Contains (PullRequest.Body pr) (ManagedByMarker (RunRequest.PullRequest n))"
    shows "res = Inl ErrUnmanagedPullRequest \<and> filter isUpsert tr = [] \<and> filter isCreate tr = []"
  using assms(1)
proof (cases rule: Run_cases)
  case (unmanaged_pr n' profile db base openPR)
  then show ?thesis using resolvedD[OF unmanaged_pr(2)] by auto
qed (use assms(2-4) in \<open>auto simp: unmanaged_def dest!: resolvedD\<close>)

theorem Run_unmanaged_pull_request_witness:
  "Run unmanagedService newRunRequest () = (Inl ErrUnmanagedPullRequest, (), unmanagedEvents) \<and>
   normalized newRunRequest = Inr normalizedRunRequest \<and>
   FindOpenByHead_call (findPullRequestRequest normalizedRunRequest ''main'')
     (Inr (Some manualPullRequest)) \<in> set unmanagedEvents \<and>
   \<not> Contains (PullRequest.Body manualPullRequest)
        (ManagedByMarker (RunRequest.PullRequest normalizedRunRequest)) \<and>
   filter isUpsert unmanagedEvents = [] \<and> filter isCreate unmanagedEvents = []"
  using run_unmanaged normalized_newRunRequest unmanagedEvents_find not_contains_manual_marker
    Run_unmanaged_pull_request[OF run_unmanaged normalized_newRunRequest unmanagedEvents_find
      not_contains_manual_marker]
  by blast

text \<open>
  Claim C2. A run either invokes neither \<^verbatim>\<open>UpsertFileAndForceBranch\<close> nor \<^verbatim>\<open>Create\<close>,
  or it invokes \<^verbatim>\<open>UpsertFileAndForceBranch\<close> exactly once and \<^verbatim>\<open>Create\<close> at most once.
  The two cases of no mutation the claim names are the noop result and every failure
  that is not a failure of the write or of the creation of the pull request.
\<close>

theorem Run_single_write:
  assumes "Run svc req s = (res, s', tr)"
  shows "(filter isUpsert tr = [] \<and> filter isCreate tr = []) \<or>
         (length (filter isUpsert tr) = 1 \<and> length (filter isCreate tr) \<le> 1)"
  using assms
  by (cases rule: Run_cases) (auto dest!: resolvedD)

theorem Run_single_write_witness:
  "Run createService newRunRequest () =
    (Inr ((changedResult normalizedRunRequest ''main''
              \<lparr>UpsertFileResult.CommitSHA = ''abc123'', IsBranchCreated = False\<rparr>)
            \<lparr>PullRequestNumber := 22, IsPullRequestCreated := True\<rparr>), (), createEvents) \<and>
   length (filter isUpsert createEvents) = 1 \<and> length (filter isCreate createEvents) \<le> 1"
  using run_create Run_single_write[OF run_create] by (simp add: createEvents_def)

text \<open>
  Claim C3. When the run read the artifact on the resolved base branch, the file exists
  and its bytes equal the fetched profile, the run returns the noop result: the flag
  \<open>IsNoop\<close> is set, the commit is empty, and the pull-request number is the number of
  the open pull request that the one lookup of the run returned, and 0 when the lookup
  returned none. The run made exactly that lookup, for the head branch of the normalized
  request against the base branch that was read, and neither
  \<^verbatim>\<open>UpsertFileAndForceBranch\<close> nor \<^verbatim>\<open>Create\<close> was invoked.
\<close>

theorem Run_noop:
  assumes "Run svc req s = (res, s', tr)"
      and "FetchCPUProfile_call fq (Inr profile) \<in> set tr"
      and "ReadFile_call rq (Inr readResult) \<in> set tr"
      and "HasFile readResult"
      and "ReadFileResult.Content readResult = profile"
    shows "\<exists>n openPR. normalized req = Inr n \<and>
             FindOpenByHead_call (findPullRequestRequest n (Branch rq)) (Inr openPR) \<in> set tr \<and>
             (\<forall>fr found. FindOpenByHead_call fr found \<in> set tr \<longrightarrow>
                fr = findPullRequestRequest n (Branch rq) \<and> found = Inr openPR) \<and>
             res = Inr \<lparr>RunResult.BaseBranch = Branch rq,
                        RunResult.HeadBranch = RepositorySettings.HeadBranch (RunRequest.Repository n),
                        PullRequestNumber = (case openPR of None \<Rightarrow> 0 | Some pr \<Rightarrow> Number pr),
                        RunResult.CommitSHA = [],
                        IsProfileChanged = False,
                        IsPullRequestCreated = False,
                        IsNoop = True\<rparr> \<and>
             filter isUpsert tr = [] \<and> filter isCreate tr = []"
  using assms(1)
  by (cases rule: Run_cases)
     (use assms(2-5) in \<open>auto simp: noopResult_def prNumber_def readFileRequest_def
        dest!: resolvedD split: if_splits\<close>)

theorem Run_noop_witness:
  "Run noopManagedService newRunRequest () =
    (Inr \<lparr>RunResult.BaseBranch = ''main'', RunResult.HeadBranch = ''cpgo'',
          PullRequestNumber = 99, RunResult.CommitSHA = [], IsProfileChanged = False,
          IsPullRequestCreated = False, IsNoop = True\<rparr>, (), noopManagedEvents) \<and>
   FetchCPUProfile_call (fetchProfileRequest normalizedRunRequest) (Inr ''same-profile'')
     \<in> set noopManagedEvents \<and>
   ReadFile_call (readFileRequest normalizedRunRequest ''main'')
     (Inr \<lparr>ReadFileResult.Content = ''same-profile'', HasFile = True\<rparr>)
     \<in> set noopManagedEvents \<and>
   FindOpenByHead_call (findPullRequestRequest normalizedRunRequest ''main'')
     (Inr (Some managedPullRequest)) \<in> set noopManagedEvents \<and>
   Number managedPullRequest = 99 \<and>
   filter isUpsert noopManagedEvents = [] \<and> filter isCreate noopManagedEvents = [] \<and>
   Run noopService newRunRequest () =
    (Inr \<lparr>RunResult.BaseBranch = ''main'', RunResult.HeadBranch = ''cpgo'',
          PullRequestNumber = 0, RunResult.CommitSHA = [], IsProfileChanged = False,
          IsPullRequestCreated = False, IsNoop = True\<rparr>, (), noopEvents) \<and>
   FindOpenByHead_call (findPullRequestRequest normalizedRunRequest ''main'') (Inr None)
     \<in> set noopEvents \<and>
   filter isUpsert noopEvents = [] \<and> filter isCreate noopEvents = []"
proof -
  from Run_noop[OF run_noop_managed noopManagedEvents_fetch noopManagedEvents_read
      same_profile_read]
  obtain n openPR where
    found: "\<forall>fr found. FindOpenByHead_call fr found \<in> set noopManagedEvents \<longrightarrow>
        fr = findPullRequestRequest n
               (Branch (readFileRequest normalizedRunRequest ''main'')) \<and> found = Inr openPR"
    and number: "99 = (case openPR of None \<Rightarrow> 0 | Some pr \<Rightarrow> Number pr)"
    and quiet: "filter isUpsert noopManagedEvents = []" "filter isCreate noopManagedEvents = []"
    by auto
  from found noopManagedEvents_find have "openPR = Some managedPullRequest" by blast
  with number have "Number managedPullRequest = 99" by simp
  moreover have "filter isUpsert noopEvents = [] \<and> filter isCreate noopEvents = []"
    using Run_noop[OF run_noop_none noopEvents_fetch noopEvents_read same_profile_read]
    by blast
  ultimately show ?thesis
    using quiet run_noop_managed run_noop_none noopManagedEvents_fetch noopManagedEvents_read
      noopManagedEvents_find noopEvents_find
    by blast
qed

text \<open>
  Claim C4. When the lookup found an open pull request whose body contains the marker and
  the artifact read from the base branch is absent or differs from the fetched profile,
  the run invokes \<^verbatim>\<open>UpsertFileAndForceBranch\<close> exactly once, with the profile as content,
  and never \<^verbatim>\<open>Create\<close>. When the write succeeds the result carries the number of the
  existing pull request, the new commit and \<open>IsPullRequestCreated = False\<close>; when the
  write fails the run returns its error, wrapped.
\<close>

theorem Run_reuses_managed_pull_request:
  assumes "Run svc req s = (res, s', tr)"
      and "normalized req = Inr n"
      and "FetchCPUProfile_call fq (Inr profile) \<in> set tr"
      and "FindOpenByHead_call q (Inr (Some pr)) \<in> set tr"
      and "Contains (PullRequest.Body pr) (ManagedByMarker (RunRequest.PullRequest n))"
      and "ReadFile_call rq (Inr readResult) \<in> set tr"
      and "\<not> (HasFile readResult \<and> ReadFileResult.Content readResult = profile)"
    shows "\<exists>ur. filter isUpsert tr =
                  [UpsertFileAndForceBranch_call (upsertFileRequest n (Branch rq) profile) ur] \<and>
             filter isCreate tr = [] \<and>
             res = (case ur of
                      Inl e \<Rightarrow> Inl (Wrapf ''update pgo branch: %w'' [] e)
                    | Inr w \<Rightarrow>
                        Inr \<lparr>RunResult.BaseBranch = Branch rq,
                             RunResult.HeadBranch =
                               RepositorySettings.HeadBranch (RunRequest.Repository n),
                             PullRequestNumber = Number pr,
                             RunResult.CommitSHA = UpsertFileResult.CommitSHA w,
                             IsProfileChanged = True,
                             IsPullRequestCreated = False,
                             IsNoop = False\<rparr>)"
  using assms(1)
  by (cases rule: Run_cases)
     (use assms(2-7) in \<open>auto simp: changedResult_def readFileRequest_def dest!: resolvedD\<close>)

theorem Run_reuses_managed_pull_request_witness:
  "Run managedService newRunRequest () =
    (Inr ((changedResult normalizedRunRequest ''main''
              \<lparr>UpsertFileResult.CommitSHA = ''def456'', IsBranchCreated = False\<rparr>)
            \<lparr>PullRequestNumber := 99\<rparr>), (), managedEvents) \<and>
   normalized newRunRequest = Inr normalizedRunRequest \<and>
   FetchCPUProfile_call (fetchProfileRequest normalizedRunRequest) (Inr ''new-profile'')
     \<in> set managedEvents \<and>
   FindOpenByHead_call (findPullRequestRequest normalizedRunRequest ''main'')
     (Inr (Some managedPullRequest)) \<in> set managedEvents \<and>
   Contains (PullRequest.Body managedPullRequest)
     (ManagedByMarker (RunRequest.PullRequest normalizedRunRequest)) \<and>
   ReadFile_call (readFileRequest normalizedRunRequest ''main'')
     (Inr \<lparr>ReadFileResult.Content = ''old-profile'', HasFile = True\<rparr>) \<in> set managedEvents \<and>
   length (filter isUpsert managedEvents) = 1 \<and>
   filter isCreate managedEvents = [] \<and>
   Number managedPullRequest = 99"
proof -
  have d: "\<not> (HasFile \<lparr>ReadFileResult.Content = ''old-profile'', HasFile = True\<rparr> \<and>
    ReadFileResult.Content \<lparr>ReadFileResult.Content = ''old-profile'', HasFile = True\<rparr> = ''new-profile'')"
    by simp
  have "\<exists>ur. filter isUpsert managedEvents =
      [UpsertFileAndForceBranch_call (upsertFileRequest normalizedRunRequest
         (Branch (readFileRequest normalizedRunRequest ''main'')) ''new-profile'') ur] \<and>
      filter isCreate managedEvents = []"
    using Run_reuses_managed_pull_request[OF run_managed normalized_newRunRequest
      managedEvents_fetch managedEvents_find contains_managed_marker managedEvents_read d]
    by blast
  then have "length (filter isUpsert managedEvents) = 1 \<and> filter isCreate managedEvents = []"
    by auto
  then show ?thesis
    using run_managed normalized_newRunRequest managedEvents_fetch managedEvents_find
      contains_managed_marker managedEvents_read Number_managedPullRequest
    by blast
qed

text \<open>
  Claim C10. The guard comes before the comparison: when the lookup returned an open pull
  request without the marker, the run returns \<open>ErrUnmanagedPullRequest\<close> and never reads
  the artifact, also when every read of the branch writer would return a file whose bytes
  equal the fetched profile. The result is never a noop.
\<close>

theorem Run_unmanaged_before_noop:
  assumes "Run svc req s = (res, s', tr)"
      and "normalized req = Inr n"
      and "FetchCPUProfile_call fq (Inr profile) \<in> set tr"
      and "FindOpenByHead_call q (Inr (Some pr)) \<in> set tr"
      and "\<not> Contains (PullRequest.Body pr) (ManagedByMarker (RunRequest.PullRequest n))"
      and "\<forall>rq st. fst (ReadFile (branchWriter svc) rq st) =
              Inr \<lparr>ReadFileResult.Content = profile, HasFile = True\<rparr>"
    shows "res = Inl ErrUnmanagedPullRequest \<and> filter isReadFile tr = [] \<and>
           \<not> (\<exists>r. res = Inr r \<and> IsNoop r)"
  using assms(1)
  by (cases rule: Run_cases)
     (use assms(2-5) in \<open>auto simp: unmanaged_def dest!: resolvedD\<close>)

theorem Run_unmanaged_before_noop_witness:
  "Run unmanagedSameService newRunRequest () = (Inl ErrUnmanagedPullRequest, (), unmanagedEvents) \<and>
   normalized newRunRequest = Inr normalizedRunRequest \<and>
   FetchCPUProfile_call (fetchProfileRequest normalizedRunRequest) (Inr ''cpu'')
     \<in> set unmanagedEvents \<and>
   FindOpenByHead_call (findPullRequestRequest normalizedRunRequest ''main'')
     (Inr (Some manualPullRequest)) \<in> set unmanagedEvents \<and>
   \<not> Contains (PullRequest.Body manualPullRequest)
        (ManagedByMarker (RunRequest.PullRequest normalizedRunRequest)) \<and>
   (\<forall>rq st. fst (ReadFile (branchWriter unmanagedSameService) rq st) =
        Inr \<lparr>ReadFileResult.Content = ''cpu'', HasFile = True\<rparr>) \<and>
   filter isReadFile unmanagedEvents = []"
proof -
  have same: "\<forall>rq st. fst (ReadFile (branchWriter unmanagedSameService) rq st) =
        Inr \<lparr>ReadFileResult.Content = ''cpu'', HasFile = True\<rparr>"
    by (simp add: unmanagedSameService_def stubService_def)
  have "filter isReadFile unmanagedEvents = []"
    using Run_unmanaged_before_noop[OF run_unmanaged_same normalized_newRunRequest
      unmanagedEvents_fetch unmanagedEvents_find not_contains_manual_marker same]
    by blast
  then show ?thesis
    using run_unmanaged_same normalized_newRunRequest unmanagedEvents_fetch unmanagedEvents_find
      not_contains_manual_marker same
    by blast
qed

text \<open>
  Claim C9. Normalization fails exactly when the profile URL is absent, its scheme or its
  host is empty, or the repository owner, the repository name or the artifact path is
  blank (empty after \<^verbatim>\<open>strings.TrimSpace\<close>); the error is one of five fixed messages and
  \<^verbatim>\<open>Run\<close> returns it without invoking a collaborator. Otherwise the result is the request
  with the sample duration set to 30 when it is not positive, the head branch set to
  \<^verbatim>\<open>cpgo\<close> when blank, and the marker, title, body and commit message set to their default
  literals when blank; nothing else changes.
\<close>

theorem normalized_defaults:
  "(case normalized req of
      Inl e \<Rightarrow>
        (case ProfileSettings.URL (Profile req) of
           None \<Rightarrow> True
         | Some u \<Rightarrow> Scheme u = [] \<or> Host u = [] \<or>
             TrimSpace (RepositorySettings.Owner (RunRequest.Repository req)) = [] \<or>
             TrimSpace (RepositorySettings.Name (RunRequest.Repository req)) = [] \<or>
             TrimSpace (PGOPath (RunRequest.Repository req)) = []) \<and>
        (e = Errorf ''profile url is required'' [] \<or>
         e = Errorf ''profile url must include scheme and host'' [] \<or>
         e = Errorf ''repository owner is required'' [] \<or>
         e = Errorf ''repository name is required'' [] \<or>
         e = Errorf ''repository pgo path is required'' []) \<and>
        Run svc req s = (Inl e, s, [])
    | Inr n \<Rightarrow>
        (case ProfileSettings.URL (Profile req) of
           None \<Rightarrow> False
         | Some u \<Rightarrow> Scheme u \<noteq> [] \<and> Host u \<noteq> [] \<and>
             TrimSpace (RepositorySettings.Owner (RunRequest.Repository req)) \<noteq> [] \<and>
             TrimSpace (RepositorySettings.Name (RunRequest.Repository req)) \<noteq> [] \<and>
             TrimSpace (PGOPath (RunRequest.Repository req)) \<noteq> []) \<and>
        n = req
          \<lparr>Profile := (Profile req)
             \<lparr>ProfileSettings.Seconds :=
                (if ProfileSettings.Seconds (Profile req) \<le> 0 then 30
                 else ProfileSettings.Seconds (Profile req))\<rparr>,
           RunRequest.Repository := (RunRequest.Repository req)
             \<lparr>RepositorySettings.HeadBranch :=
                (if TrimSpace (RepositorySettings.HeadBranch (RunRequest.Repository req)) = []
                 then ''cpgo''
                 else RepositorySettings.HeadBranch (RunRequest.Repository req))\<rparr>,
           RunRequest.PullRequest := (RunRequest.PullRequest req)
             \<lparr>ManagedByMarker :=
                (if TrimSpace (ManagedByMarker (RunRequest.PullRequest req)) = []
                 then ''<!-- managed-by:cpgo -->''
                 else ManagedByMarker (RunRequest.PullRequest req)),
              PullRequestSettings.Title :=
                (if TrimSpace (PullRequestSettings.Title (RunRequest.PullRequest req)) = []
                 then ''perf(pgo): refresh pgo profile''
                 else PullRequestSettings.Title (RunRequest.PullRequest req)),
              PullRequestSettings.Body :=
                (if TrimSpace (PullRequestSettings.Body (RunRequest.PullRequest req)) = []
                 then ''Automated PGO profile refresh.''
                 else PullRequestSettings.Body (RunRequest.PullRequest req))\<rparr>,
           RunRequest.Commit := (RunRequest.Commit req)
             \<lparr>CommitSettings.Message :=
                (if TrimSpace (CommitSettings.Message (RunRequest.Commit req)) = []
                 then ''perf(pgo): refresh pgo profile''
                 else CommitSettings.Message (RunRequest.Commit req))\<rparr>\<rparr>)"
proof (cases "ProfileSettings.URL (Profile req)")
  case None
  note N = normalized_no_url[OF None]
  show ?thesis unfolding N sum.case using None Run_invalid[OF N] by simp
next
  case (Some u)
  consider (url) "Scheme u = [] \<or> Host u = []"
    | (owner) "Scheme u \<noteq> []" "Host u \<noteq> []"
        "TrimSpace (RepositorySettings.Owner (RunRequest.Repository req)) = []"
    | (name) "Scheme u \<noteq> []" "Host u \<noteq> []"
        "TrimSpace (RepositorySettings.Owner (RunRequest.Repository req)) \<noteq> []"
        "TrimSpace (RepositorySettings.Name (RunRequest.Repository req)) = []"
    | (path) "Scheme u \<noteq> []" "Host u \<noteq> []"
        "TrimSpace (RepositorySettings.Owner (RunRequest.Repository req)) \<noteq> []"
        "TrimSpace (RepositorySettings.Name (RunRequest.Repository req)) \<noteq> []"
        "TrimSpace (PGOPath (RunRequest.Repository req)) = []"
    | (ok) "Scheme u \<noteq> []" "Host u \<noteq> []"
        "TrimSpace (RepositorySettings.Owner (RunRequest.Repository req)) \<noteq> []"
        "TrimSpace (RepositorySettings.Name (RunRequest.Repository req)) \<noteq> []"
        "TrimSpace (PGOPath (RunRequest.Repository req)) \<noteq> []"
    by blast
  then show ?thesis
  proof cases
    case url
    note N = normalized_bad_url[OF Some url]
    show ?thesis unfolding N sum.case using Some url Run_invalid[OF N, of svc s] by auto
  next
    case owner
    note N = normalized_no_owner[OF Some owner]
    show ?thesis unfolding N sum.case using Some owner Run_invalid[OF N] by simp
  next
    case name
    note N = normalized_no_name[OF Some name]
    show ?thesis unfolding N sum.case using Some name Run_invalid[OF N] by simp
  next
    case path
    note N = normalized_no_path[OF Some path]
    show ?thesis unfolding N sum.case using Some path Run_invalid[OF N] by simp
  next
    case ok
    note N = normalized_ok[OF Some ok]
    show ?thesis unfolding N sum.case using Some ok by simp
  qed
qed

theorem normalized_defaults_witness:
  "normalized noURLRequest = Inl (Errorf ''profile url is required'' []) \<and>
   Run createService noURLRequest () = (Inl (Errorf ''profile url is required'' []), (), []) \<and>
   normalized newRunRequest = Inr normalizedRunRequest \<and>
   ProfileSettings.Seconds (Profile newRunRequest) \<le> 0 \<and>
   TrimSpace (RepositorySettings.HeadBranch (RunRequest.Repository newRunRequest)) = [] \<and>
   ProfileSettings.Seconds (Profile normalizedRunRequest) = 30 \<and>
   RepositorySettings.HeadBranch (RunRequest.Repository normalizedRunRequest) = ''cpgo''"
proof -
  have a: "Run createService noURLRequest () = (Inl (Errorf ''profile url is required'' []), (), [])"
    using normalized_defaults[of noURLRequest createService "()"]
    unfolding normalized_noURLRequest sum.case by blast
  have b: "ProfileSettings.Seconds (Profile newRunRequest) \<le> 0"
    "TrimSpace (RepositorySettings.HeadBranch (RunRequest.Repository newRunRequest)) = []"
    by (simp_all add: newRunRequest_def TrimSpace_Nil)
  have E: "normalizedRunRequest = newRunRequest
          \<lparr>Profile := (Profile newRunRequest)
             \<lparr>ProfileSettings.Seconds :=
                (if ProfileSettings.Seconds (Profile newRunRequest) \<le> 0 then 30
                 else ProfileSettings.Seconds (Profile newRunRequest))\<rparr>,
           RunRequest.Repository := (RunRequest.Repository newRunRequest)
             \<lparr>RepositorySettings.HeadBranch :=
                (if TrimSpace (RepositorySettings.HeadBranch (RunRequest.Repository newRunRequest)) = []
                 then ''cpgo''
                 else RepositorySettings.HeadBranch (RunRequest.Repository newRunRequest))\<rparr>,
           RunRequest.PullRequest := (RunRequest.PullRequest newRunRequest)
             \<lparr>ManagedByMarker :=
                (if TrimSpace (ManagedByMarker (RunRequest.PullRequest newRunRequest)) = []
                 then ''<!-- managed-by:cpgo -->''
                 else ManagedByMarker (RunRequest.PullRequest newRunRequest)),
              PullRequestSettings.Title :=
                (if TrimSpace (PullRequestSettings.Title (RunRequest.PullRequest newRunRequest)) = []
                 then ''perf(pgo): refresh pgo profile''
                 else PullRequestSettings.Title (RunRequest.PullRequest newRunRequest)),
              PullRequestSettings.Body :=
                (if TrimSpace (PullRequestSettings.Body (RunRequest.PullRequest newRunRequest)) = []
                 then ''Automated PGO profile refresh.''
                 else PullRequestSettings.Body (RunRequest.PullRequest newRunRequest))\<rparr>,
           RunRequest.Commit := (RunRequest.Commit newRunRequest)
             \<lparr>CommitSettings.Message :=
                (if TrimSpace (CommitSettings.Message (RunRequest.Commit newRunRequest)) = []
                 then ''perf(pgo): refresh pgo profile''
                 else CommitSettings.Message (RunRequest.Commit newRunRequest))\<rparr>\<rparr>"
    using normalized_defaults[of newRunRequest createService "()"]
    unfolding normalized_newRunRequest sum.case by blast
  have c: "ProfileSettings.Seconds (Profile normalizedRunRequest) = 30"
    "RepositorySettings.HeadBranch (RunRequest.Repository normalizedRunRequest) = ''cpgo''"
    by (subst E, simp add: b)+
  show ?thesis using a b c normalized_noURLRequest normalized_newRunRequest by blast
qed

text \<open>
  Claim C5, as it holds. \<^verbatim>\<open>appendMarker\<close> returns a body that contains the marker, and a
  second append changes nothing; a body that already contains the marker is returned
  unchanged. When the body does not contain the marker: a body that is empty or only white
  space is replaced by the marker alone, and any other body is returned with its trailing
  line feeds removed, followed by two line feeds and the marker. For a non-empty marker
  without a line feed the result contains the marker as often as the body did, and exactly
  once when the body did not contain it. The body of every pull request that a run creates
  is \<^verbatim>\<open>appendMarker\<close> of the normalized body and marker.
\<close>

theorem appendMarker_marker:
  "Contains (appendMarker body marker) marker \<and>
   appendMarker (appendMarker body marker) marker = appendMarker body marker \<and>
   (Contains body marker \<longrightarrow> appendMarker body marker = body) \<and>
   (\<not> Contains body marker \<longrightarrow> TrimSpace body = [] \<longrightarrow> appendMarker body marker = marker) \<and>
   (\<not> Contains body marker \<longrightarrow> TrimSpace body \<noteq> [] \<longrightarrow>
      appendMarker body marker = TrimRight body [CHR 0x0A] @ [CHR 0x0A, CHR 0x0A] @ marker) \<and>
   (marker \<noteq> [] \<longrightarrow> CHR 0x0A \<notin> set marker \<longrightarrow>
      occurrences (appendMarker body marker) marker =
        (if Contains body marker then occurrences body marker else 1)) \<and>
   (Run svc req s = (res, s', tr) \<longrightarrow> normalized req = Inr n \<longrightarrow> Create_call q r \<in> set tr \<longrightarrow>
      CreatePullRequestRequest.Body q =
        appendMarker (PullRequestSettings.Body (RunRequest.PullRequest n))
                     (ManagedByMarker (RunRequest.PullRequest n)))"
proof -
  have c: "Contains (appendMarker body marker) marker"
    by (simp add: appendMarker_def Contains_append2)
  have i: "appendMarker (appendMarker body marker) marker = appendMarker body marker"
    using c by (simp add: appendMarker_def[of "appendMarker body marker"])
  have o: "occurrences (appendMarker body marker) marker =
        (if Contains body marker then occurrences body marker else 1)"
    if "marker \<noteq> []" "CHR 0x0A \<notin> set marker"
    using that occurrences_separated[OF not_Contains_TrimRight, of body marker "[CHR 0x0A]"]
    by (simp add: appendMarker_def occurrences_self)
  have a1: "Contains body marker \<longrightarrow> appendMarker body marker = body"
    by (simp add: appendMarker_def)
  have a2: "\<not> Contains body marker \<longrightarrow> TrimSpace body = [] \<longrightarrow> appendMarker body marker = marker"
    by (simp add: appendMarker_def)
  have a3: "\<not> Contains body marker \<longrightarrow> TrimSpace body \<noteq> [] \<longrightarrow>
      appendMarker body marker = TrimRight body [CHR 0x0A] @ [CHR 0x0A, CHR 0x0A] @ marker"
    by (simp add: appendMarker_def)
  have r: "Run svc req s = (res, s', tr) \<longrightarrow> normalized req = Inr n \<longrightarrow> Create_call q r \<in> set tr \<longrightarrow>
      CreatePullRequestRequest.Body q =
        appendMarker (PullRequestSettings.Body (RunRequest.PullRequest n))
                     (ManagedByMarker (RunRequest.PullRequest n))"
    by (intro impI) (rule Create_call_body)
  show ?thesis using c i a1 a2 a3 o r by blast
qed

text \<open>
  With the default body and the default marker, the body of the created pull request is the
  default text, a blank line and the marker, and it contains the marker exactly once.
\<close>

theorem appendMarker_marker_witness:
  "\<not> Contains ''Automated PGO profile refresh.'' ''<!-- managed-by:cpgo -->'' \<and>
   TrimSpace ''Automated PGO profile refresh.'' \<noteq> [] \<and>
   ''<!-- managed-by:cpgo -->'' \<noteq> [] \<and>
   CHR 0x0A \<notin> set ''<!-- managed-by:cpgo -->'' \<and>
   appendMarker ''Automated PGO profile refresh.'' ''<!-- managed-by:cpgo -->'' =
     ''Automated PGO profile refresh.'' @ [CHR 0x0A, CHR 0x0A] @ ''<!-- managed-by:cpgo -->'' \<and>
   occurrences (appendMarker ''Automated PGO profile refresh.'' ''<!-- managed-by:cpgo -->'')
     ''<!-- managed-by:cpgo -->'' = 1 \<and>
   Contains (appendMarker ''Automated PGO profile refresh.'' ''<!-- managed-by:cpgo -->'')
     ''<!-- managed-by:cpgo -->'' \<and>
   appendMarker (appendMarker ''Automated PGO profile refresh.'' ''<!-- managed-by:cpgo -->'')
     ''<!-- managed-by:cpgo -->'' =
     appendMarker ''Automated PGO profile refresh.'' ''<!-- managed-by:cpgo -->'' \<and>
   Run createService newRunRequest () =
    (Inr ((changedResult normalizedRunRequest ''main''
              \<lparr>UpsertFileResult.CommitSHA = ''abc123'', IsBranchCreated = False\<rparr>)
            \<lparr>PullRequestNumber := 22, IsPullRequestCreated := True\<rparr>), (), createEvents) \<and>
   normalized newRunRequest = Inr normalizedRunRequest \<and>
   Create_call (createPullRequestRequest normalizedRunRequest ''main'') (Inr createdPullRequest)
     \<in> set createEvents \<and>
   CreatePullRequestRequest.Body (createPullRequestRequest normalizedRunRequest ''main'') =
     appendMarker ''Automated PGO profile refresh.'' ''<!-- managed-by:cpgo -->''"
proof -
  have ne: "''<!-- managed-by:cpgo -->'' \<noteq> []" by simp
  note T = appendMarker_marker[of "''Automated PGO profile refresh.''" "''<!-- managed-by:cpgo -->''"
      createService newRunRequest "()" _ "()" createEvents normalizedRunRequest]
  from T default_body_facts ne
  have "appendMarker ''Automated PGO profile refresh.'' ''<!-- managed-by:cpgo -->'' =
     ''Automated PGO profile refresh.'' @ [CHR 0x0A, CHR 0x0A] @ ''<!-- managed-by:cpgo -->''"
    by metis
  moreover from T default_body_facts ne
  have "occurrences (appendMarker ''Automated PGO profile refresh.'' ''<!-- managed-by:cpgo -->'')
     ''<!-- managed-by:cpgo -->'' = 1"
    by metis
  moreover from T
  have "Contains (appendMarker ''Automated PGO profile refresh.'' ''<!-- managed-by:cpgo -->'')
     ''<!-- managed-by:cpgo -->''"
    "appendMarker (appendMarker ''Automated PGO profile refresh.'' ''<!-- managed-by:cpgo -->'')
     ''<!-- managed-by:cpgo -->'' =
     appendMarker ''Automated PGO profile refresh.'' ''<!-- managed-by:cpgo -->''"
    by blast+
  ultimately show ?thesis
    using default_body_facts ne run_create normalized_newRunRequest createEvents_create created_body
    by blast
qed

text \<open>
  The claim as stated fails in three ways: a body of white space is not kept in front of the
  marker, the trailing line feed of a body is not kept, and a body that already contains
  the marker twice still contains it twice.
\<close>

theorem appendMarker_counterexample:
  "\<not> Contains ''  '' ''m'' \<and>
   appendMarker ''  '' ''m'' \<noteq> ''  '' @ [CHR 0x0A, CHR 0x0A] @ ''m'' \<and>
   \<not> Contains [CHR ''a'', CHR 0x0A] ''m'' \<and>
   appendMarker [CHR ''a'', CHR 0x0A] ''m'' \<noteq> [CHR ''a'', CHR 0x0A] @ [CHR 0x0A, CHR 0x0A] @ ''m'' \<and>
   occurrences (appendMarker ''m m'' ''m'') ''m'' = 2"
  by code_simp

text \<open>
  Claim C6. Over the events of a call to \<^verbatim>\<open>UpsertFileAndForceBranch\<close>: the first
  mutation of a ref, when there is one, is the forced update of \<^verbatim>\<open>heads/<head branch>\<close> to
  the commit the call has just created. When the platform accepts it, it is the only
  mutation and the call reports \<open>IsBranchCreated = False\<close>. When it fails because the ref
  does not exist (a 404, or a 422 whose message or error list says ``reference does not
  exist''), the next mutation is the creation of \<^verbatim>\<open>refs/heads/<head branch>\<close> at that same
  commit, and when the platform accepts the creation the call makes no further mutation and
  reports \<open>IsBranchCreated = True\<close>. Any other failure of the update is returned, wrapped,
  and nothing is created.
\<close>

theorem UpsertFileAndForceBranch_branch_created:
  assumes "Client_UpsertFileAndForceBranch unicodeLower githubClient req s = (res, s', tr)"
      and "filter isRefMutation tr = Git_UpdateRef_call owner name ref update answer # rest"
    shows "\<exists>commit sha.
            Git_CreateCommit_call owner name commit (Inr sha) \<in> set tr \<and>
            ref = ''heads/'' @ UpsertFileRequest.HeadBranch req \<and>
            update = \<lparr>UpdateRef.SHA = TrimSpace sha, Force = True\<rparr> \<and>
            (case answer of
               Inr _ \<Rightarrow>
                 rest = [] \<and>
                 res = Inr \<lparr>UpsertFileResult.CommitSHA = TrimSpace sha, IsBranchCreated = False\<rparr>
             | Inl err \<Rightarrow>
                 if isNotFound err \<or> isReferenceMissing unicodeLower err then
                   \<exists>created rest'.
                     rest = Git_CreateRef_call owner name
                              \<lparr>Ref = ''refs/heads/'' @ UpsertFileRequest.HeadBranch req,
                               CreateRef.SHA = TrimSpace sha\<rparr> created # rest' \<and>
                     (created = Inr () \<longrightarrow>
                        rest' = [] \<and>
                        res = Inr \<lparr>UpsertFileResult.CommitSHA = TrimSpace sha,
                                   IsBranchCreated = True\<rparr>)
                 else
                   rest = [] \<and> res = Inl (Wrapf ''force update branch ref: %w'' [] err))"
proof -
  from UpsertFileAndForceBranch_outcomes[OF assms(1)] assms(2)
  obtain pre t commit sha s1 r where
    tr: "tr = pre @ t" and pre: "filter isRefMutation pre = []" and
    mem: "Git_CreateCommit_call (RepositoryRef.Owner (UpsertFileRequest.Repository req))
          (RepositoryRef.Name (UpsertFileRequest.Repository req)) commit (Inr sha) \<in> set pre" and
    head: "updateHeadRef unicodeLower githubClient (UpsertFileRequest.Repository req)
          (UpsertFileRequest.HeadBranch req) (TrimSpace sha) s1 = (r, s', t)" and
    res: "res = (case r of
                 Inl e \<Rightarrow> Inl e
               | Inr isBranchCreated \<Rightarrow>
                   Inr \<lparr>UpsertFileResult.CommitSHA = TrimSpace sha,
                        IsBranchCreated = isBranchCreated\<rparr>)"
    by auto
  from tr pre assms(2) have t: "filter isRefMutation t =
      Git_UpdateRef_call owner name ref update answer # rest"
    by simp
  from updateHeadRef_outcomes[OF head] t res mem tr
  show ?thesis
    by (elim disjE exE conjE)
       (auto simp: updateRefEvent_def createRefEvent_def intro!: exI[of _ commit] exI[of _ sha])
qed

theorem UpsertFileAndForceBranch_branch_created_witness:
  "Client_UpsertFileAndForceBranch id (fakeGitHub Quiet (readmeTree False) (Inl notFound))
     upsertRequest False =
     (Inr \<lparr>UpsertFileResult.CommitSHA = ''commit-sha'', IsBranchCreated = True\<rparr>, True,
      commitEvents @ [headUpdate (Inl missingRef), headCreate (Inr ())]) \<and>
   filter isRefMutation (commitEvents @ [headUpdate (Inl missingRef), headCreate (Inr ())]) =
     Git_UpdateRef_call ''acme'' ''payments'' ''heads/cpgo''
       \<lparr>UpdateRef.SHA = ''commit-sha'', Force = True\<rparr> (Inl missingRef) # [headCreate (Inr ())] \<and>
   isReferenceMissing id missingRef \<and>
   (\<exists>commit sha. Git_CreateCommit_call ''acme'' ''payments'' commit (Inr sha)
        \<in> set (commitEvents @ [headUpdate (Inl missingRef), headCreate (Inr ())]) \<and>
      ''commit-sha'' = TrimSpace sha \<and>
      headCreate (Inr ()) =
        Git_CreateRef_call ''acme'' ''payments''
          \<lparr>Ref = ''refs/heads/'' @ UpsertFileRequest.HeadBranch upsertRequest,
           CreateRef.SHA = TrimSpace sha\<rparr> (Inr ())) \<and>
   Client_UpsertFileAndForceBranch id (fakeGitHub Quiet (readmeTree False) (Inl notFound))
     upsertRequest True =
     (Inr \<lparr>UpsertFileResult.CommitSHA = ''commit-sha'', IsBranchCreated = False\<rparr>, True,
      commitEvents @ [headUpdate (Inr ())]) \<and>
   filter isRefMutation (commitEvents @ [headUpdate (Inr ())]) =
     Git_UpdateRef_call ''acme'' ''payments'' ''heads/cpgo''
       \<lparr>UpdateRef.SHA = ''commit-sha'', Force = True\<rparr> (Inr ()) # [] \<and>
   (\<exists>commit sha. Git_CreateCommit_call ''acme'' ''payments'' commit (Inr sha)
        \<in> set (commitEvents @ [headUpdate (Inr ())]) \<and> ''commit-sha'' = TrimSpace sha)"
proof -
  have "\<exists>commit sha. Git_CreateCommit_call ''acme'' ''payments'' commit (Inr sha)
        \<in> set (commitEvents @ [headUpdate (Inl missingRef), headCreate (Inr ())]) \<and>
      ''commit-sha'' = TrimSpace sha \<and>
      headCreate (Inr ()) =
        Git_CreateRef_call ''acme'' ''payments''
          \<lparr>Ref = ''refs/heads/'' @ UpsertFileRequest.HeadBranch upsertRequest,
           CreateRef.SHA = TrimSpace sha\<rparr> (Inr ())"
    using UpsertFileAndForceBranch_branch_created[OF upsert_created created_mutations]
      missingRef_class
    by (auto simp: headCreate_def)
  moreover have "\<exists>commit sha. Git_CreateCommit_call ''acme'' ''payments'' commit (Inr sha)
        \<in> set (commitEvents @ [headUpdate (Inr ())]) \<and> ''commit-sha'' = TrimSpace sha"
    using UpsertFileAndForceBranch_branch_created[OF upsert_updated updated_mutations]
    by auto
  ultimately show ?thesis
    using upsert_created created_mutations upsert_updated updated_mutations missingRef_class
    by blast
qed




text \<open>
  Claim C8. Over the events of a call to \<^verbatim>\<open>ReadFile\<close> that listed the tree of the base
  branch: when no entry of the listing has exactly the requested path, the call returns
  \<open>HasFile = False\<close> and no error if the listing is complete, and the truncated-tree error
  if it is truncated; when the first entry with that path is not of type \<^verbatim>\<open>blob\<close>, the
  call fails with the not-a-blob error; and when the fetch of the blob is answered with
  a 404, the call returns \<open>HasFile = False\<close> and no error.
\<close>

theorem ReadFile_missing_path:
  assumes "Client_ReadFile githubClient req s = (res, s', tr)"
      and "Git_GetTree_call owner name sha recursive (Inr tree) \<in> set tr"
    shows
      "(find (\<lambda>entry. TreeEntry.Path entry = ReadFileRequest.Path req) (Entries tree) = None \<longrightarrow>
          res = (if Truncated tree then
                   Inl (Errorf ''tree response was truncated while resolving path %q''
                          [ReadFileRequest.Path req])
                 else Inr \<lparr>ReadFileResult.Content = [], HasFile = False\<rparr>)) \<and>
       (\<forall>entry. find (\<lambda>entry. TreeEntry.Path entry = ReadFileRequest.Path req) (Entries tree)
                  = Some entry \<longrightarrow> TreeEntry.Type entry \<noteq> ''blob'' \<longrightarrow>
          res = Inl (Errorf ''path %q is not a blob entry'' [ReadFileRequest.Path req])) \<and>
       (\<forall>blobSHA err. Git_GetBlobRaw_call owner name blobSHA (Inl err) \<in> set tr \<longrightarrow>
          isNotFound err \<longrightarrow> res = Inr \<lparr>ReadFileResult.Content = [], HasFile = False\<rparr>)"
proof -
  let ?found = "Git_GetTree_call owner name sha recursive (Inr tree)"
  from ReadFile_outcomes[OF assms(1)]
  consider (early) "list_all isLookup tr"
    | (failed) pre sha' e where "list_all isLookup pre"
        "tr = pre @ [Git_GetTree_call (RepositoryRef.Owner (ReadFileRequest.Repository req))
                      (RepositoryRef.Name (ReadFileRequest.Repository req)) sha' True (Inl e)]"
    | (listed) pre sha' tree' post where "list_all isLookup pre" "afterTree req tree' post res"
        "tr = pre @ Git_GetTree_call (RepositoryRef.Owner (ReadFileRequest.Repository req))
                     (RepositoryRef.Name (ReadFileRequest.Repository req)) sha' True (Inr tree')
                   # post"
    by blast
  then show ?thesis
  proof cases
    case early
    with assms(2) lookup_events(2) show ?thesis by blast
  next
    case failed
    with assms(2) lookup_events(2)[OF failed(1)] show ?thesis by auto
  next
    case listed
    have post: "?found \<notin> set post"
      using listed(2) unfolding afterTree_def
      by (cases "blobSHAOf (Entries tree') (ReadFileRequest.Path req)") (auto split: if_splits)
    with assms(2) listed(3) lookup_events(2)[OF listed(1)] have same: "tree' = tree"
      and names: "owner = RepositoryRef.Owner (ReadFileRequest.Repository req)"
        "name = RepositoryRef.Name (ReadFileRequest.Repository req)"
      by auto
    note after = listed(2)[unfolded same]
    have none: "res = (if Truncated tree then
                   Inl (Errorf ''tree response was truncated while resolving path %q''
                          [ReadFileRequest.Path req])
                 else Inr \<lparr>ReadFileResult.Content = [], HasFile = False\<rparr>)"
      if "find (\<lambda>entry. TreeEntry.Path entry = ReadFileRequest.Path req) (Entries tree) = None"
      using after blobSHAOf_no_match[OF that] by (simp add: afterTree_def)
    have other: "res = Inl (Errorf ''path %q is not a blob entry'' [ReadFileRequest.Path req])"
      if "find (\<lambda>entry. TreeEntry.Path entry = ReadFileRequest.Path req) (Entries tree) = Some entry"
        "TreeEntry.Type entry \<noteq> ''blob''" for entry
      using after blobSHAOf_match[OF that(1)] that(2) by (simp add: afterTree_def)
    have gone: "res = Inr \<lparr>ReadFileResult.Content = [], HasFile = False\<rparr>"
      if "Git_GetBlobRaw_call owner name blobSHA (Inl err) \<in> set tr" "isNotFound err"
      for blobSHA err
    proof -
      from that(1) listed(3) lookup_events(3)[OF listed(1)]
      have "Git_GetBlobRaw_call owner name blobSHA (Inl err) \<in> set post" by auto
      with after that(2) show ?thesis
        unfolding afterTree_def
        by (cases "blobSHAOf (Entries tree) (ReadFileRequest.Path req)") (auto split: if_splits)
    qed
    from none other gone show ?thesis by blast
  qed
qed

theorem ReadFile_missing_path_witness:
  "Client_ReadFile (fakeGitHub Quiet (readmeTree False) (Inl notFound)) readRequest False =
     (Inr \<lparr>ReadFileResult.Content = [], HasFile = False\<rparr>, False,
      treeEvents (readmeTree False)) \<and>
   Git_GetTree_call ''acme'' ''payments'' ''base-tree'' True (Inr (readmeTree False))
     \<in> set (treeEvents (readmeTree False)) \<and>
   find (\<lambda>entry. TreeEntry.Path entry = ReadFileRequest.Path readRequest)
     (Entries (readmeTree False)) = None \<and>
   \<not> Truncated (readmeTree False) \<and>
   fst (Client_ReadFile (fakeGitHub Quiet (readmeTree True) (Inl notFound)) readRequest False) =
     Inl (Errorf ''tree response was truncated while resolving path %q'' [''default.pgo'']) \<and>
   fst (Client_ReadFile (fakeGitHub Quiet (pgoTree ''tree'') (Inl notFound)) readRequest False) =
     Inl (Errorf ''path %q is not a blob entry'' [''default.pgo'']) \<and>
   Git_GetBlobRaw_call ''acme'' ''payments'' ''pgo-sha'' (Inl notFound)
     \<in> set (snd (snd (Client_ReadFile (fakeGitHub Quiet (pgoTree ''blob'') (Inl notFound))
                        readRequest False))) \<and>
   isNotFound notFound \<and>
   fst (Client_ReadFile (fakeGitHub Quiet (pgoTree ''blob'') (Inl notFound)) readRequest False) =
     Inr \<lparr>ReadFileResult.Content = [], HasFile = False\<rparr>"
proof -
  have path: "ReadFileRequest.Path readRequest = ''default.pgo''"
    by (simp add: readRequest_def)
  have plain: "\<not> Truncated (readmeTree False)" and cut: "Truncated (readmeTree True)"
    by (simp_all add: readmeTree_def)
  have kind: "TreeEntry.Type \<lparr>TreeEntry.Path = ''default.pgo'', Mode = ''100644'',
      Type = ''tree'', TreeEntry.SHA = ''pgo-sha''\<rparr> \<noteq> ''blob''"
    by simp
  have gone: "Git_GetBlobRaw_call ''acme'' ''payments'' ''pgo-sha'' (Inl notFound)
     \<in> set (treeEvents (pgoTree ''blob'') @
        [Git_GetBlobRaw_call ''acme'' ''payments'' ''pgo-sha'' (Inl notFound)])"
    by simp
  have listed: "Git_GetTree_call ''acme'' ''payments'' ''base-tree'' True (Inr (pgoTree ''blob''))
     \<in> set (treeEvents (pgoTree ''blob'') @
        [Git_GetBlobRaw_call ''acme'' ''payments'' ''pgo-sha'' (Inl notFound)])"
    using treeEvents_tree by simp
  have "fst (Client_ReadFile (fakeGitHub Quiet (readmeTree True) (Inl notFound)) readRequest
          False) =
     Inl (Errorf ''tree response was truncated while resolving path %q'' [''default.pgo''])"
    using ReadFile_missing_path[OF readFile_truncated treeEvents_tree] find_readme cut path
    by (simp add: readFile_truncated)
  moreover have "fst (Client_ReadFile (fakeGitHub Quiet (pgoTree ''tree'') (Inl notFound))
          readRequest False) =
     Inl (Errorf ''path %q is not a blob entry'' [''default.pgo''])"
    using ReadFile_missing_path[OF readFile_not_blob treeEvents_tree] find_pgo kind path
    by (simp add: readFile_not_blob)
  moreover have "fst (Client_ReadFile (fakeGitHub Quiet (pgoTree ''blob'') (Inl notFound))
          readRequest False) = Inr \<lparr>ReadFileResult.Content = [], HasFile = False\<rparr>"
    using ReadFile_missing_path[OF readFile_blob_gone listed] gone notFound_class
    by (simp add: readFile_blob_gone)
  moreover have "Inr \<lparr>ReadFileResult.Content = [], HasFile = False\<rparr> =
      (if Truncated (readmeTree False) then
         Inl (Errorf ''tree response was truncated while resolving path %q''
                [ReadFileRequest.Path readRequest])
       else Inr \<lparr>ReadFileResult.Content = [], HasFile = False\<rparr>)"
    using ReadFile_missing_path[OF readFile_missing treeEvents_tree] find_readme[of False]
    by (elim conjE) (erule mp)
  ultimately show ?thesis
    using readFile_missing treeEvents_tree find_readme plain gone notFound_class
    by (simp add: readFile_blob_gone)
qed


text \<open>
  Claim C7, as the code has it. A run of the service wired to the client (\<open>newService\<close>),
  started with an empty log, makes at most three mutations of a ref: at most two forced
  updates and at most one creation. (The claim says at most two mutations; the forced
  update, the creation and the retried forced update are three.) The second half of the
  claim holds as stated: when the mutations of a call to \<^verbatim>\<open>UpsertFileAndForceBranch\<close> are
  a failed update, a failed creation and a failed retry of the update, the call returns
  the combined error that carries the error of the creation and the error of the retry.
\<close>

theorem ref_mutation_attempts:
  "(Run (newService unicodeLower githubClient fetcher validator) req (w, []) = (res, (w', log), tr) \<longrightarrow>
      length (filter isRefMutation log) \<le> 3 \<and>
      length (filter isUpdateRef log) \<le> 2 \<and>
      length (filter isCreateRef log) \<le> 1) \<and>
   (Client_UpsertFileAndForceBranch unicodeLower githubClient upsertReq w0 = (answer, w1, t) \<longrightarrow>
    filter isRefMutation t =
      [Git_UpdateRef_call owner1 name1 ref1 update1 (Inl err),
       Git_CreateRef_call owner2 name2 create (Inl createErr),
       Git_UpdateRef_call owner3 name3 ref3 update3 (Inl updateErr)] \<longrightarrow>
    answer = Inl (Wrapf2 ''create branch ref: %w (retry update failed: %v)'' createErr updateErr))"
proof (intro conjI impI)
  assume run: "Run (newService unicodeLower githubClient fetcher validator) req (w, []) = (res, (w', log), tr)"
  from newService_bound[OF run, of isRefMutation 3] UpsertFileAndForceBranch_events(1)
  show "length (filter isRefMutation log) \<le> 3" by fastforce
  from newService_bound[OF run, of isUpdateRef 2] UpsertFileAndForceBranch_events(2)
    isUpdateRef_mutation
  show "length (filter isUpdateRef log) \<le> 2" by fastforce
  from newService_bound[OF run, of isCreateRef 1] UpsertFileAndForceBranch_events(3)
    isCreateRef_mutation
  show "length (filter isCreateRef log) \<le> 1" by fastforce
next
  assume call: "Client_UpsertFileAndForceBranch unicodeLower githubClient upsertReq w0 = (answer, w1, t)"
    and three: "filter isRefMutation t =
      [Git_UpdateRef_call owner1 name1 ref1 update1 (Inl err),
       Git_CreateRef_call owner2 name2 create (Inl createErr),
       Git_UpdateRef_call owner3 name3 ref3 update3 (Inl updateErr)]"
  from UpsertFileAndForceBranch_outcomes[OF call] three
  obtain pre t' commitSHA s1 r where
    t: "t = pre @ t'" and pre: "filter isRefMutation pre = []" and
    head: "updateHeadRef unicodeLower githubClient (UpsertFileRequest.Repository upsertReq)
          (UpsertFileRequest.HeadBranch upsertReq) commitSHA s1 = (r, w1, t')" and
    res: "answer = (case r of
                 Inl e \<Rightarrow> Inl e
               | Inr isBranchCreated \<Rightarrow>
                   Inr \<lparr>UpsertFileResult.CommitSHA = commitSHA,
                        IsBranchCreated = isBranchCreated\<rparr>)"
    by auto
  from t pre three have "filter isRefMutation t' =
      [Git_UpdateRef_call owner1 name1 ref1 update1 (Inl err),
       Git_CreateRef_call owner2 name2 create (Inl createErr),
       Git_UpdateRef_call owner3 name3 ref3 update3 (Inl updateErr)]"
    by simp
  with updateHeadRef_outcomes[OF head] res
  show "answer = Inl (Wrapf2 ''create branch ref: %w (retry update failed: %v)'' createErr updateErr)"
    by (elim disjE exE conjE) (auto simp: updateRefEvent_def createRefEvent_def)
qed

theorem ref_mutation_attempts_witness:
  "Run (newService id (fakeGitHub Raced (readmeTree False) (Inl notFound))
          (profileFetcherStub ''new-profile'') profileValidatorStub) newRunRequest (False, []) =
     (Inr racedResult, (True, racedLog), racedEvents) \<and>
   length (filter isRefMutation racedLog) \<le> 3 \<and>
   length (filter isUpdateRef racedLog) \<le> 2 \<and>
   length (filter isCreateRef racedLog) \<le> 1 \<and>
   filter isRefMutation
     (snd (snd (Client_UpsertFileAndForceBranch id
        (fakeGitHub Locked (readmeTree False) (Inl notFound)) upsertRequest False))) =
     [Git_UpdateRef_call ''acme'' ''payments'' ''heads/cpgo''
        \<lparr>UpdateRef.SHA = ''commit-sha'', Force = True\<rparr> (Inl missingRef),
      Git_CreateRef_call ''acme'' ''payments''
        \<lparr>Ref = ''refs/heads/cpgo'', CreateRef.SHA = ''commit-sha''\<rparr> (Inl existingRef),
      Git_UpdateRef_call ''acme'' ''payments'' ''heads/cpgo''
        \<lparr>UpdateRef.SHA = ''commit-sha'', Force = True\<rparr> (Inl missingRef)] \<and>
   fst (Client_UpsertFileAndForceBranch id
        (fakeGitHub Locked (readmeTree False) (Inl notFound)) upsertRequest False) =
     Inl (Wrapf2 ''create branch ref: %w (retry update failed: %v)'' existingRef missingRef)"
proof -
  note run = run_raced'[unfolded racedService_def]
  have locked: "Client_UpsertFileAndForceBranch id
      (fakeGitHub Locked (readmeTree False) (Inl notFound)) upsertRequest False =
     (fst (Client_UpsertFileAndForceBranch id
        (fakeGitHub Locked (readmeTree False) (Inl notFound)) upsertRequest False), False,
      commitEvents @
      [headUpdate (Inl missingRef), headCreate (Inl existingRef), headUpdate (Inl missingRef)])"
    by (simp add: upsert_locked)
  have "length (filter isRefMutation racedLog) \<le> 3 \<and>
    length (filter isUpdateRef racedLog) \<le> 2 \<and> length (filter isCreateRef racedLog) \<le> 1"
    by (rule ref_mutation_attempts[THEN conjunct1, THEN mp, OF run])
  moreover have "fst (Client_UpsertFileAndForceBranch id
        (fakeGitHub Locked (readmeTree False) (Inl notFound)) upsertRequest False) =
     Inl (Wrapf2 ''create branch ref: %w (retry update failed: %v)'' existingRef missingRef)"
    by (rule ref_mutation_attempts[THEN conjunct2, THEN mp, THEN mp,
          OF locked locked_mutations])
  moreover have "filter isRefMutation
     (snd (snd (Client_UpsertFileAndForceBranch id
        (fakeGitHub Locked (readmeTree False) (Inl notFound)) upsertRequest False))) =
     [Git_UpdateRef_call ''acme'' ''payments'' ''heads/cpgo''
        \<lparr>UpdateRef.SHA = ''commit-sha'', Force = True\<rparr> (Inl missingRef),
      Git_CreateRef_call ''acme'' ''payments''
        \<lparr>Ref = ''refs/heads/cpgo'', CreateRef.SHA = ''commit-sha''\<rparr> (Inl existingRef),
      Git_UpdateRef_call ''acme'' ''payments'' ''heads/cpgo''
        \<lparr>UpdateRef.SHA = ''commit-sha'', Force = True\<rparr> (Inl missingRef)]"
    using locked_mutations by (simp only: upsert_locked snd_conv)
  ultimately show ?thesis
    using run by blast
qed

text \<open>
  A run in which another actor creates the head ref between the failed update and the
  creation: the log of the platform holds three mutations of the ref, and the run
  succeeds.
\<close>

theorem ref_mutation_attempts_counterexample:
  "Run racedService newRunRequest (False, []) = (Inr racedResult, (True, racedLog), racedEvents) \<and>
   filter isRefMutation racedLog =
     [headUpdate (Inl missingRef), headCreate (Inl existingRef), headUpdate (Inr ())] \<and>
   length (filter isRefMutation racedLog) = 3"
  by (simp add: run_raced' racedLog_mutations)


end
